theory Spec2Isabelle
  imports Main "HOL-Library.Word"
begin

chapter \<open>termix-agent: the agent runtime core\<close>

text \<open>
  A shallow embedding of the agent's runtime core: the reconnect policy of
  \<open>Agent.Run\<close>, the bounded command executor, the pty session manager, the two pty
  backends and the message codec. Go's \<open>time.Duration\<close> is a signed 64-bit count of
  nanoseconds and is modelled as a \<open>64 word\<close> read with \<open>sint\<close>; operating-system
  and library outcomes (dial results, user lookup, process exit, scheduling of the
  goroutines) are explicit inputs of the functions that consume them.
\<close>

section \<open>Operating system and library values\<close>

text \<open>Go's \<open>int\<close> on the 64-bit targets the agent is built for, and bytes.\<close>

type_synonym go_int = "64 word"
type_synonym byte = "8 word"

text \<open>Errors returned by the operating system and the libraries: \<open>os.ErrClosed\<close>
  (``file already closed''), an \<open>errno\<close>, or any other error with its text.\<close>

datatype os_error = ErrClosed | Errno nat | OSError string

text \<open>\<open>os/user.User\<close>, as \<open>user.Lookup\<close> returns it.\<close>

record user =
  Uid :: string
  Gid :: string
  Username :: string
  Name :: string
  HomeDir :: string

text \<open>\<open>syscall.Credential\<close> (inside \<open>syscall.SysProcAttr\<close>) and the fields of
  \<open>exec.Cmd\<close> the agent sets. \<open>Process\<close> is set once the command has been started: it
  holds the number of kill signals sent to the process so far.\<close>

record Credential =
  cred_Uid :: "32 word"
  cred_Gid :: "32 word"

record Cmd =
  Path :: string
  Args :: "string list"
  Env :: "string list"
  Dir :: string
  SysProcAttr :: "Credential option"
  Process :: "nat option"

text \<open>\<open>exec.Command(name, arg...)\<close>; the search-path resolution of a \<open>name\<close> without a
  path separator is left out, \<open>Path\<close> is \<open>name\<close>.\<close>

definition exec_Command :: "string \<Rightarrow> string list \<Rightarrow> Cmd" where
  "exec_Command name arg =
     \<lparr>Path = name, Args = name # arg, Env = [], Dir = [], SysProcAttr = None, Process = None\<rparr>"

text \<open>\<open>strconv.Atoi\<close>: an optional sign and decimal digits, within the range of \<open>int\<close>.\<close>

definition digit_of :: "char \<Rightarrow> nat option" where
  "digit_of c =
     (if (48::nat) \<le> of_char c \<and> of_char c \<le> (57::nat) then Some (of_char c - 48) else None)"

fun digits_val :: "nat \<Rightarrow> string \<Rightarrow> nat option" where
  "digits_val acc [] = Some acc"
| "digits_val acc (c # cs) =
     (case digit_of c of None \<Rightarrow> None | Some d \<Rightarrow> digits_val (10 * acc + d) cs)"

definition Atoi :: "string \<Rightarrow> go_int option" where
  "Atoi s =
     (let neg = (s \<noteq> [] \<and> hd s = CHR ''-'');
          ds = (if s \<noteq> [] \<and> (hd s = CHR ''-'' \<or> hd s = CHR ''+'') then tl s else s)
      in if ds = [] then None
         else (case digits_val 0 ds of
                 None \<Rightarrow> None
               | Some n \<Rightarrow>
                   if neg then (if n \<le> 2 ^ 63 then Some (- word_of_nat n) else None)
                   else (if n < 2 ^ 63 then Some (word_of_nat n) else None)))"

text \<open>
  \<open>setSysProcAttr\<close> of the POSIX build (src/agent.go): the command gets the user's numeric ids as
  credentials, unless one of them does not parse. \<open>uint32(uid)\<close> truncates.
\<close>

definition setSysProcAttr :: "Cmd \<Rightarrow> user option \<Rightarrow> Cmd" where
  "setSysProcAttr cmd u =
     (case u of
        None \<Rightarrow> cmd
      | Some usr \<Rightarrow>
          (case Atoi (Uid usr) of
             None \<Rightarrow> cmd
           | Some uid \<Rightarrow>
               (case Atoi (Gid usr) of
                  None \<Rightarrow> cmd
                | Some gid \<Rightarrow>
                    cmd\<lparr>SysProcAttr := Some \<lparr>cred_Uid = ucast uid, cred_Gid = ucast gid\<rparr>\<rparr>)))"

text \<open>An \<open>*os.File\<close>: all the agent does with the pty's file that matters here is to close
  it. \<open>Close\<close> returns an error when the file has been closed before.\<close>

record os_File =
  file_closed :: bool

definition File_Close :: "os_File \<Rightarrow> os_error option \<times> os_File" where
  "File_Close f = (if file_closed f then (Some ErrClosed, f) else (None, f\<lparr>file_closed := True\<rparr>))"

section \<open>Durations\<close>

type_synonym duration = "64 word"

definition Second :: duration where
  "Second = 1000000000"

definition seconds :: "nat \<Rightarrow> duration" where
  "seconds n = word_of_nat n * Second"

section \<open>Connection supervisor: reconnect backoff (\<open>Run\<close> in src/agent.go)\<close>

definition minReconnectDelay :: duration where
  "minReconnectDelay = 5 * Second"

definition maxReconnectDelay :: duration where
  "maxReconnectDelay = 60 * Second"

text \<open>
  The exponential backoff step of \<open>Run\<close>:
  \<^verbatim>\<open>reconnectDelay = reconnectDelay * 2
  if reconnectDelay > maxReconnectDelay { reconnectDelay = maxReconnectDelay }\<close>
  The multiplication is that of int64 (it wraps) and the comparison is signed.
\<close>

definition backoff_step :: "duration \<Rightarrow> duration" where
  "backoff_step d = (let d2 = d * 2 in if maxReconnectDelay <s d2 then maxReconnectDelay else d2)"

text \<open>
  What one iteration of the \<open>for\<close> loop of \<open>Run\<close> meets: the stop channel is closed,
  \<open>connect\<close> fails, or \<open>connect\<close> succeeds and \<open>mainLoop\<close> later returns (with an
  error or with nil).
\<close>

datatype conn_event = StopRequested | DialFailed | Connected bool

datatype run_status = Looping duration | ReturnedNil | ReturnedErr

text \<open>
  \<open>Run_loop reconnect d es\<close> runs the loop with \<open>reconnectDelay = d\<close> over the
  iterations \<open>es\<close> and returns the arguments of the \<open>time.Sleep\<close> calls in order,
  and how the loop stands at the end of \<open>es\<close>.
\<close>

fun Run_loop :: "bool \<Rightarrow> duration \<Rightarrow> conn_event list \<Rightarrow> duration list \<times> run_status" where
  "Run_loop reconnect d [] = ([], Looping d)"
| "Run_loop reconnect d (StopRequested # es) = ([], ReturnedNil)"
| "Run_loop reconnect d (DialFailed # es) =
     (if \<not> reconnect then ([], ReturnedErr)
      else (case Run_loop reconnect (backoff_step d) es of (sl, r) \<Rightarrow> (d # sl, r)))"
| "Run_loop reconnect d (Connected lost # es) =
     (if \<not> reconnect then ([], if lost then ReturnedErr else ReturnedNil)
      else (case Run_loop reconnect minReconnectDelay es of
              (sl, r) \<Rightarrow> (minReconnectDelay # sl, r)))"

definition Run :: "bool \<Rightarrow> conn_event list \<Rightarrow> duration list \<times> run_status" where
  "Run reconnect es = Run_loop reconnect minReconnectDelay es"

text \<open>The delay before the attempt that follows \<open>k\<close> consecutive failures, as the
  specification words it: 5s doubled \<open>k\<close> times, at most 60s.\<close>

definition backoff_delay :: "nat \<Rightarrow> duration" where
  "backoff_delay k = seconds (min (5 * 2 ^ k) 60)"

section \<open>Command executor (\<open>Execute\<close> and \<open>executeCommand\<close> in src/config.go)\<close>

definition cmdRunningLimit :: nat where
  "cmdRunningLimit = 5"

definition cmdExecDefaultTimeout :: duration where
  "cmdExecDefaultTimeout = 30 * Second"

definition cmdExecMaxTimeout :: duration where
  "cmdExecMaxTimeout = 600 * Second"

text \<open>The \<open>CmdError\<close> codes, an \<open>iota\<close> block.\<close>

definition CmdErrNone :: go_int where "CmdErrNone = 0"
definition CmdErrPermit :: go_int where "CmdErrPermit = 1"
definition CmdErrNotFound :: go_int where "CmdErrNotFound = 2"
definition CmdErrNoMem :: go_int where "CmdErrNoMem = 3"
definition CmdErrSysErr :: go_int where "CmdErrSysErr = 4"
definition CmdErrRespTooBig :: go_int where "CmdErrRespTooBig = 5"

text \<open>
  Modelled from the spec: the field \<open>Timeout\<close> of \<open>ExecCmdData\<close>. The declaration of
  the struct in src/main.go has the fields \<open>Token\<close>, \<open>Username\<close>, \<open>Command\<close>
  and \<open>Args\<close>; \<open>Execute\<close> also reads \<open>cmd.Timeout\<close>, whose declaration is not among
  the sources. It is the optional \<open>timeout\<close> of
  \<open>exec_cmd{token,username?,command,args?,timeout?}\<close>, a number of seconds, taken as a
  Go \<open>int\<close>.
\<close>

record ExecCmdData =
  Token :: string
  Username :: string
  Command :: string
  Args :: "string list"
  Timeout :: go_int

record CmdResultData =
  Token :: string
  ExitCode :: go_int
  Stdout :: string
  Stderr :: string

record CmdErrorData =
  Token :: string
  Code :: go_int
  Message :: string

text \<open>The arguments \<open>Execute\<close> hands to the goroutine \<open>executeCommand\<close>.\<close>

record job =
  job_u :: "user option"
  job_cmdPath :: string
  job_args :: "string list"
  job_token :: string
  job_timeout :: duration

text \<open>The callback \<open>sendError\<close> of the executor is \<open>sendCmdError\<close> of the agent, which
  builds the \<open>cmd_error\<close> payload.\<close>

definition sendCmdError :: "string \<Rightarrow> go_int \<Rightarrow> string \<Rightarrow> CmdErrorData" where
  "sendCmdError token code message =
     \<lparr>CmdErrorData.Token = token, CmdErrorData.Code = code, CmdErrorData.Message = message\<rparr>"

text \<open>What a call of \<open>Execute\<close> does besides returning: it calls \<open>sendError\<close>, or it
  starts \<open>go e.executeCommand(...)\<close>.\<close>

datatype exec_effect = SendError CmdErrorData | Go_executeCommand job

text \<open>
  The timeout computation of \<open>Execute\<close>:
  \<^verbatim>\<open>timeout := cmdExecDefaultTimeout
  if cmd.Timeout > 0 {
      timeout = time.Duration(cmd.Timeout) * time.Second
      if timeout > cmdExecMaxTimeout { timeout = cmdExecMaxTimeout }
  }\<close>
  The product is an int64 product and wraps.
\<close>

definition determine_timeout :: "go_int \<Rightarrow> duration" where
  "determine_timeout t =
     (if 0 <s t
      then (let timeout = t * Second
            in if cmdExecMaxTimeout <s timeout then cmdExecMaxTimeout else timeout)
      else cmdExecDefaultTimeout)"

text \<open>
  \<open>Execute lookup lookPath sem cmd\<close>: \<open>lookup\<close> is \<open>user.Lookup\<close> and \<open>lookPath\<close> is
  \<open>exec.LookPath\<close> (\<open>None\<close> when they return an error); \<open>sem\<close> is the number of
  tokens in the buffered channel \<open>cmdSemaphore\<close>, of capacity \<open>cmdRunningLimit\<close>. The
  \<open>select\<close> with a \<open>default\<close> branch sends a token when the channel has room and takes
  the default branch otherwise; it never waits.
\<close>

definition Execute ::
  "(string \<Rightarrow> user option) \<Rightarrow> (string \<Rightarrow> string option) \<Rightarrow> nat \<Rightarrow> ExecCmdData
     \<Rightarrow> nat \<times> exec_effect" where
  "Execute lookup lookPath sem cmd =
     (if ExecCmdData.Username cmd \<noteq> [] \<and> lookup (ExecCmdData.Username cmd) = None
      then (sem, SendError (sendCmdError (ExecCmdData.Token cmd) CmdErrPermit
                              ''operation not permitted''))
      else
        (let u = (if ExecCmdData.Username cmd \<noteq> [] then lookup (ExecCmdData.Username cmd)
                  else None)
         in case lookPath (ExecCmdData.Command cmd) of
              None \<Rightarrow>
                (sem, SendError (sendCmdError (ExecCmdData.Token cmd) CmdErrNotFound
                                   ''command not found''))
            | Some cmdPath \<Rightarrow>
                if cmdPath = []
                then (sem, SendError (sendCmdError (ExecCmdData.Token cmd) CmdErrNotFound
                                        ''command not found''))
                else
                  (let timeout = determine_timeout (ExecCmdData.Timeout cmd)
                   in if sem < cmdRunningLimit
                      then (Suc sem,
                            Go_executeCommand
                              \<lparr>job_u = u, job_cmdPath = cmdPath,
                               job_args = ExecCmdData.Args cmd,
                               job_token = ExecCmdData.Token cmd, job_timeout = timeout\<rparr>)
                      else (sem, SendError (sendCmdError (ExecCmdData.Token cmd) CmdErrNoMem
                                              ''too many concurrent commands'')))))"

subsection \<open>Completion of an admitted execution\<close>

text \<open>\<open>base64.StdEncoding.EncodeToString\<close>: the standard alphabet, padded with \<open>=\<close>.\<close>

definition b64_char :: "nat \<Rightarrow> char" where
  "b64_char i =
     ''ABCDEFGHIJKLMNOPQRSTUVWXYZabcdefghijklmnopqrstuvwxyz0123456789+/'' ! (i mod 64)"

fun EncodeToString :: "byte list \<Rightarrow> string" where
  "EncodeToString [] = []"
| "EncodeToString [a] =
     [b64_char (unat a div 4), b64_char (unat a mod 4 * 16), CHR ''='', CHR ''='']"
| "EncodeToString [a, b] =
     [b64_char (unat a div 4), b64_char (unat a mod 4 * 16 + unat b div 16),
      b64_char (unat b mod 16 * 4), CHR ''='']"
| "EncodeToString (a # b # c # rest) =
     [b64_char (unat a div 4), b64_char (unat a mod 4 * 16 + unat b div 16),
      b64_char (unat b mod 16 * 4 + unat c div 64), b64_char (unat c mod 64)]
     @ EncodeToString rest"

text \<open>
  What \<open>executeCommand\<close> finds after \<open>cmd.Run()\<close>: the error it returned, if any (an
  \<open>*exec.ExitError\<close> with its \<open>ExitCode()\<close>, or any other error with its \<open>Error()\<close>
  text), the time that has passed since the context was made, and the two captured
  buffers.
\<close>

datatype run_error = ExitError go_int | OtherError string

record cmd_run =
  run_err :: "run_error option"
  elapsed :: duration
  stdout :: "byte list"
  stderr :: "byte list"

text \<open>
  \<open>ctx.Err() == context.DeadlineExceeded\<close> for the context made by
  \<open>context.WithTimeout(context.Background(), timeout)\<close>, asked when \<open>elapsed\<close> has passed
  since: the deadline is \<open>timeout\<close> after the context was made, and a context whose
  timeout is zero or negative is made already expired.
\<close>

definition DeadlineExceeded :: "duration \<Rightarrow> duration \<Rightarrow> bool" where
  "DeadlineExceeded timeout t \<longleftrightarrow> timeout \<le>s t"

datatype cmd_report = Report_error CmdErrorData | Report_result CmdResultData

definition send_output :: "string \<Rightarrow> go_int \<Rightarrow> cmd_run \<Rightarrow> cmd_report" where
  "send_output token exitCode r =
     (let stdoutB64 = EncodeToString (stdout r); stderrB64 = EncodeToString (stderr r)
      in if length stdoutB64 + length stderrB64 > 65000
         then Report_error (sendCmdError token CmdErrRespTooBig ''stdout+stderr is too big'')
         else Report_result \<lparr>CmdResultData.Token = token, CmdResultData.ExitCode = exitCode,
                              CmdResultData.Stdout = stdoutB64, CmdResultData.Stderr = stderrB64\<rparr>)"

text \<open>The command \<open>executeCommand\<close> builds before running it:
  \<^verbatim>\<open>cmd := exec.CommandContext(ctx, cmdPath, args...)
  if u != nil { setSysProcAttr(cmd, u) }\<close>\<close>

definition command_of_job :: "job \<Rightarrow> Cmd" where
  "command_of_job j = setSysProcAttr (exec_Command (job_cmdPath j) (job_args j)) (job_u j)"

text \<open>
  \<open>executeCommand sem j r\<close>: the report sent through \<open>sendError\<close> or \<open>sendResult\<close>, and
  the semaphore after the deferred receive. The goroutine only runs after \<open>Execute\<close> has
  sent its token, so \<open>sem\<close> is positive when it ends.
\<close>

definition executeCommand :: "nat \<Rightarrow> job \<Rightarrow> cmd_run \<Rightarrow> nat \<times> cmd_report" where
  "executeCommand sem j r =
     (sem - 1,
      case run_err r of
        None \<Rightarrow> send_output (job_token j) 0 r
      | Some e \<Rightarrow>
          if DeadlineExceeded (job_timeout j) (elapsed r)
          then Report_error (sendCmdError (job_token j) CmdErrSysErr ''command timeout'')
          else (case e of
                  ExitError c \<Rightarrow> send_output (job_token j) c r
                | OtherError msg \<Rightarrow>
                    Report_error (sendCmdError (job_token j) CmdErrSysErr msg)))"

text \<open>A request passes the validation of \<open>Execute\<close>: its identity, when supplied,
  resolves, and its executable is found with a non-empty path.\<close>

definition passes_validation ::
  "(string \<Rightarrow> user option) \<Rightarrow> (string \<Rightarrow> string option) \<Rightarrow> ExecCmdData \<Rightarrow> bool" where
  "passes_validation lookup lookPath cmd \<longleftrightarrow>
     (ExecCmdData.Username cmd = [] \<or> lookup (ExecCmdData.Username cmd) \<noteq> None) \<and>
     lookPath (ExecCmdData.Command cmd) \<noteq> None \<and> lookPath (ExecCmdData.Command cmd) \<noteq> Some []"

section \<open>Pseudo-terminal backends\<close>

subsection \<open>POSIX variant (src/unnamed/part_001)\<close>

text \<open>What the POSIX backend asks of its surroundings: \<open>os.Getenv("SHELL")\<close>,
  \<open>os.Environ()\<close>, \<open>user.Lookup\<close>, \<open>pty.Start\<close> (an error, or the pty's file) and the
  \<open>errno\<close> of the \<open>TIOCSWINSZ\<close> ioctl for a given size.\<close>

record posix_env =
  getenv_SHELL :: string
  Environ :: "string list"
  user_Lookup :: "string \<Rightarrow> user option"
  pty_Start :: "Cmd \<Rightarrow> os_error + os_File"
  ioctl_TIOCSWINSZ :: "16 word \<Rightarrow> 16 word \<Rightarrow> nat"

text \<open>The struct \<open>Terminal\<close>: its fields \<open>pty\<close> and \<open>cmd\<close>.\<close>

record Terminal =
  t_pty :: "os_File option"
  t_cmd :: "Cmd option"

text \<open>\<open>NewTerminal(username)\<close>. The shell is the agent's own \<open>$SHELL\<close> (or \<open>/bin/sh\<close>),
  started with \<open>-l\<close>; a user that resolves with a home directory changes the environment
  and the working directory only.\<close>

definition NewTerminal :: "posix_env \<Rightarrow> string \<Rightarrow> os_error + Terminal" where
  "NewTerminal env username =
     (let shell = (if getenv_SHELL env = [] then ''/bin/sh'' else getenv_SHELL env);
          c0 = exec_Command shell [''-l''];
          c1 = (if username \<noteq> []
                then (case user_Lookup env username of
                        Some u \<Rightarrow>
                          if HomeDir u \<noteq> []
                          then c0\<lparr>Env := Environ env @
                                        [''HOME='' @ HomeDir u, ''USER='' @ username,
                                         ''LOGNAME='' @ username],
                                  Dir := HomeDir u\<rparr>
                          else c0
                      | None \<Rightarrow> c0)
                else c0);
          c2 = c1\<lparr>Env := Env c1 @ [''TERM=xterm-256color'']\<rparr>
      in case pty_Start env c2 of
           Inl e \<Rightarrow> Inl e
         | Inr ptmx \<Rightarrow> Inr \<lparr>t_pty = Some ptmx, t_cmd = Some (c2\<lparr>Process := Some 0\<rparr>)\<rparr>)"

definition SetWinSize :: "posix_env \<Rightarrow> Terminal \<Rightarrow> 16 word \<Rightarrow> 16 word \<Rightarrow> os_error option" where
  "SetWinSize env t cols rows =
     (let errno = ioctl_TIOCSWINSZ env cols rows in if errno \<noteq> 0 then Some (Errno errno) else None)"

text \<open>What a \<open>Close\<close> does to the outside, in order.\<close>

datatype close_effect = KillProcess | ClosePtyFile | ClosePseudoConsole

text \<open>
  \<open>Terminal.Close\<close> of the POSIX build:
  \<^verbatim>\<open>if t.cmd != nil && t.cmd.Process != nil { t.cmd.Process.Kill() }
  if t.pty != nil { return t.pty.Close() }
  return nil\<close>
  Neither field is ever reset, and the error of \<open>Kill\<close> is dropped.
\<close>

definition kill_process :: "Terminal \<Rightarrow> Terminal \<times> close_effect list" where
  "kill_process t =
     (case t_cmd t of
        None \<Rightarrow> (t, [])
      | Some c \<Rightarrow>
          (case Process c of
             None \<Rightarrow> (t, [])
           | Some k \<Rightarrow> (t\<lparr>t_cmd := Some (c\<lparr>Process := Some (Suc k)\<rparr>)\<rparr>, [KillProcess])))"

definition Terminal_Close :: "Terminal \<Rightarrow> os_error option \<times> Terminal \<times> close_effect list" where
  "Terminal_Close t =
     (case kill_process t of
        (t1, ks) \<Rightarrow>
          (case t_pty t1 of
             None \<Rightarrow> (None, t1, ks)
           | Some f \<Rightarrow>
               (case File_Close f of (e, f') \<Rightarrow> (e, t1\<lparr>t_pty := Some f'\<rparr>, ks @ [ClosePtyFile]))))"

subsection \<open>Windows variant (src/terminal_windows.go)\<close>

text \<open>The ConPTY handle is only closed through \<open>closeOnce\<close>; \<open>once_done\<close> is the state
  of that \<open>sync.Once\<close>. The username is ignored.\<close>

record WinTerminal =
  conpty_closed :: bool
  once_done :: bool
  win_closed :: bool

definition WinTerminal_Close ::
  "WinTerminal \<Rightarrow> os_error option \<times> WinTerminal \<times> close_effect list" where
  "WinTerminal_Close t =
     (if once_done t then (None, t, [])
      else (None, t\<lparr>win_closed := True, conpty_closed := True, once_done := True\<rparr>,
            [ClosePseudoConsole]))"

subsection \<open>Derived notions and a sample environment\<close>

text \<open>The home directory of an identity that resolves with one.\<close>

definition resolved_home :: "posix_env \<Rightarrow> string \<Rightarrow> string option" where
  "resolved_home env username =
     (if username = [] then None
      else (case user_Lookup env username of
              None \<Rightarrow> None
            | Some u \<Rightarrow> if HomeDir u = [] then None else Some (HomeDir u)))"

text \<open>A host where the agent runs with \<open>SHELL=/bin/bash\<close>, the user \<open>alice\<close> exists
  and every pty start and window-size ioctl succeeds.\<close>

definition alice :: user where
  "alice = \<lparr>Uid = ''1000'', Gid = ''1000'', user.Username = ''alice'', Name = ''Alice'',
            HomeDir = ''/home/alice''\<rparr>"

definition sample_env :: posix_env where
  "sample_env =
     \<lparr>getenv_SHELL = ''/bin/bash'',
      Environ = [''PATH=/usr/bin'', ''HOME=/root'', ''SHELL=/bin/bash''],
      user_Lookup = (\<lambda>n. if n = ''alice'' then Some alice else None),
      pty_Start = (\<lambda>c. Inr \<lparr>file_closed = False\<rparr>),
      ioctl_TIOCSWINSZ = (\<lambda>cols rows. 0)\<rparr>"

section \<open>Session manager (\<open>SessionManager\<close> and \<open>TermSession\<close> in src/config.go)\<close>

definition maxSessions :: "32 word" where
  "maxSessions = 10"

definition inactivityTimeout :: duration where
  "inactivityTimeout = 600 * Second"

datatype session_error = ErrMaxSessions | ErrSessionExists | ErrNoSession | ErrOS os_error

text \<open>
  \<open>TermSession\<close>. Times are nanoseconds on the monotonic clock; \<open>stopChan\<close> is \<open>True\<close>
  once the channel has been closed. The mutex \<open>mu\<close> is what makes each function below
  that reads or writes \<open>closed\<close> and \<open>lastActivity\<close> one indivisible step.
\<close>

record TermSession =
  ID :: string
  terminal :: Terminal
  lastActivity :: int
  closed :: bool
  stopChan :: bool

text \<open>\<open>TermSession.Close\<close>: a no-op on a closed session; otherwise it sets \<open>closed\<close>,
  closes \<open>stopChan\<close> and closes the terminal.\<close>

definition TermSession_Close :: "TermSession \<Rightarrow> TermSession" where
  "TermSession_Close s =
     (if closed s then s
      else s\<lparr>closed := True, stopChan := True,
              terminal := fst (snd (Terminal_Close (terminal s)))\<rparr>)"

text \<open>\<open>sync.Map\<close> with string keys, as an association list with one entry per key.\<close>

type_synonym 'v syncmap = "(string \<times> 'v) list"

definition Load :: "'v syncmap \<Rightarrow> string \<Rightarrow> 'v option" where
  "Load m k = map_of m k"

definition Delete :: "'v syncmap \<Rightarrow> string \<Rightarrow> 'v syncmap" where
  "Delete m k = filter (\<lambda>kv. fst kv \<noteq> k) m"

definition Store :: "'v syncmap \<Rightarrow> string \<Rightarrow> 'v \<Rightarrow> 'v syncmap" where
  "Store m k v = Delete m k @ [(k, v)]"

text \<open>
  Where a session's goroutine (\<open>readLoop\<close> or \<open>inactivityMonitor\<close>) stands: in its loop;
  past the test \<open>if !closed\<close> (respectively \<open>if inactive && !closed\<close>) with the mutex
  released and the closing statements still to run; or returned.
\<close>

datatype task = Running | Closing | Returned

text \<open>
  The manager and what surrounds it. \<open>sessions\<close> and \<open>sessionCount\<close> are the fields of
  \<open>SessionManager\<close>. \<open>heap\<close> holds the \<open>TermSession\<close> objects ever allocated (a pointer
  is an index), \<open>readers\<close> and \<open>monitors\<close> the two goroutines of each, \<open>exits\<close> and
  \<open>outputs\<close> the calls of the callbacks \<open>sendExit\<close> and \<open>sendData\<close> so far, and
  \<open>replies\<close> the errors returned to the dispatcher.
\<close>

record SessionManager =
  sessions :: "nat syncmap"
  sessionCount :: "32 word"
  heap :: "TermSession list"
  readers :: "task list"
  monitors :: "task list"
  exits :: "(string \<times> go_int) list"
  outputs :: "(string \<times> byte list) list"
  replies :: "session_error option list"

definition NewSessionManager :: SessionManager where
  "NewSessionManager =
     \<lparr>sessions = [], sessionCount = 0, heap = [], readers = [], monitors = [], exits = [],
      outputs = [], replies = []\<rparr>"

text \<open>\<open>SpawnSession\<close>, called at time \<open>now\<close>. The two goroutines are started last.\<close>

definition SpawnSession ::
  "posix_env \<Rightarrow> int \<Rightarrow> SessionManager \<Rightarrow> string \<Rightarrow> 16 word \<Rightarrow> 16 word \<Rightarrow> string
     \<Rightarrow> session_error option \<times> SessionManager" where
  "SpawnSession env now m sessionID cols rows username =
     (if maxSessions \<le>s sessionCount m then (Some ErrMaxSessions, m)
      else if Load (sessions m) sessionID \<noteq> None then (Some ErrSessionExists, m)
      else (case NewTerminal env username of
              Inl e \<Rightarrow> (Some (ErrOS e), m)
            | Inr trm \<Rightarrow>
                (case SetWinSize env trm cols rows of
                   Some e \<Rightarrow> (Some (ErrOS e), m)
                 | None \<Rightarrow>
                     (None,
                      m\<lparr>sessions := Store (sessions m) sessionID (length (heap m)),
                        sessionCount := sessionCount m + 1,
                        heap := heap m @
                          [\<lparr>ID = sessionID, terminal = trm, lastActivity = now,
                            closed = False, stopChan = False\<rparr>],
                        readers := readers m @ [Running],
                        monitors := monitors m @ [Running]\<rparr>))))"

text \<open>\<open>s.Close()\<close> on the session object at address \<open>p\<close>.\<close>

definition close_at :: "nat \<Rightarrow> SessionManager \<Rightarrow> SessionManager" where
  "close_at p m =
     (if p < length (heap m) then m\<lparr>heap := (heap m)[p := TermSession_Close (heap m ! p)]\<rparr>
      else m)"

text \<open>\<open>CloseSession\<close>: \<open>LoadAndDelete\<close>, then \<open>Close\<close>, then the counter.\<close>

definition CloseSession :: "SessionManager \<Rightarrow> string \<Rightarrow> session_error option \<times> SessionManager" where
  "CloseSession m sessionID =
     (case Load (sessions m) sessionID of
        None \<Rightarrow> (Some ErrNoSession, m)
      | Some p \<Rightarrow>
          (None,
           (close_at p (m\<lparr>sessions := Delete (sessions m) sessionID\<rparr>))
             \<lparr>sessionCount := sessionCount m - 1\<rparr>))"

text \<open>\<open>CloseAllSessions\<close>: for every entry that \<open>Range\<close> visits, \<open>Close\<close>, \<open>Delete\<close> and
  the counter.\<close>

definition CloseAllSessions :: "SessionManager \<Rightarrow> SessionManager" where
  "CloseAllSessions m =
     fold (\<lambda>kv m'. (close_at (snd kv) m')
                      \<lparr>sessions := Delete (sessions m') (fst kv),
                       sessionCount := sessionCount m' - 1\<rparr>)
       (sessions m) m"

text \<open>\<open>GetSession\<close> followed by \<open>TermSession.Write\<close> (on input that decodes) or
  \<open>TermSession.Resize\<close>, as the handlers of \<open>pty_input\<close> and \<open>pty_resize\<close> call them:
  both refresh \<open>lastActivity\<close> of a session that is not closed; what the terminal
  answers is left out.\<close>

definition touch ::
  "int \<Rightarrow> SessionManager \<Rightarrow> string \<Rightarrow> session_error option \<times> SessionManager" where
  "touch now m sessionID =
     (case Load (sessions m) sessionID of
        None \<Rightarrow> (Some ErrNoSession, m)
      | Some p \<Rightarrow>
          if p < length (heap m) \<and> \<not> closed (heap m ! p)
          then (None, m\<lparr>heap := (heap m)[p := (heap m ! p)\<lparr>lastActivity := now\<rparr>]\<rparr>)
          else (Some ErrNoSession, m))"

subsection \<open>The reader task\<close>

text \<open>
  \<open>readLoop\<close> of the session at \<open>p\<close>, one function per indivisible piece:
  \<^item> \<open>reader_stop\<close>: the loop head finds \<open>stopChan\<close> closed and returns;
  \<^item> \<open>reader_data\<close>: \<open>Read\<close> returned \<open>n > 0\<close> bytes;
  \<^item> \<open>reader_error\<close>: \<open>Read\<close> returned an error, and \<open>closed\<close> is read under the mutex;
  \<^item> \<open>reader_finish\<close>: the statements under \<open>if !closed\<close>, run after the mutex
    was released: \<open>sendExit\<close>, \<open>sessions.Delete\<close>, the decrement and \<open>s.Close()\<close>.
\<close>

definition reader_stop :: "nat \<Rightarrow> SessionManager \<Rightarrow> SessionManager" where
  "reader_stop p m =
     (if p < length (heap m) \<and> readers m ! p = Running \<and> stopChan (heap m ! p)
      then m\<lparr>readers := (readers m)[p := Returned]\<rparr> else m)"

definition reader_data :: "nat \<Rightarrow> byte list \<Rightarrow> int \<Rightarrow> SessionManager \<Rightarrow> SessionManager" where
  "reader_data p buf now m =
     (if p < length (heap m) \<and> readers m ! p = Running \<and> buf \<noteq> []
      then m\<lparr>heap := (heap m)[p := (heap m ! p)\<lparr>lastActivity := now\<rparr>],
             outputs := outputs m @ [(ID (heap m ! p), buf)]\<rparr>
      else m)"

definition reader_error :: "nat \<Rightarrow> SessionManager \<Rightarrow> SessionManager" where
  "reader_error p m =
     (if p < length (heap m) \<and> readers m ! p = Running
      then m\<lparr>readers := (readers m)[p := (if closed (heap m ! p) then Returned else Closing)]\<rparr>
      else m)"

definition reader_finish :: "nat \<Rightarrow> SessionManager \<Rightarrow> SessionManager" where
  "reader_finish p m =
     (if p < length (heap m) \<and> readers m ! p = Closing
      then (close_at p
              (m\<lparr>exits := exits m @ [(ID (heap m ! p), 0)],
                 sessions := Delete (sessions m) (ID (heap m ! p)),
                 sessionCount := sessionCount m - 1\<rparr>))
             \<lparr>readers := (readers m)[p := Returned]\<rparr>
      else m)"

subsection \<open>The inactivity watchdog\<close>

text \<open>
  \<open>inactivityMonitor\<close> of the session at \<open>p\<close>:
  \<^item> \<open>monitor_stop\<close>: the \<open>select\<close> takes the closed \<open>stopChan\<close>;
  \<^item> \<open>monitor_tick\<close>: the ticker fires at time \<open>now\<close>; \<open>inactive\<close> and \<open>closed\<close> are read
    under the mutex;
  \<^item> \<open>monitor_finish\<close>: the statements under \<open>if inactive && !closed\<close>, run after the
    mutex was released.
\<close>

definition monitor_stop :: "nat \<Rightarrow> SessionManager \<Rightarrow> SessionManager" where
  "monitor_stop p m =
     (if p < length (heap m) \<and> monitors m ! p = Running \<and> stopChan (heap m ! p)
      then m\<lparr>monitors := (monitors m)[p := Returned]\<rparr> else m)"

definition monitor_tick :: "nat \<Rightarrow> int \<Rightarrow> SessionManager \<Rightarrow> SessionManager" where
  "monitor_tick p now m =
     (if p < length (heap m) \<and> monitors m ! p = Running
      then (let inactive = (sint inactivityTimeout < now - lastActivity (heap m ! p));
                cl = closed (heap m ! p)
            in if inactive \<and> \<not> cl then m\<lparr>monitors := (monitors m)[p := Closing]\<rparr> else m)
      else m)"

definition monitor_finish :: "nat \<Rightarrow> SessionManager \<Rightarrow> SessionManager" where
  "monitor_finish p m =
     (if p < length (heap m) \<and> monitors m ! p = Closing
      then (close_at p
              (m\<lparr>exits := exits m @ [(ID (heap m ! p), 0)],
                 sessions := Delete (sessions m) (ID (heap m ! p)),
                 sessionCount := sessionCount m - 1\<rparr>))
             \<lparr>monitors := (monitors m)[p := Returned]\<rparr>
      else m)"

subsection \<open>Schedules\<close>

text \<open>
  One step of the whole: a request handled by the dispatcher (which runs them one after
  the other), or one indivisible piece of a session's goroutine. A schedule is a list of
  steps; the pieces of different goroutines may come in any order.
\<close>

datatype step =
    Spawn string "16 word" "16 word" string int
  | ClosePty string
  | CloseAll
  | Input string int
  | ReaderStop nat
  | ReaderData nat "byte list" int
  | ReaderError nat
  | ReaderFinish nat
  | MonitorStop nat
  | Tick nat int
  | MonitorFinish nat

fun exec_step :: "posix_env \<Rightarrow> SessionManager \<Rightarrow> step \<Rightarrow> SessionManager" where
  "exec_step env m (Spawn sessionID cols rows username now) =
     (case SpawnSession env now m sessionID cols rows username of
        (r, m') \<Rightarrow> m'\<lparr>replies := replies m' @ [r]\<rparr>)"
| "exec_step env m (ClosePty sessionID) =
     (case CloseSession m sessionID of (r, m') \<Rightarrow> m'\<lparr>replies := replies m' @ [r]\<rparr>)"
| "exec_step env m CloseAll = CloseAllSessions m"
| "exec_step env m (Input sessionID now) =
     (case touch now m sessionID of (r, m') \<Rightarrow> m'\<lparr>replies := replies m' @ [r]\<rparr>)"
| "exec_step env m (ReaderStop p) = reader_stop p m"
| "exec_step env m (ReaderData p buf now) = reader_data p buf now m"
| "exec_step env m (ReaderError p) = reader_error p m"
| "exec_step env m (ReaderFinish p) = reader_finish p m"
| "exec_step env m (MonitorStop p) = monitor_stop p m"
| "exec_step env m (Tick p now) = monitor_tick p now m"
| "exec_step env m (MonitorFinish p) = monitor_finish p m"

definition run :: "posix_env \<Rightarrow> SessionManager \<Rightarrow> step list \<Rightarrow> SessionManager" where
  "run env m steps = foldl (exec_step env) m steps"

text \<open>The sessions that are live: registered, and their object not closed.\<close>

definition live_sessions :: "SessionManager \<Rightarrow> string list" where
  "live_sessions m =
     map fst (filter (\<lambda>kv. snd kv < length (heap m) \<and> \<not> closed (heap m ! snd kv)) (sessions m))"

subsection \<open>Agreement of counter, registry and objects\<close>

text \<open>
  The state the manager is meant to keep: every registered id points to an allocated,
  open session object carrying that id; every open object is registered; no goroutine
  stands between its test and its closing statements; and the counter is the number of
  registered sessions, at most ten.
\<close>

definition consistent :: "SessionManager \<Rightarrow> bool" where
  "consistent m \<longleftrightarrow>
     length (readers m) = length (heap m) \<and> length (monitors m) = length (heap m) \<and>
     distinct (map fst (sessions m)) \<and>
     (\<forall>kv \<in> set (sessions m). snd kv < length (heap m) \<and> ID (heap m ! snd kv) = fst kv \<and>
         \<not> closed (heap m ! snd kv)) \<and>
     (\<forall>p < length (heap m). \<not> closed (heap m ! p) \<longrightarrow> (ID (heap m ! p), p) \<in> set (sessions m)) \<and>
     Closing \<notin> set (readers m) \<and> Closing \<notin> set (monitors m) \<and>
     sint (sessionCount m) = int (length (sessions m)) \<and> length (sessions m) \<le> 10"

text \<open>
  A schedule is serialized when the closing statements of a goroutine follow its test at
  once: \<open>serialized es\<close> puts them right behind every failed read and every tick of
  \<open>es\<close>.
\<close>

fun closing_after :: "step \<Rightarrow> step list" where
  "closing_after (ReaderError p) = [ReaderError p, ReaderFinish p]"
| "closing_after (Tick p now) = [Tick p now, MonitorFinish p]"
| "closing_after e = [e]"

definition serialized :: "step list \<Rightarrow> step list" where
  "serialized es = concat (map closing_after es)"

subsection \<open>Three schedules\<close>

text \<open>
  \<open>late_close\<close>: session \<open>a\<close> is spawned; its shell exits, so \<open>Read\<close> fails and the
  reader finds \<open>closed\<close> false; before the reader goes on, the dispatcher handles
  \<open>close_pty\<close> for \<open>a\<close>; then the reader runs its closing statements.
\<close>

definition late_close :: "step list" where
  "late_close = [Spawn ''a'' 80 24 [] 0, ReaderError 0, ClosePty ''a'', ReaderFinish 0]"

definition eleven_spawns :: "step list" where
  "eleven_spawns =
     [Spawn ''s1'' 80 24 [] 0, Spawn ''s2'' 80 24 [] 0, Spawn ''s3'' 80 24 [] 0,
      Spawn ''s4'' 80 24 [] 0, Spawn ''s5'' 80 24 [] 0, Spawn ''s6'' 80 24 [] 0,
      Spawn ''s7'' 80 24 [] 0, Spawn ''s8'' 80 24 [] 0, Spawn ''s9'' 80 24 [] 0,
      Spawn ''s10'' 80 24 [] 0, Spawn ''s11'' 80 24 [] 0]"

text \<open>
  \<open>exit_at_tick\<close>: session \<open>a\<close> is spawned at time 0, its shell prints one byte at 30s
  and stays silent; the tick at 600s finds it active (570s without activity), the tick
  at 660s finds it inactive and not closed; at that moment the shell exits, \<open>Read\<close> fails
  and the reader finds \<open>closed\<close> false; then both run their closing statements.
\<close>

definition exit_at_tick :: "step list" where
  "exit_at_tick =
     [Spawn ''a'' 80 24 [] 0, ReaderData 0 [36] 30000000000, Tick 0 600000000000,
      Tick 0 660000000000, ReaderError 0, MonitorFinish 0, ReaderFinish 0]"

section \<open>Message codec (the protocol declarations in src/main.go)\<close>

text \<open>
  A frame is modelled as the JSON document its text spells: printing and parsing of JSON
  text are the library's. What is modelled is what the declarations of this repository
  decide, and what \<open>encoding/json\<close> does to the values they hold: the field names of the
  struct tags, \<open>omitempty\<close>, the zero value of a field that is absent or \<open>null\<close>, the
  range of a numeric field, the coercion of a string to valid UTF-8, and the envelope.
\<close>

datatype json =
    JNull
  | JBool bool
  | JInt int
  | JFrac string
  | JString string
  | JArray "json list"
  | JObject "(string \<times> json) list"

datatype codec_error = SyntaxError | UnmarshalTypeError

subsection \<open>Strings: coercion to valid UTF-8\<close>

text \<open>
  A Go string is any sequence of bytes, here a list of \<open>char\<close>. \<open>rune_size s\<close> is the
  number of bytes of the UTF-8 encoding that \<open>s\<close> starts with, and 0 when it starts with
  none: the case in which \<open>utf8.DecodeRuneInString\<close> returns \<open>(RuneError, 1)\<close>, or \<open>s\<close>
  is empty. The ranges are those of the standard: no overlong forms, no surrogates,
  nothing above U+10FFFF.
\<close>

definition byte_in :: "nat \<Rightarrow> char \<Rightarrow> nat \<Rightarrow> bool" where
  "byte_in lo c hi \<longleftrightarrow> lo \<le> of_char c \<and> of_char c \<le> hi"

definition rune_size :: "string \<Rightarrow> nat" where
  "rune_size s =
     (case s of
        [] \<Rightarrow> 0
      | a # r \<Rightarrow>
          if byte_in 0x00 a 0x7F then 1
          else if byte_in 0xC2 a 0xDF
          then (case r of
                  b # _ \<Rightarrow> if byte_in 0x80 b 0xBF then 2 else 0
                | _ \<Rightarrow> 0)
          else if byte_in 0xE0 a 0xEF
          then (case r of
                  b # c # _ \<Rightarrow>
                    if byte_in (if a = CHR 0xE0 then 0xA0 else 0x80) b
                         (if a = CHR 0xED then 0x9F else 0xBF) \<and>
                       byte_in 0x80 c 0xBF
                    then 3 else 0
                | _ \<Rightarrow> 0)
          else if byte_in 0xF0 a 0xF4
          then (case r of
                  b # c # d # _ \<Rightarrow>
                    if byte_in (if a = CHR 0xF0 then 0x90 else 0x80) b
                         (if a = CHR 0xF4 then 0x8F else 0xBF) \<and>
                       byte_in 0x80 c 0xBF \<and> byte_in 0x80 d 0xBF
                    then 4 else 0
                | _ \<Rightarrow> 0)
          else 0)"

text \<open>
  What the encoder writes for a string, and what the decoder makes of a string literal:
  the bytes of every valid encoding are kept, and each byte that starts none is replaced
  by the three bytes of U+FFFD.
\<close>

function ToValidUTF8 :: "string \<Rightarrow> string" where
  "ToValidUTF8 s =
     (if s = [] then []
      else if rune_size s = 0
      then [CHR 0xEF, CHR 0xBF, CHR 0xBD] @ ToValidUTF8 (tl s)
      else take (rune_size s) s @ ToValidUTF8 (drop (rune_size s) s))"
  by pat_completeness auto
termination
  by (relation "measure length") (auto simp: neq_Nil_conv)

declare ToValidUTF8.simps [simp del]

text \<open>\<open>utf8.ValidString\<close>.\<close>

function ValidString :: "string \<Rightarrow> bool" where
  "ValidString s =
     (if s = [] then True
      else if rune_size s = 0 then False
      else ValidString (drop (rune_size s) s))"
  by pat_completeness auto
termination
  by (relation "measure length") (auto simp: neq_Nil_conv)

declare ValidString.simps [simp del]

subsection \<open>Fields, as \<open>encoding/json\<close> writes and reads them\<close>

definition str_field :: "string \<Rightarrow> string \<Rightarrow> (string \<times> json) list" where
  "str_field k s = [(k, JString (ToValidUTF8 s))]"

definition str_field_omitempty :: "string \<Rightarrow> string \<Rightarrow> (string \<times> json) list" where
  "str_field_omitempty k s = (if s = [] then [] else [(k, JString (ToValidUTF8 s))])"

definition bool_field :: "string \<Rightarrow> bool \<Rightarrow> (string \<times> json) list" where
  "bool_field k b = [(k, JBool b)]"

definition bool_field_omitempty :: "string \<Rightarrow> bool \<Rightarrow> (string \<times> json) list" where
  "bool_field_omitempty k b = (if b then [(k, JBool b)] else [])"

definition int_field :: "string \<Rightarrow> go_int \<Rightarrow> (string \<times> json) list" where
  "int_field k x = [(k, JInt (sint x))]"

definition int_field_omitempty :: "string \<Rightarrow> go_int \<Rightarrow> (string \<times> json) list" where
  "int_field_omitempty k x = (if x = 0 then [] else [(k, JInt (sint x))])"

definition uint16_field :: "string \<Rightarrow> 16 word \<Rightarrow> (string \<times> json) list" where
  "uint16_field k x = [(k, JInt (uint x))]"

text \<open>A \<open>[]string\<close> with \<open>omitempty\<close>: left out when it has no element, nil or not.\<close>

definition strs_field_omitempty :: "string \<Rightarrow> string list \<Rightarrow> (string \<times> json) list" where
  "strs_field_omitempty k xs =
     (if xs = [] then [] else [(k, JArray (map (\<lambda>s. JString (ToValidUTF8 s)) xs))])"

text \<open>A slice of structs without \<open>omitempty\<close>: \<open>None\<close> is the nil slice, written
  \<open>null\<close>; a slice that is not nil is written as an array, also when it is empty.\<close>

definition items_field ::
  "string \<Rightarrow> ('a \<Rightarrow> json) \<Rightarrow> 'a list option \<Rightarrow> (string \<times> json) list" where
  "items_field k enc xs =
     [(k, case xs of None \<Rightarrow> JNull | Some ys \<Rightarrow> JArray (map enc ys))]"

text \<open>A field that is a struct: \<open>omitempty\<close> never leaves it out.\<close>

definition struct_field :: "string \<Rightarrow> json \<Rightarrow> (string \<times> json) list" where
  "struct_field k j = [(k, j)]"

text \<open>The value a key of an object ends with: the decoder takes the members in order,
  so the last one wins. Members are matched by the exact name of the tag; the decoder's
  fallback to a name that differs only in case is left out.\<close>

definition member :: "(string \<times> json) list \<Rightarrow> string \<Rightarrow> json option" where
  "member kvs k = map_of (rev kvs) k"

text \<open>Reading a member into a field: an absent member and \<open>null\<close> leave the zero value;
  a value of another kind, or a number outside the field's range, is an error.\<close>

definition get_string :: "json option \<Rightarrow> codec_error + string" where
  "get_string v =
     (case v of
        None \<Rightarrow> Inr []
      | Some JNull \<Rightarrow> Inr []
      | Some (JString s) \<Rightarrow> Inr (ToValidUTF8 s)
      | Some _ \<Rightarrow> Inl UnmarshalTypeError)"

definition get_bool :: "json option \<Rightarrow> codec_error + bool" where
  "get_bool v =
     (case v of
        None \<Rightarrow> Inr False
      | Some JNull \<Rightarrow> Inr False
      | Some (JBool b) \<Rightarrow> Inr b
      | Some _ \<Rightarrow> Inl UnmarshalTypeError)"

definition get_int :: "json option \<Rightarrow> codec_error + go_int" where
  "get_int v =
     (case v of
        None \<Rightarrow> Inr 0
      | Some JNull \<Rightarrow> Inr 0
      | Some (JInt n) \<Rightarrow>
          if - (2 ^ 63) \<le> n \<and> n < 2 ^ 63 then Inr (word_of_int n) else Inl UnmarshalTypeError
      | Some _ \<Rightarrow> Inl UnmarshalTypeError)"

definition get_uint16 :: "json option \<Rightarrow> codec_error + 16 word" where
  "get_uint16 v =
     (case v of
        None \<Rightarrow> Inr 0
      | Some JNull \<Rightarrow> Inr 0
      | Some (JInt n) \<Rightarrow>
          if 0 \<le> n \<and> n < 2 ^ 16 then Inr (word_of_int n) else Inl UnmarshalTypeError
      | Some _ \<Rightarrow> Inl UnmarshalTypeError)"

text \<open>The elements of an array, read one by one with the decoder of the element.\<close>

fun get_elems :: "(json \<Rightarrow> codec_error + 'a) \<Rightarrow> json list \<Rightarrow> codec_error + 'a list" where
  "get_elems dec [] = Inr []"
| "get_elems dec (j # js) =
     (case dec j of
        Inl e \<Rightarrow> Inl e
      | Inr x \<Rightarrow> (case get_elems dec js of Inl e \<Rightarrow> Inl e | Inr xs \<Rightarrow> Inr (x # xs)))"

definition get_strings :: "json option \<Rightarrow> codec_error + string list" where
  "get_strings v =
     (case v of
        None \<Rightarrow> Inr []
      | Some JNull \<Rightarrow> Inr []
      | Some (JArray js) \<Rightarrow> get_elems (\<lambda>j. get_string (Some j)) js
      | Some _ \<Rightarrow> Inl UnmarshalTypeError)"

definition get_items ::
  "(json \<Rightarrow> codec_error + 'a) \<Rightarrow> json option \<Rightarrow> codec_error + 'a list option" where
  "get_items dec v =
     (case v of
        None \<Rightarrow> Inr None
      | Some JNull \<Rightarrow> Inr None
      | Some (JArray js) \<Rightarrow>
          (case get_elems dec js of Inl e \<Rightarrow> Inl e | Inr xs \<Rightarrow> Inr (Some xs))
      | Some _ \<Rightarrow> Inl UnmarshalTypeError)"

definition get_struct ::
  "(json \<Rightarrow> codec_error + 'a) \<Rightarrow> 'a \<Rightarrow> json option \<Rightarrow> codec_error + 'a" where
  "get_struct dec zero v = (case v of None \<Rightarrow> Inr zero | Some j \<Rightarrow> dec j)"

definition and_then :: "codec_error + 'a \<Rightarrow> ('a \<Rightarrow> codec_error + 'b) \<Rightarrow> codec_error + 'b" where
  "and_then r f = (case r of Inl e \<Rightarrow> Inl e | Inr x \<Rightarrow> f x)"

text \<open>Reading a document into a struct: \<open>null\<close> leaves the zero struct, an object is
  read member by member, anything else is an error.\<close>

definition into_struct ::
  "json \<Rightarrow> 'a \<Rightarrow> ((string \<Rightarrow> json option) \<Rightarrow> codec_error + 'a) \<Rightarrow> codec_error + 'a" where
  "into_struct j zero f =
     (case j of
        JNull \<Rightarrow> Inr zero
      | JObject kvs \<Rightarrow> f (member kvs)
      | _ \<Rightarrow> Inl UnmarshalTypeError)"

subsection \<open>The payload structs\<close>

text \<open>
  Every payload struct declared in src/main.go, in the order of the file, and then the
  one of src/enroll.go, each with one encoder and one decoder from its tags, and the
  predicate that all its strings are valid UTF-8. \<open>CmdResultData\<close>, \<open>CmdErrorData\<close> and \<open>ExecCmdData\<close> are declared with the
  command executor above. The payloads of the compress and directory-statistics
  messages are used by the agent but declared in none of the sources, and are left out.

  Modelled from the spec: the tag of the field \<open>Timeout\<close> of \<open>ExecCmdData\<close>, whose
  declaration is not among the sources: \<open>timeout?\<close> in
  \<open>exec_cmd{token,username?,command,args?,timeout?}\<close>, an optional member named
  \<open>timeout\<close>. The other four fields have the tags of their declaration.
\<close>


record RegisterData =
  DeviceID :: string
  Token :: string
  Hostname :: string
  Platform :: string
  OS :: string
  Arch :: string
  GoVersion :: string

definition enc_RegisterData :: "RegisterData \<Rightarrow> json" where
  "enc_RegisterData x =
     JObject (str_field ''deviceId'' (RegisterData.DeviceID x) @
              str_field ''token'' (RegisterData.Token x) @
              str_field ''hostname'' (RegisterData.Hostname x) @
              str_field ''platform'' (RegisterData.Platform x) @
              str_field_omitempty ''os'' (RegisterData.OS x) @
              str_field_omitempty ''arch'' (RegisterData.Arch x) @
              str_field_omitempty ''goVersion'' (RegisterData.GoVersion x))"

definition dec_RegisterData :: "json \<Rightarrow> codec_error + RegisterData" where
  "dec_RegisterData j =
     into_struct j
       \<lparr>RegisterData.DeviceID = [], RegisterData.Token = [],
        RegisterData.Hostname = [], RegisterData.Platform = [], RegisterData.OS = [],
        RegisterData.Arch = [], RegisterData.GoVersion = []\<rparr>
       (\<lambda>m. and_then (get_string (m ''deviceId'')) (\<lambda>v1.
             and_then (get_string (m ''token'')) (\<lambda>v2.
             and_then (get_string (m ''hostname'')) (\<lambda>v3.
             and_then (get_string (m ''platform'')) (\<lambda>v4.
             and_then (get_string (m ''os'')) (\<lambda>v5.
             and_then (get_string (m ''arch'')) (\<lambda>v6.
             and_then (get_string (m ''goVersion'')) (\<lambda>v7.
               Inr \<lparr>RegisterData.DeviceID = v1, RegisterData.Token = v2,
                RegisterData.Hostname = v3, RegisterData.Platform = v4,
                RegisterData.OS = v5, RegisterData.Arch = v6, RegisterData.GoVersion = v7\<rparr>))))))))"

definition valid_RegisterData :: "RegisterData \<Rightarrow> bool" where
  "valid_RegisterData x \<longleftrightarrow>
     ValidString (RegisterData.DeviceID x) \<and> ValidString (RegisterData.Token x) \<and>
     ValidString (RegisterData.Hostname x) \<and>
     ValidString (RegisterData.Platform x) \<and> ValidString (RegisterData.OS x) \<and>
     ValidString (RegisterData.Arch x) \<and> ValidString (RegisterData.GoVersion x)"

record HeartbeatData =
  Uptime :: go_int

definition enc_HeartbeatData :: "HeartbeatData \<Rightarrow> json" where
  "enc_HeartbeatData x =
     JObject (int_field ''uptime'' (HeartbeatData.Uptime x))"

definition dec_HeartbeatData :: "json \<Rightarrow> codec_error + HeartbeatData" where
  "dec_HeartbeatData j =
     into_struct j
       \<lparr>HeartbeatData.Uptime = 0\<rparr>
       (\<lambda>m. and_then (get_int (m ''uptime'')) (\<lambda>v1.
               Inr \<lparr>HeartbeatData.Uptime = v1\<rparr>))"

definition valid_HeartbeatData :: "HeartbeatData \<Rightarrow> bool" where
  "valid_HeartbeatData x \<longleftrightarrow>
     True"

record PtyDataMsg =
  SessionID :: string
  Data :: string

definition enc_PtyDataMsg :: "PtyDataMsg \<Rightarrow> json" where
  "enc_PtyDataMsg x =
     JObject (str_field ''sessionId'' (PtyDataMsg.SessionID x) @
              str_field ''data'' (PtyDataMsg.Data x))"

definition dec_PtyDataMsg :: "json \<Rightarrow> codec_error + PtyDataMsg" where
  "dec_PtyDataMsg j =
     into_struct j
       \<lparr>PtyDataMsg.SessionID = [], PtyDataMsg.Data = []\<rparr>
       (\<lambda>m. and_then (get_string (m ''sessionId'')) (\<lambda>v1.
             and_then (get_string (m ''data'')) (\<lambda>v2.
               Inr \<lparr>PtyDataMsg.SessionID = v1, PtyDataMsg.Data = v2\<rparr>)))"

definition valid_PtyDataMsg :: "PtyDataMsg \<Rightarrow> bool" where
  "valid_PtyDataMsg x \<longleftrightarrow>
     ValidString (PtyDataMsg.SessionID x) \<and> ValidString (PtyDataMsg.Data x)"

record PtyExitMsg =
  SessionID :: string
  Code :: go_int

definition enc_PtyExitMsg :: "PtyExitMsg \<Rightarrow> json" where
  "enc_PtyExitMsg x =
     JObject (str_field ''sessionId'' (PtyExitMsg.SessionID x) @
              int_field ''code'' (PtyExitMsg.Code x))"

definition dec_PtyExitMsg :: "json \<Rightarrow> codec_error + PtyExitMsg" where
  "dec_PtyExitMsg j =
     into_struct j
       \<lparr>PtyExitMsg.SessionID = [], PtyExitMsg.Code = 0\<rparr>
       (\<lambda>m. and_then (get_string (m ''sessionId'')) (\<lambda>v1.
             and_then (get_int (m ''code'')) (\<lambda>v2.
               Inr \<lparr>PtyExitMsg.SessionID = v1, PtyExitMsg.Code = v2\<rparr>)))"

definition valid_PtyExitMsg :: "PtyExitMsg \<Rightarrow> bool" where
  "valid_PtyExitMsg x \<longleftrightarrow>
     ValidString (PtyExitMsg.SessionID x)"

definition enc_CmdResultData :: "CmdResultData \<Rightarrow> json" where
  "enc_CmdResultData x =
     JObject (str_field ''token'' (CmdResultData.Token x) @
              int_field ''exitCode'' (CmdResultData.ExitCode x) @
              str_field ''stdout'' (CmdResultData.Stdout x) @
              str_field ''stderr'' (CmdResultData.Stderr x))"

definition dec_CmdResultData :: "json \<Rightarrow> codec_error + CmdResultData" where
  "dec_CmdResultData j =
     into_struct j
       \<lparr>CmdResultData.Token = [], CmdResultData.ExitCode = 0,
        CmdResultData.Stdout = [], CmdResultData.Stderr = []\<rparr>
       (\<lambda>m. and_then (get_string (m ''token'')) (\<lambda>v1.
             and_then (get_int (m ''exitCode'')) (\<lambda>v2.
             and_then (get_string (m ''stdout'')) (\<lambda>v3.
             and_then (get_string (m ''stderr'')) (\<lambda>v4.
               Inr \<lparr>CmdResultData.Token = v1, CmdResultData.ExitCode = v2,
                CmdResultData.Stdout = v3, CmdResultData.Stderr = v4\<rparr>)))))"

definition valid_CmdResultData :: "CmdResultData \<Rightarrow> bool" where
  "valid_CmdResultData x \<longleftrightarrow>
     ValidString (CmdResultData.Token x) \<and> ValidString (CmdResultData.Stdout x) \<and>
     ValidString (CmdResultData.Stderr x)"

definition enc_CmdErrorData :: "CmdErrorData \<Rightarrow> json" where
  "enc_CmdErrorData x =
     JObject (str_field ''token'' (CmdErrorData.Token x) @
              int_field ''code'' (CmdErrorData.Code x) @
              str_field ''message'' (CmdErrorData.Message x))"

definition dec_CmdErrorData :: "json \<Rightarrow> codec_error + CmdErrorData" where
  "dec_CmdErrorData j =
     into_struct j
       \<lparr>CmdErrorData.Token = [], CmdErrorData.Code = 0, CmdErrorData.Message = []\<rparr>
       (\<lambda>m. and_then (get_string (m ''token'')) (\<lambda>v1.
             and_then (get_int (m ''code'')) (\<lambda>v2.
             and_then (get_string (m ''message'')) (\<lambda>v3.
               Inr \<lparr>CmdErrorData.Token = v1, CmdErrorData.Code = v2,
                CmdErrorData.Message = v3\<rparr>))))"

definition valid_CmdErrorData :: "CmdErrorData \<Rightarrow> bool" where
  "valid_CmdErrorData x \<longleftrightarrow>
     ValidString (CmdErrorData.Token x) \<and> ValidString (CmdErrorData.Message x)"

record RegisterAckData =
  Success :: bool
  Message :: string

definition enc_RegisterAckData :: "RegisterAckData \<Rightarrow> json" where
  "enc_RegisterAckData x =
     JObject (bool_field ''success'' (RegisterAckData.Success x) @
              str_field_omitempty ''message'' (RegisterAckData.Message x))"

definition dec_RegisterAckData :: "json \<Rightarrow> codec_error + RegisterAckData" where
  "dec_RegisterAckData j =
     into_struct j
       \<lparr>RegisterAckData.Success = False, RegisterAckData.Message = []\<rparr>
       (\<lambda>m. and_then (get_bool (m ''success'')) (\<lambda>v1.
             and_then (get_string (m ''message'')) (\<lambda>v2.
               Inr \<lparr>RegisterAckData.Success = v1, RegisterAckData.Message = v2\<rparr>)))"

definition valid_RegisterAckData :: "RegisterAckData \<Rightarrow> bool" where
  "valid_RegisterAckData x \<longleftrightarrow>
     ValidString (RegisterAckData.Message x)"

record SpawnPtyData =
  SessionID :: string
  Cols :: "16 word"
  Rows :: "16 word"
  Username :: string

definition enc_SpawnPtyData :: "SpawnPtyData \<Rightarrow> json" where
  "enc_SpawnPtyData x =
     JObject (str_field ''sessionId'' (SpawnPtyData.SessionID x) @
              uint16_field ''cols'' (SpawnPtyData.Cols x) @
              uint16_field ''rows'' (SpawnPtyData.Rows x) @
              str_field_omitempty ''username'' (SpawnPtyData.Username x))"

definition dec_SpawnPtyData :: "json \<Rightarrow> codec_error + SpawnPtyData" where
  "dec_SpawnPtyData j =
     into_struct j
       \<lparr>SpawnPtyData.SessionID = [], SpawnPtyData.Cols = 0, SpawnPtyData.Rows = 0,
        SpawnPtyData.Username = []\<rparr>
       (\<lambda>m. and_then (get_string (m ''sessionId'')) (\<lambda>v1.
             and_then (get_uint16 (m ''cols'')) (\<lambda>v2.
             and_then (get_uint16 (m ''rows'')) (\<lambda>v3.
             and_then (get_string (m ''username'')) (\<lambda>v4.
               Inr \<lparr>SpawnPtyData.SessionID = v1, SpawnPtyData.Cols = v2,
                SpawnPtyData.Rows = v3, SpawnPtyData.Username = v4\<rparr>)))))"

definition valid_SpawnPtyData :: "SpawnPtyData \<Rightarrow> bool" where
  "valid_SpawnPtyData x \<longleftrightarrow>
     ValidString (SpawnPtyData.SessionID x) \<and> ValidString (SpawnPtyData.Username x)"

record PtyInputData =
  SessionID :: string
  Data :: string

definition enc_PtyInputData :: "PtyInputData \<Rightarrow> json" where
  "enc_PtyInputData x =
     JObject (str_field ''sessionId'' (PtyInputData.SessionID x) @
              str_field ''data'' (PtyInputData.Data x))"

definition dec_PtyInputData :: "json \<Rightarrow> codec_error + PtyInputData" where
  "dec_PtyInputData j =
     into_struct j
       \<lparr>PtyInputData.SessionID = [], PtyInputData.Data = []\<rparr>
       (\<lambda>m. and_then (get_string (m ''sessionId'')) (\<lambda>v1.
             and_then (get_string (m ''data'')) (\<lambda>v2.
               Inr \<lparr>PtyInputData.SessionID = v1, PtyInputData.Data = v2\<rparr>)))"

definition valid_PtyInputData :: "PtyInputData \<Rightarrow> bool" where
  "valid_PtyInputData x \<longleftrightarrow>
     ValidString (PtyInputData.SessionID x) \<and> ValidString (PtyInputData.Data x)"

record PtyResizeData =
  SessionID :: string
  Cols :: "16 word"
  Rows :: "16 word"

definition enc_PtyResizeData :: "PtyResizeData \<Rightarrow> json" where
  "enc_PtyResizeData x =
     JObject (str_field ''sessionId'' (PtyResizeData.SessionID x) @
              uint16_field ''cols'' (PtyResizeData.Cols x) @
              uint16_field ''rows'' (PtyResizeData.Rows x))"

definition dec_PtyResizeData :: "json \<Rightarrow> codec_error + PtyResizeData" where
  "dec_PtyResizeData j =
     into_struct j
       \<lparr>PtyResizeData.SessionID = [], PtyResizeData.Cols = 0, PtyResizeData.Rows = 0\<rparr>
       (\<lambda>m. and_then (get_string (m ''sessionId'')) (\<lambda>v1.
             and_then (get_uint16 (m ''cols'')) (\<lambda>v2.
             and_then (get_uint16 (m ''rows'')) (\<lambda>v3.
               Inr \<lparr>PtyResizeData.SessionID = v1, PtyResizeData.Cols = v2,
                PtyResizeData.Rows = v3\<rparr>))))"

definition valid_PtyResizeData :: "PtyResizeData \<Rightarrow> bool" where
  "valid_PtyResizeData x \<longleftrightarrow>
     ValidString (PtyResizeData.SessionID x)"

record ClosePtyData =
  SessionID :: string

definition enc_ClosePtyData :: "ClosePtyData \<Rightarrow> json" where
  "enc_ClosePtyData x =
     JObject (str_field ''sessionId'' (ClosePtyData.SessionID x))"

definition dec_ClosePtyData :: "json \<Rightarrow> codec_error + ClosePtyData" where
  "dec_ClosePtyData j =
     into_struct j
       \<lparr>ClosePtyData.SessionID = []\<rparr>
       (\<lambda>m. and_then (get_string (m ''sessionId'')) (\<lambda>v1.
               Inr \<lparr>ClosePtyData.SessionID = v1\<rparr>))"

definition valid_ClosePtyData :: "ClosePtyData \<Rightarrow> bool" where
  "valid_ClosePtyData x \<longleftrightarrow>
     ValidString (ClosePtyData.SessionID x)"

definition enc_ExecCmdData :: "ExecCmdData \<Rightarrow> json" where
  "enc_ExecCmdData x =
     JObject (str_field ''token'' (ExecCmdData.Token x) @
              str_field_omitempty ''username'' (ExecCmdData.Username x) @
              str_field ''command'' (ExecCmdData.Command x) @
              strs_field_omitempty ''args'' (ExecCmdData.Args x) @
              int_field_omitempty ''timeout'' (ExecCmdData.Timeout x))"

definition dec_ExecCmdData :: "json \<Rightarrow> codec_error + ExecCmdData" where
  "dec_ExecCmdData j =
     into_struct j
       \<lparr>ExecCmdData.Token = [], ExecCmdData.Username = [], ExecCmdData.Command = [],
        ExecCmdData.Args = [], ExecCmdData.Timeout = 0\<rparr>
       (\<lambda>m. and_then (get_string (m ''token'')) (\<lambda>v1.
             and_then (get_string (m ''username'')) (\<lambda>v2.
             and_then (get_string (m ''command'')) (\<lambda>v3.
             and_then (get_strings (m ''args'')) (\<lambda>v4.
             and_then (get_int (m ''timeout'')) (\<lambda>v5.
               Inr \<lparr>ExecCmdData.Token = v1, ExecCmdData.Username = v2,
                ExecCmdData.Command = v3, ExecCmdData.Args = v4, ExecCmdData.Timeout = v5\<rparr>))))))"

definition valid_ExecCmdData :: "ExecCmdData \<Rightarrow> bool" where
  "valid_ExecCmdData x \<longleftrightarrow>
     ValidString (ExecCmdData.Token x) \<and> ValidString (ExecCmdData.Username x) \<and>
     ValidString (ExecCmdData.Command x) \<and> list_all ValidString (ExecCmdData.Args x)"

record ListFilesData =
  RequestID :: string
  Path :: string

definition enc_ListFilesData :: "ListFilesData \<Rightarrow> json" where
  "enc_ListFilesData x =
     JObject (str_field ''requestId'' (ListFilesData.RequestID x) @
              str_field ''path'' (ListFilesData.Path x))"

definition dec_ListFilesData :: "json \<Rightarrow> codec_error + ListFilesData" where
  "dec_ListFilesData j =
     into_struct j
       \<lparr>ListFilesData.RequestID = [], ListFilesData.Path = []\<rparr>
       (\<lambda>m. and_then (get_string (m ''requestId'')) (\<lambda>v1.
             and_then (get_string (m ''path'')) (\<lambda>v2.
               Inr \<lparr>ListFilesData.RequestID = v1, ListFilesData.Path = v2\<rparr>)))"

definition valid_ListFilesData :: "ListFilesData \<Rightarrow> bool" where
  "valid_ListFilesData x \<longleftrightarrow>
     ValidString (ListFilesData.RequestID x) \<and> ValidString (ListFilesData.Path x)"

record DownloadFileData =
  RequestID :: string
  Path :: string

definition enc_DownloadFileData :: "DownloadFileData \<Rightarrow> json" where
  "enc_DownloadFileData x =
     JObject (str_field ''requestId'' (DownloadFileData.RequestID x) @
              str_field ''path'' (DownloadFileData.Path x))"

definition dec_DownloadFileData :: "json \<Rightarrow> codec_error + DownloadFileData" where
  "dec_DownloadFileData j =
     into_struct j
       \<lparr>DownloadFileData.RequestID = [], DownloadFileData.Path = []\<rparr>
       (\<lambda>m. and_then (get_string (m ''requestId'')) (\<lambda>v1.
             and_then (get_string (m ''path'')) (\<lambda>v2.
               Inr \<lparr>DownloadFileData.RequestID = v1, DownloadFileData.Path = v2\<rparr>)))"

definition valid_DownloadFileData :: "DownloadFileData \<Rightarrow> bool" where
  "valid_DownloadFileData x \<longleftrightarrow>
     ValidString (DownloadFileData.RequestID x) \<and> ValidString (DownloadFileData.Path x)"

record UploadFileData =
  RequestID :: string
  Path :: string
  FileName :: string
  Content :: string

definition enc_UploadFileData :: "UploadFileData \<Rightarrow> json" where
  "enc_UploadFileData x =
     JObject (str_field ''requestId'' (UploadFileData.RequestID x) @
              str_field ''path'' (UploadFileData.Path x) @
              str_field ''fileName'' (UploadFileData.FileName x) @
              str_field ''content'' (UploadFileData.Content x))"

definition dec_UploadFileData :: "json \<Rightarrow> codec_error + UploadFileData" where
  "dec_UploadFileData j =
     into_struct j
       \<lparr>UploadFileData.RequestID = [], UploadFileData.Path = [],
        UploadFileData.FileName = [], UploadFileData.Content = []\<rparr>
       (\<lambda>m. and_then (get_string (m ''requestId'')) (\<lambda>v1.
             and_then (get_string (m ''path'')) (\<lambda>v2.
             and_then (get_string (m ''fileName'')) (\<lambda>v3.
             and_then (get_string (m ''content'')) (\<lambda>v4.
               Inr \<lparr>UploadFileData.RequestID = v1, UploadFileData.Path = v2,
                UploadFileData.FileName = v3, UploadFileData.Content = v4\<rparr>)))))"

definition valid_UploadFileData :: "UploadFileData \<Rightarrow> bool" where
  "valid_UploadFileData x \<longleftrightarrow>
     ValidString (UploadFileData.RequestID x) \<and>
     ValidString (UploadFileData.Path x) \<and>
     ValidString (UploadFileData.FileName x) \<and> ValidString (UploadFileData.Content x)"

record CreateFileData =
  RequestID :: string
  Path :: string
  FileName :: string
  Content :: string

definition enc_CreateFileData :: "CreateFileData \<Rightarrow> json" where
  "enc_CreateFileData x =
     JObject (str_field ''requestId'' (CreateFileData.RequestID x) @
              str_field ''path'' (CreateFileData.Path x) @
              str_field ''fileName'' (CreateFileData.FileName x) @
              str_field_omitempty ''content'' (CreateFileData.Content x))"

definition dec_CreateFileData :: "json \<Rightarrow> codec_error + CreateFileData" where
  "dec_CreateFileData j =
     into_struct j
       \<lparr>CreateFileData.RequestID = [], CreateFileData.Path = [],
        CreateFileData.FileName = [], CreateFileData.Content = []\<rparr>
       (\<lambda>m. and_then (get_string (m ''requestId'')) (\<lambda>v1.
             and_then (get_string (m ''path'')) (\<lambda>v2.
             and_then (get_string (m ''fileName'')) (\<lambda>v3.
             and_then (get_string (m ''content'')) (\<lambda>v4.
               Inr \<lparr>CreateFileData.RequestID = v1, CreateFileData.Path = v2,
                CreateFileData.FileName = v3, CreateFileData.Content = v4\<rparr>)))))"

definition valid_CreateFileData :: "CreateFileData \<Rightarrow> bool" where
  "valid_CreateFileData x \<longleftrightarrow>
     ValidString (CreateFileData.RequestID x) \<and>
     ValidString (CreateFileData.Path x) \<and>
     ValidString (CreateFileData.FileName x) \<and> ValidString (CreateFileData.Content x)"

record CreateFolderData =
  RequestID :: string
  Path :: string
  FolderName :: string

definition enc_CreateFolderData :: "CreateFolderData \<Rightarrow> json" where
  "enc_CreateFolderData x =
     JObject (str_field ''requestId'' (CreateFolderData.RequestID x) @
              str_field ''path'' (CreateFolderData.Path x) @
              str_field ''folderName'' (CreateFolderData.FolderName x))"

definition dec_CreateFolderData :: "json \<Rightarrow> codec_error + CreateFolderData" where
  "dec_CreateFolderData j =
     into_struct j
       \<lparr>CreateFolderData.RequestID = [], CreateFolderData.Path = [],
        CreateFolderData.FolderName = []\<rparr>
       (\<lambda>m. and_then (get_string (m ''requestId'')) (\<lambda>v1.
             and_then (get_string (m ''path'')) (\<lambda>v2.
             and_then (get_string (m ''folderName'')) (\<lambda>v3.
               Inr \<lparr>CreateFolderData.RequestID = v1, CreateFolderData.Path = v2,
                CreateFolderData.FolderName = v3\<rparr>))))"

definition valid_CreateFolderData :: "CreateFolderData \<Rightarrow> bool" where
  "valid_CreateFolderData x \<longleftrightarrow>
     ValidString (CreateFolderData.RequestID x) \<and>
     ValidString (CreateFolderData.Path x) \<and>
     ValidString (CreateFolderData.FolderName x)"

record DeleteItemData =
  RequestID :: string
  Path :: string
  IsDirectory :: bool

definition enc_DeleteItemData :: "DeleteItemData \<Rightarrow> json" where
  "enc_DeleteItemData x =
     JObject (str_field ''requestId'' (DeleteItemData.RequestID x) @
              str_field ''path'' (DeleteItemData.Path x) @
              bool_field ''isDirectory'' (DeleteItemData.IsDirectory x))"

definition dec_DeleteItemData :: "json \<Rightarrow> codec_error + DeleteItemData" where
  "dec_DeleteItemData j =
     into_struct j
       \<lparr>DeleteItemData.RequestID = [], DeleteItemData.Path = [],
        DeleteItemData.IsDirectory = False\<rparr>
       (\<lambda>m. and_then (get_string (m ''requestId'')) (\<lambda>v1.
             and_then (get_string (m ''path'')) (\<lambda>v2.
             and_then (get_bool (m ''isDirectory'')) (\<lambda>v3.
               Inr \<lparr>DeleteItemData.RequestID = v1, DeleteItemData.Path = v2,
                DeleteItemData.IsDirectory = v3\<rparr>))))"

definition valid_DeleteItemData :: "DeleteItemData \<Rightarrow> bool" where
  "valid_DeleteItemData x \<longleftrightarrow>
     ValidString (DeleteItemData.RequestID x) \<and> ValidString (DeleteItemData.Path x)"

record CopyItemData =
  RequestID :: string
  SourcePath :: string
  TargetDir :: string

definition enc_CopyItemData :: "CopyItemData \<Rightarrow> json" where
  "enc_CopyItemData x =
     JObject (str_field ''requestId'' (CopyItemData.RequestID x) @
              str_field ''sourcePath'' (CopyItemData.SourcePath x) @
              str_field ''targetDir'' (CopyItemData.TargetDir x))"

definition dec_CopyItemData :: "json \<Rightarrow> codec_error + CopyItemData" where
  "dec_CopyItemData j =
     into_struct j
       \<lparr>CopyItemData.RequestID = [], CopyItemData.SourcePath = [],
        CopyItemData.TargetDir = []\<rparr>
       (\<lambda>m. and_then (get_string (m ''requestId'')) (\<lambda>v1.
             and_then (get_string (m ''sourcePath'')) (\<lambda>v2.
             and_then (get_string (m ''targetDir'')) (\<lambda>v3.
               Inr \<lparr>CopyItemData.RequestID = v1, CopyItemData.SourcePath = v2,
                CopyItemData.TargetDir = v3\<rparr>))))"

definition valid_CopyItemData :: "CopyItemData \<Rightarrow> bool" where
  "valid_CopyItemData x \<longleftrightarrow>
     ValidString (CopyItemData.RequestID x) \<and>
     ValidString (CopyItemData.SourcePath x) \<and> ValidString (CopyItemData.TargetDir x)"

record MoveItemData =
  RequestID :: string
  SourcePath :: string
  TargetPath :: string

definition enc_MoveItemData :: "MoveItemData \<Rightarrow> json" where
  "enc_MoveItemData x =
     JObject (str_field ''requestId'' (MoveItemData.RequestID x) @
              str_field ''sourcePath'' (MoveItemData.SourcePath x) @
              str_field ''targetPath'' (MoveItemData.TargetPath x))"

definition dec_MoveItemData :: "json \<Rightarrow> codec_error + MoveItemData" where
  "dec_MoveItemData j =
     into_struct j
       \<lparr>MoveItemData.RequestID = [], MoveItemData.SourcePath = [],
        MoveItemData.TargetPath = []\<rparr>
       (\<lambda>m. and_then (get_string (m ''requestId'')) (\<lambda>v1.
             and_then (get_string (m ''sourcePath'')) (\<lambda>v2.
             and_then (get_string (m ''targetPath'')) (\<lambda>v3.
               Inr \<lparr>MoveItemData.RequestID = v1, MoveItemData.SourcePath = v2,
                MoveItemData.TargetPath = v3\<rparr>))))"

definition valid_MoveItemData :: "MoveItemData \<Rightarrow> bool" where
  "valid_MoveItemData x \<longleftrightarrow>
     ValidString (MoveItemData.RequestID x) \<and>
     ValidString (MoveItemData.SourcePath x) \<and> ValidString (MoveItemData.TargetPath x)"

record RenameItemData =
  RequestID :: string
  Path :: string
  NewName :: string

definition enc_RenameItemData :: "RenameItemData \<Rightarrow> json" where
  "enc_RenameItemData x =
     JObject (str_field ''requestId'' (RenameItemData.RequestID x) @
              str_field ''path'' (RenameItemData.Path x) @
              str_field ''newName'' (RenameItemData.NewName x))"

definition dec_RenameItemData :: "json \<Rightarrow> codec_error + RenameItemData" where
  "dec_RenameItemData j =
     into_struct j
       \<lparr>RenameItemData.RequestID = [], RenameItemData.Path = [],
        RenameItemData.NewName = []\<rparr>
       (\<lambda>m. and_then (get_string (m ''requestId'')) (\<lambda>v1.
             and_then (get_string (m ''path'')) (\<lambda>v2.
             and_then (get_string (m ''newName'')) (\<lambda>v3.
               Inr \<lparr>RenameItemData.RequestID = v1, RenameItemData.Path = v2,
                RenameItemData.NewName = v3\<rparr>))))"

definition valid_RenameItemData :: "RenameItemData \<Rightarrow> bool" where
  "valid_RenameItemData x \<longleftrightarrow>
     ValidString (RenameItemData.RequestID x) \<and>
     ValidString (RenameItemData.Path x) \<and> ValidString (RenameItemData.NewName x)"

record FileItem =
  Name :: string
  Path :: string
  Type :: string
  Size :: go_int
  ModTime :: string
  Permissions :: string
  Owner :: string
  Group :: string
  Executable :: bool
  LinkTarget :: string

definition enc_FileItem :: "FileItem \<Rightarrow> json" where
  "enc_FileItem x =
     JObject (str_field ''name'' (FileItem.Name x) @ str_field ''path'' (FileItem.Path x) @
              str_field ''type'' (FileItem.Type x) @ int_field ''size'' (FileItem.Size x) @
              str_field ''modTime'' (FileItem.ModTime x) @
              str_field ''permissions'' (FileItem.Permissions x) @
              str_field_omitempty ''owner'' (FileItem.Owner x) @
              str_field_omitempty ''group'' (FileItem.Group x) @
              bool_field_omitempty ''executable'' (FileItem.Executable x) @
              str_field_omitempty ''linkTarget'' (FileItem.LinkTarget x))"

definition dec_FileItem :: "json \<Rightarrow> codec_error + FileItem" where
  "dec_FileItem j =
     into_struct j
       \<lparr>FileItem.Name = [], FileItem.Path = [], FileItem.Type = [],
        FileItem.Size = 0, FileItem.ModTime = [], FileItem.Permissions = [],
        FileItem.Owner = [], FileItem.Group = [], FileItem.Executable = False,
        FileItem.LinkTarget = []\<rparr>
       (\<lambda>m. and_then (get_string (m ''name'')) (\<lambda>v1.
             and_then (get_string (m ''path'')) (\<lambda>v2.
             and_then (get_string (m ''type'')) (\<lambda>v3.
             and_then (get_int (m ''size'')) (\<lambda>v4.
             and_then (get_string (m ''modTime'')) (\<lambda>v5.
             and_then (get_string (m ''permissions'')) (\<lambda>v6.
             and_then (get_string (m ''owner'')) (\<lambda>v7.
             and_then (get_string (m ''group'')) (\<lambda>v8.
             and_then (get_bool (m ''executable'')) (\<lambda>v9.
             and_then (get_string (m ''linkTarget'')) (\<lambda>v10.
               Inr \<lparr>FileItem.Name = v1, FileItem.Path = v2, FileItem.Type = v3,
                FileItem.Size = v4, FileItem.ModTime = v5, FileItem.Permissions = v6,
                FileItem.Owner = v7, FileItem.Group = v8, FileItem.Executable = v9,
                FileItem.LinkTarget = v10\<rparr>)))))))))))"

definition valid_FileItem :: "FileItem \<Rightarrow> bool" where
  "valid_FileItem x \<longleftrightarrow>
     ValidString (FileItem.Name x) \<and> ValidString (FileItem.Path x) \<and>
     ValidString (FileItem.Type x) \<and> ValidString (FileItem.ModTime x) \<and>
     ValidString (FileItem.Permissions x) \<and> ValidString (FileItem.Owner x) \<and>
     ValidString (FileItem.Group x) \<and> ValidString (FileItem.LinkTarget x)"

record FileListData =
  RequestID :: string
  Path :: string
  Files :: "FileItem list option"

definition enc_FileListData :: "FileListData \<Rightarrow> json" where
  "enc_FileListData x =
     JObject (str_field ''requestId'' (FileListData.RequestID x) @
              str_field ''path'' (FileListData.Path x) @
              items_field ''files'' enc_FileItem (FileListData.Files x))"

definition dec_FileListData :: "json \<Rightarrow> codec_error + FileListData" where
  "dec_FileListData j =
     into_struct j
       \<lparr>FileListData.RequestID = [], FileListData.Path = [],
        FileListData.Files = None\<rparr>
       (\<lambda>m. and_then (get_string (m ''requestId'')) (\<lambda>v1.
             and_then (get_string (m ''path'')) (\<lambda>v2.
             and_then (get_items dec_FileItem (m ''files'')) (\<lambda>v3.
               Inr \<lparr>FileListData.RequestID = v1, FileListData.Path = v2,
                FileListData.Files = v3\<rparr>))))"

definition valid_FileListData :: "FileListData \<Rightarrow> bool" where
  "valid_FileListData x \<longleftrightarrow>
     ValidString (FileListData.RequestID x) \<and> ValidString (FileListData.Path x) \<and>
     (case FileListData.Files x of None \<Rightarrow> True | Some fs \<Rightarrow> list_all valid_FileItem fs)"

record FileContentData =
  RequestID :: string
  Path :: string
  FileName :: string
  Content :: string
  MimeType :: string
  Size :: go_int

definition enc_FileContentData :: "FileContentData \<Rightarrow> json" where
  "enc_FileContentData x =
     JObject (str_field ''requestId'' (FileContentData.RequestID x) @
              str_field ''path'' (FileContentData.Path x) @
              str_field ''fileName'' (FileContentData.FileName x) @
              str_field ''content'' (FileContentData.Content x) @
              str_field ''mimeType'' (FileContentData.MimeType x) @
              int_field ''size'' (FileContentData.Size x))"

definition dec_FileContentData :: "json \<Rightarrow> codec_error + FileContentData" where
  "dec_FileContentData j =
     into_struct j
       \<lparr>FileContentData.RequestID = [], FileContentData.Path = [],
        FileContentData.FileName = [], FileContentData.Content = [],
        FileContentData.MimeType = [], FileContentData.Size = 0\<rparr>
       (\<lambda>m. and_then (get_string (m ''requestId'')) (\<lambda>v1.
             and_then (get_string (m ''path'')) (\<lambda>v2.
             and_then (get_string (m ''fileName'')) (\<lambda>v3.
             and_then (get_string (m ''content'')) (\<lambda>v4.
             and_then (get_string (m ''mimeType'')) (\<lambda>v5.
             and_then (get_int (m ''size'')) (\<lambda>v6.
               Inr \<lparr>FileContentData.RequestID = v1, FileContentData.Path = v2,
                FileContentData.FileName = v3, FileContentData.Content = v4,
                FileContentData.MimeType = v5, FileContentData.Size = v6\<rparr>)))))))"

definition valid_FileContentData :: "FileContentData \<Rightarrow> bool" where
  "valid_FileContentData x \<longleftrightarrow>
     ValidString (FileContentData.RequestID x) \<and>
     ValidString (FileContentData.Path x) \<and>
     ValidString (FileContentData.FileName x) \<and>
     ValidString (FileContentData.Content x) \<and> ValidString (FileContentData.MimeType x)"

record FileOpResultData =
  RequestID :: string
  Success :: bool
  Message :: string
  UniqueName :: string

definition enc_FileOpResultData :: "FileOpResultData \<Rightarrow> json" where
  "enc_FileOpResultData x =
     JObject (str_field ''requestId'' (FileOpResultData.RequestID x) @
              bool_field ''success'' (FileOpResultData.Success x) @
              str_field_omitempty ''message'' (FileOpResultData.Message x) @
              str_field_omitempty ''uniqueName'' (FileOpResultData.UniqueName x))"

definition dec_FileOpResultData :: "json \<Rightarrow> codec_error + FileOpResultData" where
  "dec_FileOpResultData j =
     into_struct j
       \<lparr>FileOpResultData.RequestID = [], FileOpResultData.Success = False,
        FileOpResultData.Message = [], FileOpResultData.UniqueName = []\<rparr>
       (\<lambda>m. and_then (get_string (m ''requestId'')) (\<lambda>v1.
             and_then (get_bool (m ''success'')) (\<lambda>v2.
             and_then (get_string (m ''message'')) (\<lambda>v3.
             and_then (get_string (m ''uniqueName'')) (\<lambda>v4.
               Inr \<lparr>FileOpResultData.RequestID = v1, FileOpResultData.Success = v2,
                FileOpResultData.Message = v3, FileOpResultData.UniqueName = v4\<rparr>)))))"

definition valid_FileOpResultData :: "FileOpResultData \<Rightarrow> bool" where
  "valid_FileOpResultData x \<longleftrightarrow>
     ValidString (FileOpResultData.RequestID x) \<and>
     ValidString (FileOpResultData.Message x) \<and>
     ValidString (FileOpResultData.UniqueName x)"

record FileErrorData =
  RequestID :: string
  Code :: go_int
  Message :: string

definition enc_FileErrorData :: "FileErrorData \<Rightarrow> json" where
  "enc_FileErrorData x =
     JObject (str_field ''requestId'' (FileErrorData.RequestID x) @
              int_field ''code'' (FileErrorData.Code x) @
              str_field ''message'' (FileErrorData.Message x))"

definition dec_FileErrorData :: "json \<Rightarrow> codec_error + FileErrorData" where
  "dec_FileErrorData j =
     into_struct j
       \<lparr>FileErrorData.RequestID = [], FileErrorData.Code = 0,
        FileErrorData.Message = []\<rparr>
       (\<lambda>m. and_then (get_string (m ''requestId'')) (\<lambda>v1.
             and_then (get_int (m ''code'')) (\<lambda>v2.
             and_then (get_string (m ''message'')) (\<lambda>v3.
               Inr \<lparr>FileErrorData.RequestID = v1, FileErrorData.Code = v2,
                FileErrorData.Message = v3\<rparr>))))"

definition valid_FileErrorData :: "FileErrorData \<Rightarrow> bool" where
  "valid_FileErrorData x \<longleftrightarrow>
     ValidString (FileErrorData.RequestID x) \<and> ValidString (FileErrorData.Message x)"

record StreamFileInfoData =
  RequestID :: string
  Path :: string

definition enc_StreamFileInfoData :: "StreamFileInfoData \<Rightarrow> json" where
  "enc_StreamFileInfoData x =
     JObject (str_field ''requestId'' (StreamFileInfoData.RequestID x) @
              str_field ''path'' (StreamFileInfoData.Path x))"

definition dec_StreamFileInfoData :: "json \<Rightarrow> codec_error + StreamFileInfoData" where
  "dec_StreamFileInfoData j =
     into_struct j
       \<lparr>StreamFileInfoData.RequestID = [], StreamFileInfoData.Path = []\<rparr>
       (\<lambda>m. and_then (get_string (m ''requestId'')) (\<lambda>v1.
             and_then (get_string (m ''path'')) (\<lambda>v2.
               Inr \<lparr>StreamFileInfoData.RequestID = v1, StreamFileInfoData.Path = v2\<rparr>)))"

definition valid_StreamFileInfoData :: "StreamFileInfoData \<Rightarrow> bool" where
  "valid_StreamFileInfoData x \<longleftrightarrow>
     ValidString (StreamFileInfoData.RequestID x) \<and>
     ValidString (StreamFileInfoData.Path x)"

record StreamFileInfoResponseData =
  RequestID :: string
  Path :: string
  FileName :: string
  MimeType :: string
  Size :: go_int
  Error :: string

definition enc_StreamFileInfoResponseData :: "StreamFileInfoResponseData \<Rightarrow> json" where
  "enc_StreamFileInfoResponseData x =
     JObject (str_field ''requestId'' (StreamFileInfoResponseData.RequestID x) @
              str_field ''path'' (StreamFileInfoResponseData.Path x) @
              str_field ''fileName'' (StreamFileInfoResponseData.FileName x) @
              str_field ''mimeType'' (StreamFileInfoResponseData.MimeType x) @
              int_field ''size'' (StreamFileInfoResponseData.Size x) @
              str_field_omitempty ''error'' (StreamFileInfoResponseData.Error x))"

definition dec_StreamFileInfoResponseData :: "json \<Rightarrow> codec_error + StreamFileInfoResponseData" where
  "dec_StreamFileInfoResponseData j =
     into_struct j
       \<lparr>StreamFileInfoResponseData.RequestID = [],
        StreamFileInfoResponseData.Path = [], StreamFileInfoResponseData.FileName = [],
        StreamFileInfoResponseData.MimeType = [], StreamFileInfoResponseData.Size = 0,
        StreamFileInfoResponseData.Error = []\<rparr>
       (\<lambda>m. and_then (get_string (m ''requestId'')) (\<lambda>v1.
             and_then (get_string (m ''path'')) (\<lambda>v2.
             and_then (get_string (m ''fileName'')) (\<lambda>v3.
             and_then (get_string (m ''mimeType'')) (\<lambda>v4.
             and_then (get_int (m ''size'')) (\<lambda>v5.
             and_then (get_string (m ''error'')) (\<lambda>v6.
               Inr \<lparr>StreamFileInfoResponseData.RequestID = v1,
                StreamFileInfoResponseData.Path = v2,
                StreamFileInfoResponseData.FileName = v3,
                StreamFileInfoResponseData.MimeType = v4,
                StreamFileInfoResponseData.Size = v5, StreamFileInfoResponseData.Error = v6\<rparr>)))))))"

definition valid_StreamFileInfoResponseData :: "StreamFileInfoResponseData \<Rightarrow> bool" where
  "valid_StreamFileInfoResponseData x \<longleftrightarrow>
     ValidString (StreamFileInfoResponseData.RequestID x) \<and>
     ValidString (StreamFileInfoResponseData.Path x) \<and>
     ValidString (StreamFileInfoResponseData.FileName x) \<and>
     ValidString (StreamFileInfoResponseData.MimeType x) \<and>
     ValidString (StreamFileInfoResponseData.Error x)"

record StreamChunkData =
  RequestID :: string
  Path :: string
  Offset :: go_int
  Length :: go_int

definition enc_StreamChunkData :: "StreamChunkData \<Rightarrow> json" where
  "enc_StreamChunkData x =
     JObject (str_field ''requestId'' (StreamChunkData.RequestID x) @
              str_field ''path'' (StreamChunkData.Path x) @
              int_field ''offset'' (StreamChunkData.Offset x) @
              int_field ''length'' (StreamChunkData.Length x))"

definition dec_StreamChunkData :: "json \<Rightarrow> codec_error + StreamChunkData" where
  "dec_StreamChunkData j =
     into_struct j
       \<lparr>StreamChunkData.RequestID = [], StreamChunkData.Path = [],
        StreamChunkData.Offset = 0, StreamChunkData.Length = 0\<rparr>
       (\<lambda>m. and_then (get_string (m ''requestId'')) (\<lambda>v1.
             and_then (get_string (m ''path'')) (\<lambda>v2.
             and_then (get_int (m ''offset'')) (\<lambda>v3.
             and_then (get_int (m ''length'')) (\<lambda>v4.
               Inr \<lparr>StreamChunkData.RequestID = v1, StreamChunkData.Path = v2,
                StreamChunkData.Offset = v3, StreamChunkData.Length = v4\<rparr>)))))"

definition valid_StreamChunkData :: "StreamChunkData \<Rightarrow> bool" where
  "valid_StreamChunkData x \<longleftrightarrow>
     ValidString (StreamChunkData.RequestID x) \<and> ValidString (StreamChunkData.Path x)"

record StreamChunkResponseData =
  RequestID :: string
  Offset :: go_int
  Length :: go_int
  Data :: string
  Error :: string

definition enc_StreamChunkResponseData :: "StreamChunkResponseData \<Rightarrow> json" where
  "enc_StreamChunkResponseData x =
     JObject (str_field ''requestId'' (StreamChunkResponseData.RequestID x) @
              int_field ''offset'' (StreamChunkResponseData.Offset x) @
              int_field ''length'' (StreamChunkResponseData.Length x) @
              str_field ''data'' (StreamChunkResponseData.Data x) @
              str_field_omitempty ''error'' (StreamChunkResponseData.Error x))"

definition dec_StreamChunkResponseData :: "json \<Rightarrow> codec_error + StreamChunkResponseData" where
  "dec_StreamChunkResponseData j =
     into_struct j
       \<lparr>StreamChunkResponseData.RequestID = [], StreamChunkResponseData.Offset = 0,
        StreamChunkResponseData.Length = 0, StreamChunkResponseData.Data = [],
        StreamChunkResponseData.Error = []\<rparr>
       (\<lambda>m. and_then (get_string (m ''requestId'')) (\<lambda>v1.
             and_then (get_int (m ''offset'')) (\<lambda>v2.
             and_then (get_int (m ''length'')) (\<lambda>v3.
             and_then (get_string (m ''data'')) (\<lambda>v4.
             and_then (get_string (m ''error'')) (\<lambda>v5.
               Inr \<lparr>StreamChunkResponseData.RequestID = v1,
                StreamChunkResponseData.Offset = v2, StreamChunkResponseData.Length = v3,
                StreamChunkResponseData.Data = v4, StreamChunkResponseData.Error = v5\<rparr>))))))"

definition valid_StreamChunkResponseData :: "StreamChunkResponseData \<Rightarrow> bool" where
  "valid_StreamChunkResponseData x \<longleftrightarrow>
     ValidString (StreamChunkResponseData.RequestID x) \<and>
     ValidString (StreamChunkResponseData.Data x) \<and>
     ValidString (StreamChunkResponseData.Error x)"

text \<open>
  \<open>EnrollAckData\<close> of src/enroll.go, read from the \<open>data\<close> of the \<open>register_ack\<close> that answers
  an enrollment; \<open>EnrollAckData_Config\<close> is the anonymous struct of its field \<open>Config\<close>.
\<close>

record EnrollAckData_Config =
  EnableTerminal :: bool
  EnableFileManager :: bool
  EnableTunnels :: bool

definition enc_EnrollAckData_Config :: "EnrollAckData_Config \<Rightarrow> json" where
  "enc_EnrollAckData_Config x =
     JObject (bool_field ''enableTerminal'' (EnrollAckData_Config.EnableTerminal x) @
              bool_field ''enableFileManager'' (EnrollAckData_Config.EnableFileManager x) @
              bool_field ''enableTunnels'' (EnrollAckData_Config.EnableTunnels x))"

definition dec_EnrollAckData_Config :: "json \<Rightarrow> codec_error + EnrollAckData_Config" where
  "dec_EnrollAckData_Config j =
     into_struct j
       \<lparr>EnrollAckData_Config.EnableTerminal = False,
        EnrollAckData_Config.EnableFileManager = False,
        EnrollAckData_Config.EnableTunnels = False\<rparr>
       (\<lambda>m. and_then (get_bool (m ''enableTerminal'')) (\<lambda>v1.
             and_then (get_bool (m ''enableFileManager'')) (\<lambda>v2.
             and_then (get_bool (m ''enableTunnels'')) (\<lambda>v3.
               Inr \<lparr>EnrollAckData_Config.EnableTerminal = v1,
                EnrollAckData_Config.EnableFileManager = v2,
                EnrollAckData_Config.EnableTunnels = v3\<rparr>))))"

definition valid_EnrollAckData_Config :: "EnrollAckData_Config \<Rightarrow> bool" where
  "valid_EnrollAckData_Config x \<longleftrightarrow>
     True"

definition zero_Config :: EnrollAckData_Config where
  "zero_Config =
     \<lparr>EnrollAckData_Config.EnableTerminal = False,
      EnrollAckData_Config.EnableFileManager = False,
      EnrollAckData_Config.EnableTunnels = False\<rparr>"

record EnrollAckData =
  Success :: bool
  Message :: string
  AgentID :: string
  AgentToken :: string
  Config :: EnrollAckData_Config

definition enc_EnrollAckData :: "EnrollAckData \<Rightarrow> json" where
  "enc_EnrollAckData x =
     JObject (bool_field ''success'' (EnrollAckData.Success x) @
              str_field_omitempty ''message'' (EnrollAckData.Message x) @
              str_field_omitempty ''agentId'' (EnrollAckData.AgentID x) @
              str_field_omitempty ''agentToken'' (EnrollAckData.AgentToken x) @
              struct_field ''config'' (enc_EnrollAckData_Config (EnrollAckData.Config x)))"

definition dec_EnrollAckData :: "json \<Rightarrow> codec_error + EnrollAckData" where
  "dec_EnrollAckData j =
     into_struct j
       \<lparr>EnrollAckData.Success = False, EnrollAckData.Message = [],
        EnrollAckData.AgentID = [], EnrollAckData.AgentToken = [],
        EnrollAckData.Config = zero_Config\<rparr>
       (\<lambda>m. and_then (get_bool (m ''success'')) (\<lambda>v1.
             and_then (get_string (m ''message'')) (\<lambda>v2.
             and_then (get_string (m ''agentId'')) (\<lambda>v3.
             and_then (get_string (m ''agentToken'')) (\<lambda>v4.
             and_then (get_struct dec_EnrollAckData_Config zero_Config (m ''config'')) (\<lambda>v5.
               Inr \<lparr>EnrollAckData.Success = v1, EnrollAckData.Message = v2,
                EnrollAckData.AgentID = v3, EnrollAckData.AgentToken = v4,
                EnrollAckData.Config = v5\<rparr>))))))"

definition valid_EnrollAckData :: "EnrollAckData \<Rightarrow> bool" where
  "valid_EnrollAckData x \<longleftrightarrow>
     ValidString (EnrollAckData.Message x) \<and>
     ValidString (EnrollAckData.AgentID x) \<and> ValidString (EnrollAckData.AgentToken x)"

subsection \<open>Payloads as \<open>interface{}\<close> values and as type parameters\<close>

text \<open>The argument \<open>data interface{}\<close> of \<open>NewMessage\<close> and \<open>MarshalMessage\<close>: a value of one
  of the payload structs.\<close>

datatype payload =
    P_RegisterData RegisterData
  | P_HeartbeatData HeartbeatData
  | P_PtyDataMsg PtyDataMsg
  | P_PtyExitMsg PtyExitMsg
  | P_CmdResultData CmdResultData
  | P_CmdErrorData CmdErrorData
  | P_RegisterAckData RegisterAckData
  | P_SpawnPtyData SpawnPtyData
  | P_PtyInputData PtyInputData
  | P_PtyResizeData PtyResizeData
  | P_ClosePtyData ClosePtyData
  | P_ExecCmdData ExecCmdData
  | P_ListFilesData ListFilesData
  | P_DownloadFileData DownloadFileData
  | P_UploadFileData UploadFileData
  | P_CreateFileData CreateFileData
  | P_CreateFolderData CreateFolderData
  | P_DeleteItemData DeleteItemData
  | P_CopyItemData CopyItemData
  | P_MoveItemData MoveItemData
  | P_RenameItemData RenameItemData
  | P_FileListData FileListData
  | P_FileContentData FileContentData
  | P_FileOpResultData FileOpResultData
  | P_FileErrorData FileErrorData
  | P_StreamFileInfoData StreamFileInfoData
  | P_StreamFileInfoResponseData StreamFileInfoResponseData
  | P_StreamChunkData StreamChunkData
  | P_StreamChunkResponseData StreamChunkResponseData
  | P_EnrollAckData EnrollAckData

text \<open>The type parameter \<open>T\<close> of \<open>UnmarshalData[T]\<close>.\<close>

datatype payload_type =
    T_RegisterData
  | T_HeartbeatData
  | T_PtyDataMsg
  | T_PtyExitMsg
  | T_CmdResultData
  | T_CmdErrorData
  | T_RegisterAckData
  | T_SpawnPtyData
  | T_PtyInputData
  | T_PtyResizeData
  | T_ClosePtyData
  | T_ExecCmdData
  | T_ListFilesData
  | T_DownloadFileData
  | T_UploadFileData
  | T_CreateFileData
  | T_CreateFolderData
  | T_DeleteItemData
  | T_CopyItemData
  | T_MoveItemData
  | T_RenameItemData
  | T_FileListData
  | T_FileContentData
  | T_FileOpResultData
  | T_FileErrorData
  | T_StreamFileInfoData
  | T_StreamFileInfoResponseData
  | T_StreamChunkData
  | T_StreamChunkResponseData
  | T_EnrollAckData

fun type_of_payload :: "payload \<Rightarrow> payload_type" where
  "type_of_payload (P_RegisterData x) = T_RegisterData"
| "type_of_payload (P_HeartbeatData x) = T_HeartbeatData"
| "type_of_payload (P_PtyDataMsg x) = T_PtyDataMsg"
| "type_of_payload (P_PtyExitMsg x) = T_PtyExitMsg"
| "type_of_payload (P_CmdResultData x) = T_CmdResultData"
| "type_of_payload (P_CmdErrorData x) = T_CmdErrorData"
| "type_of_payload (P_RegisterAckData x) = T_RegisterAckData"
| "type_of_payload (P_SpawnPtyData x) = T_SpawnPtyData"
| "type_of_payload (P_PtyInputData x) = T_PtyInputData"
| "type_of_payload (P_PtyResizeData x) = T_PtyResizeData"
| "type_of_payload (P_ClosePtyData x) = T_ClosePtyData"
| "type_of_payload (P_ExecCmdData x) = T_ExecCmdData"
| "type_of_payload (P_ListFilesData x) = T_ListFilesData"
| "type_of_payload (P_DownloadFileData x) = T_DownloadFileData"
| "type_of_payload (P_UploadFileData x) = T_UploadFileData"
| "type_of_payload (P_CreateFileData x) = T_CreateFileData"
| "type_of_payload (P_CreateFolderData x) = T_CreateFolderData"
| "type_of_payload (P_DeleteItemData x) = T_DeleteItemData"
| "type_of_payload (P_CopyItemData x) = T_CopyItemData"
| "type_of_payload (P_MoveItemData x) = T_MoveItemData"
| "type_of_payload (P_RenameItemData x) = T_RenameItemData"
| "type_of_payload (P_FileListData x) = T_FileListData"
| "type_of_payload (P_FileContentData x) = T_FileContentData"
| "type_of_payload (P_FileOpResultData x) = T_FileOpResultData"
| "type_of_payload (P_FileErrorData x) = T_FileErrorData"
| "type_of_payload (P_StreamFileInfoData x) = T_StreamFileInfoData"
| "type_of_payload (P_StreamFileInfoResponseData x) = T_StreamFileInfoResponseData"
| "type_of_payload (P_StreamChunkData x) = T_StreamChunkData"
| "type_of_payload (P_StreamChunkResponseData x) = T_StreamChunkResponseData"
| "type_of_payload (P_EnrollAckData x) = T_EnrollAckData"

text \<open>\<open>json.Marshal\<close> of a payload: the encoder of its struct.\<close>

fun json_Marshal :: "payload \<Rightarrow> json" where
  "json_Marshal (P_RegisterData x) = enc_RegisterData x"
| "json_Marshal (P_HeartbeatData x) = enc_HeartbeatData x"
| "json_Marshal (P_PtyDataMsg x) = enc_PtyDataMsg x"
| "json_Marshal (P_PtyExitMsg x) = enc_PtyExitMsg x"
| "json_Marshal (P_CmdResultData x) = enc_CmdResultData x"
| "json_Marshal (P_CmdErrorData x) = enc_CmdErrorData x"
| "json_Marshal (P_RegisterAckData x) = enc_RegisterAckData x"
| "json_Marshal (P_SpawnPtyData x) = enc_SpawnPtyData x"
| "json_Marshal (P_PtyInputData x) = enc_PtyInputData x"
| "json_Marshal (P_PtyResizeData x) = enc_PtyResizeData x"
| "json_Marshal (P_ClosePtyData x) = enc_ClosePtyData x"
| "json_Marshal (P_ExecCmdData x) = enc_ExecCmdData x"
| "json_Marshal (P_ListFilesData x) = enc_ListFilesData x"
| "json_Marshal (P_DownloadFileData x) = enc_DownloadFileData x"
| "json_Marshal (P_UploadFileData x) = enc_UploadFileData x"
| "json_Marshal (P_CreateFileData x) = enc_CreateFileData x"
| "json_Marshal (P_CreateFolderData x) = enc_CreateFolderData x"
| "json_Marshal (P_DeleteItemData x) = enc_DeleteItemData x"
| "json_Marshal (P_CopyItemData x) = enc_CopyItemData x"
| "json_Marshal (P_MoveItemData x) = enc_MoveItemData x"
| "json_Marshal (P_RenameItemData x) = enc_RenameItemData x"
| "json_Marshal (P_FileListData x) = enc_FileListData x"
| "json_Marshal (P_FileContentData x) = enc_FileContentData x"
| "json_Marshal (P_FileOpResultData x) = enc_FileOpResultData x"
| "json_Marshal (P_FileErrorData x) = enc_FileErrorData x"
| "json_Marshal (P_StreamFileInfoData x) = enc_StreamFileInfoData x"
| "json_Marshal (P_StreamFileInfoResponseData x) = enc_StreamFileInfoResponseData x"
| "json_Marshal (P_StreamChunkData x) = enc_StreamChunkData x"
| "json_Marshal (P_StreamChunkResponseData x) = enc_StreamChunkResponseData x"
| "json_Marshal (P_EnrollAckData x) = enc_EnrollAckData x"

definition as_payload ::
  "('a \<Rightarrow> payload) \<Rightarrow> codec_error + 'a \<Rightarrow> codec_error + payload" where
  "as_payload c r = (case r of Inl e \<Rightarrow> Inl e | Inr x \<Rightarrow> Inr (c x))"

text \<open>\<open>json.Unmarshal\<close> into a variable of type \<open>T\<close>: the decoder of that struct.\<close>

fun json_Unmarshal :: "payload_type \<Rightarrow> json \<Rightarrow> codec_error + payload" where
  "json_Unmarshal T_RegisterData j = as_payload P_RegisterData (dec_RegisterData j)"
| "json_Unmarshal T_HeartbeatData j = as_payload P_HeartbeatData (dec_HeartbeatData j)"
| "json_Unmarshal T_PtyDataMsg j = as_payload P_PtyDataMsg (dec_PtyDataMsg j)"
| "json_Unmarshal T_PtyExitMsg j = as_payload P_PtyExitMsg (dec_PtyExitMsg j)"
| "json_Unmarshal T_CmdResultData j = as_payload P_CmdResultData (dec_CmdResultData j)"
| "json_Unmarshal T_CmdErrorData j = as_payload P_CmdErrorData (dec_CmdErrorData j)"
| "json_Unmarshal T_RegisterAckData j = as_payload P_RegisterAckData (dec_RegisterAckData j)"
| "json_Unmarshal T_SpawnPtyData j = as_payload P_SpawnPtyData (dec_SpawnPtyData j)"
| "json_Unmarshal T_PtyInputData j = as_payload P_PtyInputData (dec_PtyInputData j)"
| "json_Unmarshal T_PtyResizeData j = as_payload P_PtyResizeData (dec_PtyResizeData j)"
| "json_Unmarshal T_ClosePtyData j = as_payload P_ClosePtyData (dec_ClosePtyData j)"
| "json_Unmarshal T_ExecCmdData j = as_payload P_ExecCmdData (dec_ExecCmdData j)"
| "json_Unmarshal T_ListFilesData j = as_payload P_ListFilesData (dec_ListFilesData j)"
| "json_Unmarshal T_DownloadFileData j = as_payload P_DownloadFileData (dec_DownloadFileData j)"
| "json_Unmarshal T_UploadFileData j = as_payload P_UploadFileData (dec_UploadFileData j)"
| "json_Unmarshal T_CreateFileData j = as_payload P_CreateFileData (dec_CreateFileData j)"
| "json_Unmarshal T_CreateFolderData j = as_payload P_CreateFolderData (dec_CreateFolderData j)"
| "json_Unmarshal T_DeleteItemData j = as_payload P_DeleteItemData (dec_DeleteItemData j)"
| "json_Unmarshal T_CopyItemData j = as_payload P_CopyItemData (dec_CopyItemData j)"
| "json_Unmarshal T_MoveItemData j = as_payload P_MoveItemData (dec_MoveItemData j)"
| "json_Unmarshal T_RenameItemData j = as_payload P_RenameItemData (dec_RenameItemData j)"
| "json_Unmarshal T_FileListData j = as_payload P_FileListData (dec_FileListData j)"
| "json_Unmarshal T_FileContentData j = as_payload P_FileContentData (dec_FileContentData j)"
| "json_Unmarshal T_FileOpResultData j = as_payload P_FileOpResultData (dec_FileOpResultData j)"
| "json_Unmarshal T_FileErrorData j = as_payload P_FileErrorData (dec_FileErrorData j)"
| "json_Unmarshal T_StreamFileInfoData j = as_payload P_StreamFileInfoData (dec_StreamFileInfoData j)"
| "json_Unmarshal T_StreamFileInfoResponseData j = as_payload P_StreamFileInfoResponseData (dec_StreamFileInfoResponseData j)"
| "json_Unmarshal T_StreamChunkData j = as_payload P_StreamChunkData (dec_StreamChunkData j)"
| "json_Unmarshal T_StreamChunkResponseData j = as_payload P_StreamChunkResponseData (dec_StreamChunkResponseData j)"
| "json_Unmarshal T_EnrollAckData j = as_payload P_EnrollAckData (dec_EnrollAckData j)"

text \<open>All strings of a payload are valid UTF-8.\<close>

fun valid_payload :: "payload \<Rightarrow> bool" where
  "valid_payload (P_RegisterData x) = valid_RegisterData x"
| "valid_payload (P_HeartbeatData x) = valid_HeartbeatData x"
| "valid_payload (P_PtyDataMsg x) = valid_PtyDataMsg x"
| "valid_payload (P_PtyExitMsg x) = valid_PtyExitMsg x"
| "valid_payload (P_CmdResultData x) = valid_CmdResultData x"
| "valid_payload (P_CmdErrorData x) = valid_CmdErrorData x"
| "valid_payload (P_RegisterAckData x) = valid_RegisterAckData x"
| "valid_payload (P_SpawnPtyData x) = valid_SpawnPtyData x"
| "valid_payload (P_PtyInputData x) = valid_PtyInputData x"
| "valid_payload (P_PtyResizeData x) = valid_PtyResizeData x"
| "valid_payload (P_ClosePtyData x) = valid_ClosePtyData x"
| "valid_payload (P_ExecCmdData x) = valid_ExecCmdData x"
| "valid_payload (P_ListFilesData x) = valid_ListFilesData x"
| "valid_payload (P_DownloadFileData x) = valid_DownloadFileData x"
| "valid_payload (P_UploadFileData x) = valid_UploadFileData x"
| "valid_payload (P_CreateFileData x) = valid_CreateFileData x"
| "valid_payload (P_CreateFolderData x) = valid_CreateFolderData x"
| "valid_payload (P_DeleteItemData x) = valid_DeleteItemData x"
| "valid_payload (P_CopyItemData x) = valid_CopyItemData x"
| "valid_payload (P_MoveItemData x) = valid_MoveItemData x"
| "valid_payload (P_RenameItemData x) = valid_RenameItemData x"
| "valid_payload (P_FileListData x) = valid_FileListData x"
| "valid_payload (P_FileContentData x) = valid_FileContentData x"
| "valid_payload (P_FileOpResultData x) = valid_FileOpResultData x"
| "valid_payload (P_FileErrorData x) = valid_FileErrorData x"
| "valid_payload (P_StreamFileInfoData x) = valid_StreamFileInfoData x"
| "valid_payload (P_StreamFileInfoResponseData x) = valid_StreamFileInfoResponseData x"
| "valid_payload (P_StreamChunkData x) = valid_StreamChunkData x"
| "valid_payload (P_StreamChunkResponseData x) = valid_StreamChunkResponseData x"
| "valid_payload (P_EnrollAckData x) = valid_EnrollAckData x"

subsection \<open>The envelope\<close>

text \<open>\<open>Message\<close>: \<open>Data\<close> is a \<open>json.RawMessage\<close>, \<open>None\<close> when it is nil.\<close>

record Message =
  Type :: string
  Data :: "json option"

text \<open>\<open>NewMessage(msgType, data)\<close>; \<open>None\<close> is the nil \<open>data\<close>.\<close>

definition NewMessage :: "string \<Rightarrow> payload option \<Rightarrow> Message" where
  "NewMessage msgType data =
     \<lparr>Message.Type = msgType,
      Message.Data = (case data of None \<Rightarrow> None | Some x \<Rightarrow> Some (json_Marshal x))\<rparr>"

text \<open>\<open>MarshalMessage\<close>: \<open>data\<close> carries \<open>omitempty\<close>, and a raw message is empty only
  when it is nil.\<close>

definition MarshalMessage :: "string \<Rightarrow> payload option \<Rightarrow> json" where
  "MarshalMessage msgType data =
     (let msg = NewMessage msgType data
      in JObject (str_field ''type'' (Message.Type msg) @
                  (case Message.Data msg of None \<Rightarrow> [] | Some d \<Rightarrow> [(''data'', d)])))"

text \<open>\<open>ParseMessage\<close>: the raw \<open>data\<close> member is kept as it stands, \<open>null\<close> included.\<close>

definition ParseMessage :: "json \<Rightarrow> codec_error + Message" where
  "ParseMessage j =
     into_struct j \<lparr>Message.Type = [], Message.Data = None\<rparr>
       (\<lambda>m. and_then (get_string (m ''type'')) (\<lambda>t.
               Inr \<lparr>Message.Type = t, Message.Data = m ''data''\<rparr>))"

text \<open>\<open>UnmarshalData[T]\<close>: a nil \<open>Data\<close> is the empty input, which \<open>json.Unmarshal\<close>
  refuses.\<close>

definition UnmarshalData :: "payload_type \<Rightarrow> Message \<Rightarrow> codec_error + payload" where
  "UnmarshalData T msg =
     (case Message.Data msg of None \<Rightarrow> Inl SyntaxError | Some d \<Rightarrow> json_Unmarshal T d)"

text \<open>What a handler does with a frame: \<open>ParseMessage\<close>, then \<open>UnmarshalData\<close>.\<close>

definition decode_frame :: "payload_type \<Rightarrow> json \<Rightarrow> codec_error + payload" where
  "decode_frame T frame = and_then (ParseMessage frame) (UnmarshalData T)"

subsection \<open>A directory listing\<close>

text \<open>The \<open>file_list\<close> reply for a directory \<open>/srv\<close> that holds one regular file; the
  name of a file is the sequence of bytes the file system has for it.\<close>

definition listing :: "string \<Rightarrow> payload" where
  "listing name =
     P_FileListData
       \<lparr>FileListData.RequestID = ''r1'', FileListData.Path = ''/srv'',
        FileListData.Files = Some
          [\<lparr>FileItem.Name = name, FileItem.Path = ''/srv/'' @ name, FileItem.Type = ''file'',
            FileItem.Size = 12, FileItem.ModTime = ''2024-05-01T10:00:00Z'',
            FileItem.Permissions = ''-rw-r--r--'', FileItem.Owner = ''root'',
            FileItem.Group = ''root'', FileItem.Executable = False,
            FileItem.LinkTarget = []\<rparr>]\<rparr>"

chapter \<open>Properties\<close>

section \<open>Reconnect backoff: the delays slept\<close>

lemma backoff_delay_small:
  "backoff_delay 0 = 5000000000" "backoff_delay (Suc 0) = 10000000000"
  "backoff_delay (Suc (Suc 0)) = 20000000000"
  "backoff_delay 2 = 20000000000" "backoff_delay 3 = 40000000000"
  by (simp_all add: backoff_delay_def seconds_def Second_def)

lemma backoff_delay_large:
  assumes "4 \<le> k"
  shows "backoff_delay k = 60000000000"
proof -
  have "(2::nat) ^ 4 \<le> 2 ^ k"
    using assms by (rule power_increasing) simp
  then have "min (5 * 2 ^ k) 60 = (60::nat)"
    by simp
  then show ?thesis
    by (simp add: backoff_delay_def seconds_def Second_def)
qed

lemma backoff_step_delay: "backoff_step (backoff_delay k) = backoff_delay (Suc k)"
proof -
  consider "k = 0" | "k = 1" | "k = 2" | "k = 3" | "4 \<le> k"
    by linarith
  then show ?thesis
  proof cases
    case 5
    then show ?thesis
      by (simp add: backoff_delay_large backoff_step_def maxReconnectDelay_def Second_def
          word_sless_alt)
  qed (simp_all add: backoff_delay_small backoff_delay_large backoff_step_def
      maxReconnectDelay_def Second_def word_sless_alt)
qed

lemma Run_loop_failures:
  "Run_loop True (backoff_delay k) (replicate n DialFailed) =
     (map (\<lambda>i. backoff_delay (k + i)) [0..<n], Looping (backoff_delay (k + n)))"
proof (induction n arbitrary: k)
  case 0
  then show ?case by simp
next
  case (Suc n)
  have "map (\<lambda>i. backoff_delay (k + i)) [0..<Suc n] =
        backoff_delay k # map (\<lambda>i. backoff_delay (Suc k + i)) [0..<n]"
    by (simp add: upt_conv_Cons map_Suc_upt [symmetric] del: upt_Suc)
  then show ?case
    using Suc.IH [of "Suc k"] by (simp add: backoff_step_delay)
qed

lemma Run_loop_append:
  assumes "snd (Run_loop True d es) = Looping d'"
  shows "Run_loop True d (es @ es') =
     (fst (Run_loop True d es) @ fst (Run_loop True d' es'), snd (Run_loop True d' es'))"
  using assms
proof (induction es arbitrary: d)
  case Nil
  then show ?case by simp
next
  case (Cons e es)
  then show ?case
    by (cases e) (auto split: prod.splits)
qed

lemma minReconnectDelay_backoff: "minReconnectDelay = backoff_delay 0"
  by (simp add: minReconnectDelay_def backoff_delay_small Second_def)

text \<open>
  Claim C3. Under reconnection, a run of \<open>n\<close> consecutive dial failures from the start
  of \<open>Run\<close> sleeps 5s, 10s, 20s, 40s, 60s, 60s, ... (the \<open>k\<close>-th delay is 5s doubled
  \<open>k\<close> times and capped at 60s); and from any loop state, once a connect has succeeded
  (and the connection is lost again), the delay slept is 5s and a following run of
  \<open>n\<close> dial failures again sleeps 5s, 10s, 20s, 40s, 60s, ...
\<close>

theorem reconnect_backoff_sequence:
  "fst (Run True (replicate n DialFailed)) = map backoff_delay [0..<n] \<and>
   fst (Run_loop True d (Connected lost # replicate n DialFailed)) =
     seconds 5 # map backoff_delay [0..<n] \<and>
   map backoff_delay [0..<6] =
     [seconds 5, seconds 10, seconds 20, seconds 40, seconds 60, seconds 60] \<and>
   backoff_delay k \<le>s seconds 60"
proof -
  have a: "fst (Run True (replicate n DialFailed)) = map backoff_delay [0..<n]"
    using Run_loop_failures [of 0 n] by (simp add: Run_def minReconnectDelay_backoff)
  have b: "fst (Run_loop True d (Connected lost # replicate n DialFailed)) =
      seconds 5 # map backoff_delay [0..<n]"
    using Run_loop_failures [of 0 n]
    by (simp add: minReconnectDelay_backoff) (simp add: backoff_delay_def)
  have c: "map backoff_delay [0..<6] =
      [seconds 5, seconds 10, seconds 20, seconds 40, seconds 60, seconds 60]"
    by (simp add: upt_rec backoff_delay_def)
  have d: "backoff_delay k \<le>s seconds 60"
  proof (cases "4 \<le> k")
    case True
    then show ?thesis
      by (simp add: backoff_delay_large seconds_def Second_def word_sle_eq)
  next
    case False
    then consider "k = 0" | "k = 1" | "k = 2" | "k = 3"
      by linarith
    then show ?thesis
      by cases (simp_all add: backoff_delay_small seconds_def Second_def word_sle_eq)
  qed
  from a b c d show ?thesis by blast
qed



section \<open>Command executor: validation, admission, completion\<close>

subsection \<open>Validation order\<close>

lemma Execute_identity_fails:
  assumes "ExecCmdData.Username cmd \<noteq> []" and "lookup (ExecCmdData.Username cmd) = None"
  shows "Execute lookup lookPath sem cmd =
     (sem, SendError \<lparr>CmdErrorData.Token = ExecCmdData.Token cmd, CmdErrorData.Code = 1,
                       CmdErrorData.Message = ''operation not permitted''\<rparr>)"
  using assms by (simp add: Execute_def sendCmdError_def CmdErrPermit_def)

lemma Execute_not_found:
  assumes "ExecCmdData.Username cmd = [] \<or> lookup (ExecCmdData.Username cmd) \<noteq> None"
    and "lookPath (ExecCmdData.Command cmd) = None \<or>
         lookPath (ExecCmdData.Command cmd) = Some []"
  shows "Execute lookup lookPath sem cmd =
     (sem, SendError \<lparr>CmdErrorData.Token = ExecCmdData.Token cmd, CmdErrorData.Code = 2,
                       CmdErrorData.Message = ''command not found''\<rparr>)"
  using assms by (auto simp: Execute_def sendCmdError_def CmdErrNotFound_def)

lemma Execute_admits:
  assumes "ExecCmdData.Username cmd = [] \<or> lookup (ExecCmdData.Username cmd) \<noteq> None"
    and "lookPath (ExecCmdData.Command cmd) = Some p" and "p \<noteq> []"
    and "sem < cmdRunningLimit"
  shows "Execute lookup lookPath sem cmd =
     (Suc sem,
      Go_executeCommand
        \<lparr>job_u = (if ExecCmdData.Username cmd \<noteq> [] then lookup (ExecCmdData.Username cmd)
                   else None),
         job_cmdPath = p, job_args = ExecCmdData.Args cmd,
         job_token = ExecCmdData.Token cmd,
         job_timeout = determine_timeout (ExecCmdData.Timeout cmd)\<rparr>)"
  using assms by (auto simp: Execute_def)

subsection \<open>The timeout handed to an execution\<close>

lemma determine_timeout_unset:
  assumes "sint t \<le> 0"
  shows "determine_timeout t = seconds 30"
  using assms
  by (simp add: determine_timeout_def word_sless_alt cmdExecDefaultTimeout_def seconds_def)

lemma sint_times_Second:
  assumes "0 < sint (t :: go_int)" and "sint t \<le> 9223372036"
  shows "sint (t * Second) = sint t * 1000000000"
proof -
  have "sint (t * Second) = signed_take_bit 63 (sint t * 1000000000)"
    by (simp add: Second_def sint_word_ariths)
  also have "\<dots> = sint t * 1000000000"
    using assms by (intro signed_take_bit_int_eq_self) simp_all
  finally show ?thesis .
qed

text \<open>As long as the product fits into an int64, that is up to 9223372036 seconds, the
  timeout is the requested one, or 600s when that is more.\<close>

lemma determine_timeout_in_range:
  assumes "0 < sint t" and "sint t \<le> 9223372036"
  shows "determine_timeout t = (if 600 < sint t then seconds 600 else t * Second)"
  using assms sint_times_Second [OF assms]
  by (simp add: determine_timeout_def word_sless_alt cmdExecMaxTimeout_def seconds_def
      Let_def Second_def)

text \<open>
  Claim C1, at a request whose \<open>timeout\<close> is 9223372037 seconds: the identity and the
  executable resolve, the request is admitted, and the timeout handed to the execution
  is the wrapped product, a negative duration, not 600s.
\<close>

theorem Execute_timeout_wraps:
  "Execute (\<lambda>n. None) (\<lambda>c. Some (''/bin/'' @ c)) 0
     \<lparr>ExecCmdData.Token = ''t1'', ExecCmdData.Username = [],
      ExecCmdData.Command = ''sleep'', ExecCmdData.Args = [''700''],
      ExecCmdData.Timeout = 9223372037\<rparr> =
   (1, Go_executeCommand
         \<lparr>job_u = None, job_cmdPath = ''/bin/sleep'', job_args = [''700''],
          job_token = ''t1'', job_timeout = - 9223372036709551616\<rparr>) \<and>
   sint (determine_timeout 9223372037) = - 9223372036709551616 \<and>
   determine_timeout 9223372037 \<noteq> cmdExecMaxTimeout"
  by (simp add: Execute_def determine_timeout_def cmdRunningLimit_def cmdExecMaxTimeout_def
      Second_def word_sless_alt)

subsection \<open>Admission at a saturated pool\<close>

text \<open>The numbers of the error codes, from the \<open>iota\<close> block.\<close>

lemma CmdErr_codes:
  "CmdErrNone = 0" "CmdErrPermit = 1" "CmdErrNotFound = 2" "CmdErrNoMem = 3"
  "CmdErrSysErr = 4" "CmdErrRespTooBig = 5"
  by (simp_all add: CmdErrNone_def CmdErrPermit_def CmdErrNotFound_def CmdErrNoMem_def
      CmdErrSysErr_def CmdErrRespTooBig_def)

text \<open>
  Claim C5. A request reaches admission when it passes the validation of \<open>Execute\<close>: its
  identity, when supplied, resolves and its executable is found. With all five slots of
  the pool held, \<open>Execute\<close> answers such a request at once with the \<open>cmd_error\<close> that
  carries the request's token, the code 3 (\<open>CmdErrNoMem\<close>) and the text
  ``too many concurrent commands''; the pool is left as it was and no execution is
  started or queued, \<open>Execute\<close> being a function that returns this reply.
\<close>

theorem Execute_saturated:
  assumes "sem = cmdRunningLimit" and "passes_validation lookup lookPath cmd"
  shows "Execute lookup lookPath sem cmd =
     (5, SendError \<lparr>CmdErrorData.Token = ExecCmdData.Token cmd, CmdErrorData.Code = 3,
                     CmdErrorData.Message = ''too many concurrent commands''\<rparr>) \<and>
     CmdErrNoMem = 3"
  using assms
  by (auto simp: Execute_def passes_validation_def Let_def sendCmdError_def CmdErrNoMem_def
      cmdRunningLimit_def split: option.splits)

theorem Execute_saturated_witness:
  "(5::nat) = cmdRunningLimit \<and>
   passes_validation (\<lambda>n. None) (\<lambda>c. Some (''/bin/'' @ c))
     \<lparr>ExecCmdData.Token = ''t6'', ExecCmdData.Username = [], ExecCmdData.Command = ''ls'',
      ExecCmdData.Args = [], ExecCmdData.Timeout = 0\<rparr> \<and>
   Execute (\<lambda>n. None) (\<lambda>c. Some (''/bin/'' @ c)) 5
     \<lparr>ExecCmdData.Token = ''t6'', ExecCmdData.Username = [], ExecCmdData.Command = ''ls'',
      ExecCmdData.Args = [], ExecCmdData.Timeout = 0\<rparr> =
   (5, SendError \<lparr>CmdErrorData.Token = ''t6'', CmdErrorData.Code = 3,
                   CmdErrorData.Message = ''too many concurrent commands''\<rparr>)"
proof -
  let ?cmd = "\<lparr>ExecCmdData.Token = ''t6'', ExecCmdData.Username = [],
      ExecCmdData.Command = ''ls'', ExecCmdData.Args = [], ExecCmdData.Timeout = 0\<rparr>"
  have v: "passes_validation (\<lambda>n. None) (\<lambda>c. Some (''/bin/'' @ c)) ?cmd"
    by (simp add: passes_validation_def)
  have s: "(5::nat) = cmdRunningLimit"
    by (simp add: cmdRunningLimit_def)
  from Execute_saturated [OF s v] v s show ?thesis
    by simp
qed

text \<open>With a slot free the same request is admitted: the reply above is that of the
  saturated pool, not of the request.\<close>

lemma Execute_below_limit:
  "Execute (\<lambda>n. None) (\<lambda>c. Some (''/bin/'' @ c)) 4
     \<lparr>ExecCmdData.Token = ''t6'', ExecCmdData.Username = [], ExecCmdData.Command = ''ls'',
      ExecCmdData.Args = [], ExecCmdData.Timeout = 0\<rparr> =
   (5, Go_executeCommand
         \<lparr>job_u = None, job_cmdPath = ''/bin/ls'', job_args = [], job_token = ''t6'',
          job_timeout = seconds 30\<rparr>)"
  by (simp add: Execute_def determine_timeout_def cmdRunningLimit_def
      cmdExecDefaultTimeout_def seconds_def word_sless_alt)

subsection \<open>Completion mapping\<close>

lemma EncodeToString_examples:
  "EncodeToString [77, 97, 110] = ''TWFu''" "EncodeToString [77, 97] = ''TWE=''"
  "EncodeToString [77] = ''TQ==''"
  by (simp_all add: b64_char_def)

lemma EncodeToString_length: "length (EncodeToString bs) = 4 * ((length bs + 2) div 3)"
proof (induction bs rule: EncodeToString.induct)
  case (4 a b c rest)
  have "4 + 4 * ((length rest + 2) div 3) = 4 * ((length rest + 5) div 3)"
    by arith
  with 4 show ?case
    by (simp add: add.commute)
qed simp_all

lemma executeCommand_releases: "fst (executeCommand (Suc sem) j r) = sem"
  by (simp add: executeCommand_def)

text \<open>When \<open>Run\<close> returns an error after the deadline, the report is the \<open>cmd_error\<close>
  with code 4 (\<open>CmdErrSysErr\<close>) and the text ``command timeout''.\<close>

lemma executeCommand_deadline:
  assumes "run_err r = Some e" and "job_timeout j \<le>s elapsed r"
  shows "snd (executeCommand sem j r) =
     Report_error \<lparr>CmdErrorData.Token = job_token j, CmdErrorData.Code = 4,
                    CmdErrorData.Message = ''command timeout''\<rparr>"
  using assms
  by (simp add: executeCommand_def DeadlineExceeded_def sendCmdError_def CmdErrSysErr_def)

text \<open>Before the deadline: an exit with code \<open>c\<close> sends a \<open>cmd_result\<close> carrying \<open>c\<close> and
  the two outputs, each base64-encoded on its own; any other error of \<open>Run\<close> sends a
  \<open>cmd_error\<close> with code 4 and the error's text; and the result is replaced by a
  \<open>cmd_error\<close> with code 5 (\<open>CmdErrRespTooBig\<close>) when the two encoded lengths add up to
  more than 65000.\<close>

lemma executeCommand_in_time:
  assumes "\<not> job_timeout j \<le>s t"
  shows
   "snd (executeCommand sem j
          \<lparr>run_err = Some (ExitError c), elapsed = t, stdout = out, stderr = err\<rparr>) =
      (if 65000 < 4 * ((length out + 2) div 3) + 4 * ((length err + 2) div 3)
       then Report_error \<lparr>CmdErrorData.Token = job_token j, CmdErrorData.Code = 5,
                           CmdErrorData.Message = ''stdout+stderr is too big''\<rparr>
       else Report_result \<lparr>CmdResultData.Token = job_token j, CmdResultData.ExitCode = c,
                            CmdResultData.Stdout = EncodeToString out,
                            CmdResultData.Stderr = EncodeToString err\<rparr>)"
   "snd (executeCommand sem j
          \<lparr>run_err = Some (OtherError msg), elapsed = t, stdout = out, stderr = err\<rparr>) =
      Report_error \<lparr>CmdErrorData.Token = job_token j, CmdErrorData.Code = 4,
                     CmdErrorData.Message = msg\<rparr>"
  using assms
  by (simp_all add: executeCommand_def DeadlineExceeded_def send_output_def
      sendCmdError_def CmdErrSysErr_def CmdErrRespTooBig_def EncodeToString_length)

text \<open>When \<open>Run\<close> returns no error the context is not asked: the report is a
  \<open>cmd_result\<close> with exit code 0 (or the \<open>cmd_error\<close> with code 5), whatever time has
  passed.\<close>

lemma executeCommand_no_error:
  "snd (executeCommand sem j \<lparr>run_err = None, elapsed = t, stdout = out, stderr = err\<rparr>) =
     (if 65000 < 4 * ((length out + 2) div 3) + 4 * ((length err + 2) div 3)
      then Report_error \<lparr>CmdErrorData.Token = job_token j, CmdErrorData.Code = 5,
                          CmdErrorData.Message = ''stdout+stderr is too big''\<rparr>
      else Report_result \<lparr>CmdResultData.Token = job_token j, CmdResultData.ExitCode = 0,
                           CmdResultData.Stdout = EncodeToString out,
                           CmdResultData.Stderr = EncodeToString err\<rparr>)"
  by (simp add: executeCommand_def send_output_def sendCmdError_def CmdErrRespTooBig_def
      EncodeToString_length)

text \<open>
  Claim C4, at the request
  \<open>exec_cmd{token: "t1", command: "sh", args: ["-c", "sleep 100 & echo ok"], timeout: 1}\<close>.
  The request is admitted with a timeout of one second. The shell prints \<open>ok\<close> and exits
  with status 0 at once, while the \<open>sleep\<close> it left behind holds the write end of the
  output pipes for 100 seconds; \<open>WaitDelay\<close> of the \<open>exec.Cmd\<close> being left at zero, \<open>Run\<close>
  waits for the pipes and returns no error when they close, 100 seconds after the
  context was made. The deadline has passed by then, but \<open>executeCommand\<close> asks the
  context only when \<open>Run\<close> returned an error: the execution that ran a hundred times its
  timeout is reported by a \<open>cmd_result\<close> with exit code 0 and the output \<open>ok\<close>, not by a
  \<open>cmd_error\<close>.
\<close>

theorem executeCommand_late_success:
  "Execute (\<lambda>n. None) (\<lambda>c. Some (''/bin/'' @ c)) 0
     \<lparr>ExecCmdData.Token = ''t1'', ExecCmdData.Username = [],
      ExecCmdData.Command = ''sh'', ExecCmdData.Args = [''-c'', ''sleep 100 & echo ok''],
      ExecCmdData.Timeout = 1\<rparr> =
   (1, Go_executeCommand
         \<lparr>job_u = None, job_cmdPath = ''/bin/sh'',
          job_args = [''-c'', ''sleep 100 & echo ok''],
          job_token = ''t1'', job_timeout = 1000000000\<rparr>) \<and>
   DeadlineExceeded 1000000000 100000000000 \<and>
   executeCommand 1
     \<lparr>job_u = None, job_cmdPath = ''/bin/sh'', job_args = [''-c'', ''sleep 100 & echo ok''],
      job_token = ''t1'', job_timeout = 1000000000\<rparr>
     \<lparr>run_err = None, elapsed = 100000000000, stdout = [111, 107, 10], stderr = []\<rparr> =
   (0, Report_result \<lparr>CmdResultData.Token = ''t1'', CmdResultData.ExitCode = 0,
                       CmdResultData.Stdout = ''b2sK'', CmdResultData.Stderr = []\<rparr>)"
  by (simp add: Execute_def determine_timeout_def cmdRunningLimit_def cmdExecMaxTimeout_def
      Second_def word_sless_alt word_sle_eq DeadlineExceeded_def executeCommand_def
      send_output_def b64_char_def)

section \<open>Pseudo-terminal backends: spawning and closing\<close>

subsection \<open>NewTerminal and the identity of a spawn request\<close>

lemma Atoi_examples:
  "Atoi ''1000'' = Some 1000" "Atoi ''-5'' = Some (- 5)" "Atoi [] = None"
  "Atoi ''12a'' = None" "Atoi ''9223372036854775808'' = None"
  by (simp_all add: Atoi_def digit_of_def)

lemma NewTerminal_fallback:
  assumes "resolved_home env username = None"
  shows "NewTerminal env username = NewTerminal env []"
  using assms
  by (auto simp: NewTerminal_def resolved_home_def Let_def split: option.splits if_splits)

lemma NewTerminal_fails_only_at_start:
  assumes "NewTerminal env username = Inl e"
  shows "\<exists>c. pty_Start env c = Inl e"
  using assms by (auto simp: NewTerminal_def Let_def split: sum.splits)

text \<open>
  Claim C7, at a spawn request for \<open>alice\<close> on the host \<open>sample_env\<close>, where \<open>alice\<close>
  resolves with uid and gid 1000 and the home directory \<open>/home/alice\<close>, and the agent's
  own \<open>$SHELL\<close> is \<open>/bin/bash\<close>. The program started on the pty is the agent's
  \<open>/bin/bash\<close>, the same program as for a request without identity, and its command
  carries no credential, so it runs as the agent's own user; the identity only sets
  \<open>HOME\<close>, \<open>USER\<close>, \<open>LOGNAME\<close> and the working directory. For the same user the command
  executor's \<open>setSysProcAttr\<close> sets the credential 1000:1000.
\<close>

theorem NewTerminal_no_credential:
  "NewTerminal sample_env ''alice'' =
     Inr \<lparr>t_pty = Some \<lparr>file_closed = False\<rparr>,
          t_cmd = Some
            \<lparr>Cmd.Path = ''/bin/bash'', Cmd.Args = [''/bin/bash'', ''-l''],
             Cmd.Env = [''PATH=/usr/bin'', ''HOME=/root'', ''SHELL=/bin/bash'',
                    ''HOME=/home/alice'', ''USER=alice'', ''LOGNAME=alice'',
                    ''TERM=xterm-256color''],
             Cmd.Dir = ''/home/alice'', Cmd.SysProcAttr = None, Cmd.Process = Some 0\<rparr>\<rparr> \<and>
   NewTerminal sample_env [] =
     Inr \<lparr>t_pty = Some \<lparr>file_closed = False\<rparr>,
          t_cmd = Some
            \<lparr>Cmd.Path = ''/bin/bash'', Cmd.Args = [''/bin/bash'', ''-l''],
             Cmd.Env = [''TERM=xterm-256color''], Cmd.Dir = [], Cmd.SysProcAttr = None,
             Cmd.Process = Some 0\<rparr>\<rparr> \<and>
   Cmd.SysProcAttr (setSysProcAttr (exec_Command ''/bin/ls'' []) (Some alice)) =
     Some \<lparr>cred_Uid = 1000, cred_Gid = 1000\<rparr>"
  by (simp add: NewTerminal_def sample_env_def alice_def exec_Command_def setSysProcAttr_def
      Atoi_def digit_of_def Let_def)

subsection \<open>Close\<close>

lemma WinTerminal_Close_idempotent:
  "WinTerminal_Close (fst (snd (WinTerminal_Close t))) =
     (None, fst (snd (WinTerminal_Close t)), [])"
  by (simp add: WinTerminal_Close_def)

lemma WinTerminal_Close_succeeds: "fst (WinTerminal_Close t) = None"
  by (simp add: WinTerminal_Close_def)

lemma Terminal_Close_kills_first:
  assumes "t_cmd t = Some c" and "Process c = Some k" and "t_pty t = Some f"
  shows "snd (snd (Terminal_Close t)) = [KillProcess, ClosePtyFile]"
  using assms by (simp add: Terminal_Close_def kill_process_def File_Close_def)

lemma Terminal_Close_again:
  assumes "t_pty t = Some f"
  shows "fst (Terminal_Close (fst (snd (Terminal_Close t)))) = Some ErrClosed"
  using assms
  by (auto simp: Terminal_Close_def kill_process_def File_Close_def split: option.splits)

text \<open>
  Claim C8, on a terminal of the POSIX backend as \<open>NewTerminal\<close> returns it: the first
  \<open>Close\<close> kills the process, closes the pty and returns nil; the second \<open>Close\<close> sends the
  kill signal again, tries to close the closed file and returns its error.
\<close>

theorem Terminal_Close_twice:
  "NewTerminal sample_env [] = Inr
     \<lparr>t_pty = Some \<lparr>file_closed = False\<rparr>,
      t_cmd = Some ((exec_Command ''/bin/bash'' [''-l''])
                \<lparr>Env := [''TERM=xterm-256color''], Process := Some 0\<rparr>)\<rparr> \<and>
   Terminal_Close
     \<lparr>t_pty = Some \<lparr>file_closed = False\<rparr>,
      t_cmd = Some ((exec_Command ''/bin/bash'' [''-l''])
                \<lparr>Env := [''TERM=xterm-256color''], Process := Some 0\<rparr>)\<rparr> =
     (None,
      \<lparr>t_pty = Some \<lparr>file_closed = True\<rparr>,
       t_cmd = Some ((exec_Command ''/bin/bash'' [''-l''])
                 \<lparr>Env := [''TERM=xterm-256color''], Process := Some 1\<rparr>)\<rparr>,
      [KillProcess, ClosePtyFile]) \<and>
   Terminal_Close
     \<lparr>t_pty = Some \<lparr>file_closed = True\<rparr>,
      t_cmd = Some ((exec_Command ''/bin/bash'' [''-l''])
                \<lparr>Env := [''TERM=xterm-256color''], Process := Some 1\<rparr>)\<rparr> =
     (Some ErrClosed,
      \<lparr>t_pty = Some \<lparr>file_closed = True\<rparr>,
       t_cmd = Some ((exec_Command ''/bin/bash'' [''-l''])
                 \<lparr>Env := [''TERM=xterm-256color''], Process := Some 2\<rparr>)\<rparr>,
      [KillProcess, ClosePtyFile])"
  by (simp add: NewTerminal_def sample_env_def exec_Command_def Terminal_Close_def
      kill_process_def File_Close_def Let_def)

section \<open>Session manager: capacity, counter and exit notifications\<close>

lemmas session_defs =
  run_def SpawnSession_def CloseSession_def CloseAllSessions_def touch_def close_at_def
  TermSession_Close_def reader_stop_def reader_data_def reader_error_def reader_finish_def
  monitor_stop_def monitor_tick_def monitor_finish_def NewSessionManager_def Load_def
  Delete_def Store_def maxSessions_def inactivityTimeout_def Second_def
  NewTerminal_def SetWinSize_def Terminal_Close_def kill_process_def File_Close_def
  exec_Command_def sample_env_def Let_def word_sle_eq

subsection \<open>The registry\<close>

lemma Load_Delete: "Load (Delete m k) k' = (if k' = k then None else Load m k')"
  by (induction m) (auto simp: Load_def Delete_def)

lemma Load_Store: "Load (Store m k v) k' = (if k' = k then Some v else Load m k')"
proof -
  have "map_of (Delete m k @ [(k, v)]) k' = (if k' = k then Some v else map_of (Delete m k) k')"
    using Load_Delete [of m k k]
    by (auto simp: map_add_def Load_def split: option.splits)
  then show ?thesis
    using Load_Delete [of m k k'] by (simp add: Store_def Load_def)
qed

lemma set_Delete: "set (Delete m k) = {kv \<in> set m. fst kv \<noteq> k}"
  by (auto simp: Delete_def)

lemma distinct_Delete: "distinct (map fst m) \<Longrightarrow> distinct (map fst (Delete m k))"
  by (simp add: Delete_def distinct_map_filter)

lemma length_Delete_present:
  "distinct (map fst m) \<Longrightarrow> (k, v) \<in> set m \<Longrightarrow> Suc (length (Delete m k)) = length m"
proof (induction m)
  case Nil
  then show ?case by simp
next
  case (Cons a m)
  show ?case
  proof (cases "fst a = k")
    case True
    with Cons.prems have "k \<notin> fst ` set m" by auto
    then have "filter (\<lambda>kv. fst kv \<noteq> k) m = m"
      by (auto simp: filter_id_conv)
    with True show ?thesis by (simp add: Delete_def)
  next
    case False
    with Cons show ?thesis by (auto simp: Delete_def)
  qed
qed

lemma Delete_absent: "k \<notin> fst ` set m \<Longrightarrow> Delete m k = m"
  by (auto simp: Delete_def filter_id_conv)

lemma Load_Some_iff: "distinct (map fst m) \<Longrightarrow> Load m k = Some p \<longleftrightarrow> (k, p) \<in> set m"
  by (simp add: Load_def)

lemma Load_None_iff: "Load m k = None \<longleftrightarrow> k \<notin> fst ` set m"
  by (simp add: Load_def map_of_eq_None_iff)

subsection \<open>The guards of SpawnSession and CloseSession\<close>

lemma SpawnSession_at_capacity:
  assumes "maxSessions \<le>s sessionCount m"
  shows "SpawnSession env now m sessionID cols rows username = (Some ErrMaxSessions, m)"
  using assms by (simp add: SpawnSession_def)

lemma SpawnSession_exists:
  assumes "\<not> maxSessions \<le>s sessionCount m" and "Load (sessions m) sessionID = Some p"
  shows "SpawnSession env now m sessionID cols rows username = (Some ErrSessionExists, m)"
  using assms by (simp add: SpawnSession_def)

lemma SpawnSession_fresh:
  assumes "\<not> maxSessions \<le>s sessionCount m" and "Load (sessions m) sessionID = None"
    and "NewTerminal env username = Inr trm" and "SetWinSize env trm cols rows = None"
  shows "fst (SpawnSession env now m sessionID cols rows username) = None \<and>
     Load (sessions (snd (SpawnSession env now m sessionID cols rows username))) sessionID =
       Some (length (heap m)) \<and>
     sessionCount (snd (SpawnSession env now m sessionID cols rows username)) =
       sessionCount m + 1"
  using assms by (simp add: SpawnSession_def Load_Store)

lemma SpawnSession_failure_counts_nothing:
  assumes "fst (SpawnSession env now m sessionID cols rows username) = Some e"
  shows "snd (SpawnSession env now m sessionID cols rows username) = m"
  using assms by (auto simp: SpawnSession_def split: if_splits sum.splits option.splits)

lemma CloseSession_unknown:
  assumes "Load (sessions m) sessionID = None"
  shows "CloseSession m sessionID = (Some ErrNoSession, m)"
  using assms by (simp add: CloseSession_def)

subsection \<open>Serialized schedules keep counter and registry in agreement\<close>

text \<open>
  Every request of the dispatcher keeps a consistent state consistent, and so does the
  test of a goroutine taken together with its closing statements.
\<close>


lemma consistent_init: "consistent NewSessionManager"
  by (simp add: consistent_def NewSessionManager_def)

lemma sint_succ:
  assumes "sint (c :: 32 word) = int n" and "n \<le> 10"
  shows "sint (c + 1) = int (Suc n)"
proof -
  have "sint (c + 1) = signed_take_bit 31 (sint c + 1)"
    by (simp add: sint_word_ariths)
  also have "\<dots> = sint c + 1"
    using assms by (intro signed_take_bit_int_eq_self) simp_all
  finally show ?thesis using assms by simp
qed

lemma sint_pred:
  assumes "sint (c :: 32 word) = int (Suc n)" and "n \<le> 10"
  shows "sint (c - 1) = int n"
proof -
  have "sint (c - 1) = signed_take_bit 31 (sint c - 1)"
    by (simp add: sint_word_ariths)
  also have "\<dots> = sint c - 1"
    using assms by (intro signed_take_bit_int_eq_self) simp_all
  finally show ?thesis using assms by simp
qed

lemma consistent_Spawn:
  assumes "consistent m"
  shows "consistent (snd (SpawnSession env now m sessionID cols rows username))"
proof (cases "fst (SpawnSession env now m sessionID cols rows username)")
  case (Some e)
  then show ?thesis
    using assms SpawnSession_failure_counts_nothing by metis
next
  case None
  then obtain trm where ok: "\<not> maxSessions \<le>s sessionCount m" "Load (sessions m) sessionID = None"
    "NewTerminal env username = Inr trm" "SetWinSize env trm cols rows = None"
    by (auto simp: SpawnSession_def split: if_splits sum.splits option.splits)
  let ?s = "\<lparr>ID = sessionID, terminal = trm, lastActivity = now, closed = False, stopChan = False\<rparr>"
  let ?m = "m\<lparr>sessions := Store (sessions m) sessionID (length (heap m)),
                        sessionCount := sessionCount m + 1,
                        heap := heap m @ [?s],
                        readers := readers m @ [Running],
                        monitors := monitors m @ [Running]\<rparr>"
  have eq: "snd (SpawnSession env now m sessionID cols rows username) = ?m"
    using ok by (simp add: SpawnSession_def)
  have fresh: "sessionID \<notin> fst ` set (sessions m)"
    using ok(2) by (simp add: Load_None_iff)
  have st: "Store (sessions m) sessionID (length (heap m)) = sessions m @ [(sessionID, length (heap m))]"
    using fresh by (simp add: Store_def Delete_absent)
  have lt: "length (sessions m) < 10"
    using ok(1) assms by (simp add: consistent_def maxSessions_def word_sle_eq)
  have cnt: "sint (sessionCount m + 1) = int (Suc (length (sessions m)))"
    using assms lt by (intro sint_succ) (simp_all add: consistent_def)
  show ?thesis
    unfolding eq using assms fresh lt cnt
    by (auto simp: consistent_def st nth_append)
qed

lemma TermSession_Close_fields:
  "ID (TermSession_Close s) = ID s" "closed (TermSession_Close s)"
  by (simp_all add: TermSession_Close_def)

lemma distinct_keys_same:
  assumes "distinct (map fst m)" and "(k, p) \<in> set m" and "(k, q) \<in> set m"
  shows "p = q"
  using assms by (meson eq_key_imp_eq_value)

lemma consistent_remove:
  assumes c: "consistent m" and reg: "(k, p) \<in> set (sessions m)"
  shows "consistent ((close_at p (m\<lparr>sessions := Delete (sessions m) k\<rparr>))
                       \<lparr>sessionCount := sessionCount m - 1\<rparr>)"
proof -
  from c have d: "distinct (map fst (sessions m))"
    and reg_ok: "\<And>kv. kv \<in> set (sessions m) \<Longrightarrow> snd kv < length (heap m) \<and>
        ID (heap m ! snd kv) = fst kv \<and> \<not> closed (heap m ! snd kv)"
    and open_reg: "\<And>q. q < length (heap m) \<Longrightarrow> \<not> closed (heap m ! q) \<Longrightarrow>
        (ID (heap m ! q), q) \<in> set (sessions m)"
    and cnt: "sint (sessionCount m) = int (length (sessions m))"
    and le: "length (sessions m) \<le> 10"
    by (auto simp: consistent_def)
  from reg_ok [OF reg] have p: "p < length (heap m)" "ID (heap m ! p) = k"
    by simp_all
  let ?h = "(heap m)[p := TermSession_Close (heap m ! p)]"
  let ?m = "(close_at p (m\<lparr>sessions := Delete (sessions m) k\<rparr>))\<lparr>sessionCount := sessionCount m - 1\<rparr>"
  have h: "heap ?m = ?h" and s: "sessions ?m = Delete (sessions m) k"
    and r: "readers ?m = readers m" "monitors ?m = monitors m"
    and sc: "sessionCount ?m = sessionCount m - 1"
    using p by (simp_all add: close_at_def)
  have len: "Suc (length (Delete (sessions m) k)) = length (sessions m)"
    using d reg by (rule length_Delete_present)
  have 1: "\<forall>kv \<in> set (Delete (sessions m) k). snd kv < length ?h \<and> ID (?h ! snd kv) = fst kv \<and>
      \<not> closed (?h ! snd kv)"
  proof
    fix kv assume "kv \<in> set (Delete (sessions m) k)"
    then have kv: "kv \<in> set (sessions m)" and ne: "fst kv \<noteq> k"
      by (simp_all add: set_Delete)
    from reg_ok [OF kv] p ne have "snd kv \<noteq> p" by auto
    with reg_ok [OF kv] show "snd kv < length ?h \<and> ID (?h ! snd kv) = fst kv \<and>
      \<not> closed (?h ! snd kv)" by simp
  qed
  have 2: "\<forall>q < length ?h. \<not> closed (?h ! q) \<longrightarrow> (ID (?h ! q), q) \<in> set (Delete (sessions m) k)"
  proof (intro allI impI)
    fix q assume q: "q < length ?h" and nc: "\<not> closed (?h ! q)"
    have qp: "q \<noteq> p"
      using q nc by (auto simp: TermSession_Close_fields)
    with q nc have in_s: "(ID (heap m ! q), q) \<in> set (sessions m)"
      using open_reg [of q] by simp
    have "ID (heap m ! q) \<noteq> k"
      using distinct_keys_same [OF d reg, of q] in_s qp by auto
    with in_s qp show "(ID (?h ! q), q) \<in> set (Delete (sessions m) k)"
      by (simp add: set_Delete)
  qed
  have 3: "sint (sessionCount m - 1) = int (length (Delete (sessions m) k))"
    using cnt len le by (intro sint_pred) simp_all
  show ?thesis
    unfolding consistent_def h s r sc
    using c 1 2 3 len le d by (simp add: consistent_def distinct_Delete)
qed

lemma consistent_CloseSession:
  assumes "consistent m"
  shows "consistent (snd (CloseSession m sessionID))"
proof (cases "Load (sessions m) sessionID")
  case None
  then show ?thesis using assms by (simp add: CloseSession_def)
next
  case (Some p)
  then have "(sessionID, p) \<in> set (sessions m)"
    using assms by (simp add: Load_Some_iff consistent_def)
  from consistent_remove [OF assms this] Some show ?thesis
    by (simp add: CloseSession_def)
qed

lemma consistent_logs [simp]:
  "consistent (m\<lparr>exits := x\<rparr>) = consistent m"
  "consistent (m\<lparr>outputs := y\<rparr>) = consistent m"
  "consistent (m\<lparr>replies := z\<rparr>) = consistent m"
  by (simp_all add: consistent_def)

lemma consistent_tasks:
  assumes "consistent m" and "t \<noteq> Closing"
  shows "consistent (m\<lparr>readers := (readers m)[p := t]\<rparr>)"
    and "consistent (m\<lparr>monitors := (monitors m)[p := t]\<rparr>)"
  using assms set_update_subset_insert [of "readers m" p t]
    set_update_subset_insert [of "monitors m" p t]
  by (auto simp: consistent_def)

lemma consistent_lastActivity:
  assumes "consistent m" and "p < length (heap m)"
  shows "consistent (m\<lparr>heap := (heap m)[p := (heap m ! p)\<lparr>lastActivity := now\<rparr>]\<rparr>)"
  using assms by (auto simp: consistent_def nth_list_update)

lemma not_Closing:
  assumes "consistent m" and "p < length (heap m)"
  shows "readers m ! p \<noteq> Closing" and "monitors m ! p \<noteq> Closing"
proof -
  from assms have "p < length (readers m)" and "Closing \<notin> set (readers m)"
    by (simp_all add: consistent_def)
  then show "readers m ! p \<noteq> Closing"
    using nth_mem [of p "readers m"] by metis
  from assms have "p < length (monitors m)" and "Closing \<notin> set (monitors m)"
    by (simp_all add: consistent_def)
  then show "monitors m ! p \<noteq> Closing"
    using nth_mem [of p "monitors m"] by metis
qed

lemma consistent_touch:
  assumes "consistent m"
  shows "consistent (snd (touch now m sessionID))"
  using assms by (auto simp: touch_def consistent_lastActivity split: option.splits)

lemma consistent_reader_data:
  assumes "consistent m"
  shows "consistent (reader_data p buf now m)"
  using assms consistent_lastActivity [of m p now] by (simp add: reader_data_def)

lemma consistent_stops:
  assumes "consistent m"
  shows "consistent (reader_stop p m)" and "consistent (monitor_stop p m)"
  using assms by (simp_all add: reader_stop_def monitor_stop_def consistent_tasks)

lemma consistent_finish_idle:
  assumes "consistent m"
  shows "reader_finish p m = m" and "monitor_finish p m = m"
  using assms not_Closing [of m p] by (auto simp: reader_finish_def monitor_finish_def)

lemma consistent_reader_exit:
  assumes c: "consistent m"
  shows "consistent (reader_finish p (reader_error p m))"
proof (cases "p < length (heap m) \<and> readers m ! p = Running")
  case False
  then have "reader_error p m = m"
    by (auto simp: reader_error_def)
  with c show ?thesis
    by (simp add: consistent_finish_idle)
next
  case True
  then have p: "p < length (heap m)" "p < length (readers m)"
    using c by (simp_all add: consistent_def)
  show ?thesis
  proof (cases "closed (heap m ! p)")
    case True
    with p \<open>p < length (heap m) \<and> readers m ! p = Running\<close>
    have "reader_finish p (reader_error p m) = m\<lparr>readers := (readers m)[p := Returned]\<rparr>"
      by (simp add: reader_error_def reader_finish_def)
    with c show ?thesis
      by (simp add: consistent_tasks)
  next
    case False
    with c p have reg: "(ID (heap m ! p), p) \<in> set (sessions m)"
      by (simp add: consistent_def)
    let ?x = "(close_at p (m\<lparr>sessions := Delete (sessions m) (ID (heap m ! p))\<rparr>))
                \<lparr>sessionCount := sessionCount m - 1\<rparr>"
    have "reader_finish p (reader_error p m) =
        ?x\<lparr>exits := exits m @ [(ID (heap m ! p), 0)], readers := (readers ?x)[p := Returned]\<rparr>"
      using False p \<open>p < length (heap m) \<and> readers m ! p = Running\<close>
      by (simp add: reader_error_def reader_finish_def close_at_def)
    moreover have "consistent ?x"
      using c reg by (rule consistent_remove)
    ultimately show ?thesis
      using consistent_tasks(1) [of "?x\<lparr>exits := exits m @ [(ID (heap m ! p), 0)]\<rparr>" Returned p]
      by simp
  qed
qed

lemma consistent_watchdog:
  assumes c: "consistent m"
  shows "consistent (monitor_finish p (monitor_tick p now m))"
proof (cases "p < length (heap m) \<and> monitors m ! p = Running \<and>
    sint inactivityTimeout < now - lastActivity (heap m ! p) \<and> \<not> closed (heap m ! p)")
  case False
  then have "monitor_tick p now m = m"
    by (auto simp: monitor_tick_def Let_def)
  with c show ?thesis
    by (simp add: consistent_finish_idle)
next
  case True
  then have p: "p < length (heap m)" "p < length (monitors m)"
    using c by (simp_all add: consistent_def)
  from True c p have reg: "(ID (heap m ! p), p) \<in> set (sessions m)"
    by (simp add: consistent_def)
  let ?x = "(close_at p (m\<lparr>sessions := Delete (sessions m) (ID (heap m ! p))\<rparr>))
              \<lparr>sessionCount := sessionCount m - 1\<rparr>"
  have "monitor_finish p (monitor_tick p now m) =
      ?x\<lparr>exits := exits m @ [(ID (heap m ! p), 0)], monitors := (monitors ?x)[p := Returned]\<rparr>"
    using True p by (simp add: monitor_tick_def monitor_finish_def close_at_def Let_def)
  moreover have "consistent ?x"
    using c reg by (rule consistent_remove)
  ultimately show ?thesis
    using consistent_tasks(2) [of "?x\<lparr>exits := exits m @ [(ID (heap m ! p), 0)]\<rparr>" Returned p]
    by simp
qed

lemma consistent_close_all:
  assumes "consistent m" and "set xs \<subseteq> set (sessions m)" and "distinct (map fst xs)"
  shows "consistent
           (fold (\<lambda>kv m'. (close_at (snd kv) m')
                             \<lparr>sessions := Delete (sessions m') (fst kv),
                              sessionCount := sessionCount m' - 1\<rparr>) xs m) \<and>
         set (sessions
           (fold (\<lambda>kv m'. (close_at (snd kv) m')
                             \<lparr>sessions := Delete (sessions m') (fst kv),
                              sessionCount := sessionCount m' - 1\<rparr>) xs m)) =
           {kv \<in> set (sessions m). fst kv \<notin> fst ` set xs}"
  using assms
proof (induction xs arbitrary: m)
  case Nil
  then show ?case by simp
next
  case (Cons x xs)
  let ?m = "(close_at (snd x) (m\<lparr>sessions := Delete (sessions m) (fst x)\<rparr>))
              \<lparr>sessionCount := sessionCount m - 1\<rparr>"
  have same: "(close_at (snd x) m)\<lparr>sessions := Delete (sessions m) (fst x),
      sessionCount := sessionCount m - 1\<rparr> = ?m"
    by (simp add: close_at_def)
  have "(fst x, snd x) \<in> set (sessions m)"
    using Cons.prems(2) by simp
  then have c: "consistent ?m"
    using Cons.prems(1) consistent_remove by blast
  have s: "sessions ?m = Delete (sessions m) (fst x)"
    by (simp add: close_at_def)
  have sub: "set xs \<subseteq> set (sessions ?m)"
  proof
    fix kv assume kv: "kv \<in> set xs"
    then have "fst kv \<in> fst ` set xs" by (rule imageI)
    moreover from Cons.prems(3) have "fst x \<notin> fst ` set xs" by simp
    ultimately have "fst kv \<noteq> fst x" by metis
    with kv Cons.prems(2) show "kv \<in> set (sessions ?m)"
      by (auto simp: s set_Delete)
  qed
  have d: "distinct (map fst xs)"
    using Cons.prems(3) by simp
  from Cons.IH [OF c sub d] show ?case
    by (auto simp: same s set_Delete)
qed

lemma consistent_CloseAllSessions:
  assumes "consistent m"
  shows "consistent (CloseAllSessions m)" and "sessions (CloseAllSessions m) = []"
proof -
  have d: "distinct (map fst (sessions m))"
    using assms by (simp add: consistent_def)
  from consistent_close_all [OF assms subset_refl d]
  show "consistent (CloseAllSessions m)"
    by (simp add: CloseAllSessions_def)
  from consistent_close_all [OF assms subset_refl d]
  have "set (sessions (CloseAllSessions m)) = {}"
    by (auto simp: CloseAllSessions_def)
  then show "sessions (CloseAllSessions m) = []"
    by simp
qed

lemma run_append: "run env m (es @ es') = run env (run env m es) es'"
  by (simp add: run_def)

lemma run_Cons: "run env m (e # es) = run env (exec_step env m e) es"
  by (simp add: run_def)

lemma consistent_closing_after:
  assumes "consistent m"
  shows "consistent (run env m (closing_after e))"
proof (cases e)
  case (Spawn sessionID cols rows username now)
  then show ?thesis
    using consistent_Spawn [OF assms, of env now sessionID cols rows username]
    by (auto simp: run_def split: prod.splits)
next
  case (ClosePty sessionID)
  then show ?thesis
    using consistent_CloseSession [OF assms, of sessionID]
    by (auto simp: run_def split: prod.splits)
next
  case CloseAll
  then show ?thesis
    using consistent_CloseAllSessions(1) [OF assms] by (simp add: run_def)
next
  case (Input sessionID now)
  then show ?thesis
    using consistent_touch [OF assms, of now sessionID]
    by (auto simp: run_def split: prod.splits)
next
  case (ReaderError p)
  then show ?thesis
    using consistent_reader_exit [OF assms, of p] by (simp add: run_def)
next
  case (Tick p now)
  then show ?thesis
    using consistent_watchdog [OF assms, of p now] by (simp add: run_def)
qed (simp_all add: run_def assms consistent_stops consistent_reader_data consistent_finish_idle)

theorem serialized_consistent:
  assumes "consistent m"
  shows "consistent (run env m (serialized es))"
  using assms
proof (induction es arbitrary: m)
  case Nil
  then show ?case by (simp add: serialized_def run_def)
next
  case (Cons e es)
  have "run env m (serialized (e # es)) = run env (run env m (closing_after e)) (serialized es)"
    by (simp add: serialized_def run_append)
  with Cons show ?case
    by (simp add: consistent_closing_after)
qed

corollary serialized_counter:
  "sint (sessionCount (run env NewSessionManager (serialized es))) =
     int (length (sessions (run env NewSessionManager (serialized es)))) \<and>
   length (sessions (run env NewSessionManager (serialized es))) \<le> 10"
  using serialized_consistent [OF consistent_init, of env es] by (simp add: consistent_def)

text \<open>
  On the states that serialized schedules reach, the capacity guard does what the
  specification says: at ten registered sessions every spawn is refused and changes
  nothing, and once one of them is closed a spawn with a fresh id is admitted, provided
  the pty starts.
\<close>

lemma full_registry_refuses:
  assumes "consistent m" and "length (sessions m) = 10"
  shows "SpawnSession env now m sessionID cols rows username = (Some ErrMaxSessions, m)"
proof -
  have "sint (sessionCount m) = 10"
    using assms by (simp add: consistent_def)
  then have "maxSessions \<le>s sessionCount m"
    by (simp add: maxSessions_def word_sle_eq)
  then show ?thesis
    by (rule SpawnSession_at_capacity)
qed

lemma spawn_after_close:
  assumes c: "consistent m" and full: "length (sessions m) = 10"
    and reg: "Load (sessions m) k = Some p"
    and fresh: "Load (sessions m) sessionID = None"
    and nt: "NewTerminal env username = Inr trm" and ws: "SetWinSize env trm cols rows = None"
  shows "fst (CloseSession m k) = None \<and>
     fst (SpawnSession env now (snd (CloseSession m k)) sessionID cols rows username) = None \<and>
     length (sessions (snd (SpawnSession env now (snd (CloseSession m k)) sessionID cols rows
       username))) = 10"
proof -
  let ?m = "snd (CloseSession m k)"
  have c': "consistent ?m"
    using c by (rule consistent_CloseSession)
  have in_s: "(k, p) \<in> set (sessions m)"
    using c reg by (simp add: Load_Some_iff consistent_def)
  have s: "sessions ?m = Delete (sessions m) k"
    using reg by (simp add: CloseSession_def close_at_def)
  have len: "length (sessions ?m) = 9"
    using length_Delete_present [of "sessions m" k p] c in_s full
    by (simp add: s consistent_def)
  have "sint (sessionCount ?m) = 9"
    using c' len by (simp add: consistent_def)
  then have room: "\<not> maxSessions \<le>s sessionCount ?m"
    by (simp add: maxSessions_def word_sle_eq)
  have fresh': "Load (sessions ?m) sessionID = None"
    using fresh by (simp add: s Load_Delete)
  have ok: "fst (CloseSession m k) = None"
    using reg by (simp add: CloseSession_def)
  let ?r = "SpawnSession env now ?m sessionID cols rows username"
  have spawned: "fst ?r = None"
    using SpawnSession_fresh [OF room fresh' nt ws] by simp
  have "sessions (snd ?r) = Store (sessions ?m) sessionID (length (heap ?m))"
    using room fresh' nt ws by (simp add: SpawnSession_def)
  also have "\<dots> = sessions ?m @ [(sessionID, length (heap ?m))]"
    using fresh' by (simp add: Store_def Delete_absent Load_None_iff)
  finally have "length (sessions (snd ?r)) = 10"
    using len by simp
  with ok spawned show ?thesis
    by simp
qed

text \<open>
  On a consistent state, when the watchdog finds a registered session inactive and runs
  its closing statements before the reader sees the failed read, the session is
  deregistered and closed and exactly one exit notification is sent: the reader finds
  \<open>closed\<close> set and returns silently.
\<close>

lemma watchdog_closes_once:
  assumes c: "consistent m" and reg: "Load (sessions m) k = Some p"
    and mon: "monitors m ! p = Running"
    and idle: "sint inactivityTimeout < now - lastActivity (heap m ! p)"
  shows "exits (run env m [Tick p now, MonitorFinish p, ReaderError p, ReaderFinish p]) =
       exits m @ [(k, 0)] \<and>
     Load (sessions (run env m [Tick p now, MonitorFinish p, ReaderError p, ReaderFinish p])) k =
       None \<and>
     closed (heap (run env m [Tick p now, MonitorFinish p, ReaderError p, ReaderFinish p]) ! p)"
proof -
  have in_s: "(k, p) \<in> set (sessions m)"
    using c reg by (simp add: Load_Some_iff consistent_def)
  with c have p: "p < length (heap m)" "ID (heap m ! p) = k" "\<not> closed (heap m ! p)"
    by (auto simp: consistent_def)
  let ?w = "monitor_finish p (monitor_tick p now m)"
  have w: "?w = (close_at p
              (m\<lparr>exits := exits m @ [(k, 0)],
                 sessions := Delete (sessions m) k,
                 sessionCount := sessionCount m - 1\<rparr>))
             \<lparr>monitors := (monitors m)[p := Returned]\<rparr>"
    using p mon idle c
    by (simp add: monitor_tick_def monitor_finish_def Let_def consistent_def close_at_def)
  have cw: "consistent ?w"
    using c by (rule consistent_watchdog)
  have closed_w: "p < length (heap ?w)" "closed (heap ?w ! p)" "exits ?w = exits m @ [(k, 0)]"
    "sessions ?w = Delete (sessions m) k"
    using p by (simp_all add: w close_at_def TermSession_Close_fields)
  have r: "reader_finish p (reader_error p ?w) =
      (if readers ?w ! p = Running then ?w\<lparr>readers := (readers ?w)[p := Returned]\<rparr> else ?w)"
  proof -
    have "p < length (readers ?w)"
      using cw closed_w(1) by (simp add: consistent_def)
    then show ?thesis
      using closed_w(1,2) not_Closing(1) [OF cw closed_w(1)]
      by (simp add: reader_error_def reader_finish_def)
  qed
  have "run env m [Tick p now, MonitorFinish p, ReaderError p, ReaderFinish p] =
      reader_finish p (reader_error p ?w)"
    by (simp add: run_def)
  with r closed_w show ?thesis
    by (simp add: Load_Delete)
qed

subsection \<open>A close request between the reader's test and its closing statements\<close>

text \<open>
  Claim C10, on the schedule \<open>late_close\<close>: both requests succeed, the registry ends
  empty and the counter ends at -1, because \<open>CloseSession\<close> and the reader each
  decrement it for the one session.
\<close>

theorem late_close_counter:
  "replies (run sample_env NewSessionManager late_close) = [None, None] \<and>
   sessions (run sample_env NewSessionManager late_close) = [] \<and>
   sint (sessionCount (run sample_env NewSessionManager late_close)) = - 1"
  by (simp add: late_close_def session_defs)

text \<open>
  Claim C2, on the schedule \<open>late_close\<close> followed by eleven spawn requests with fresh
  ids: with the counter at -1 all eleven are admitted, and eleven sessions are
  registered and live at once.
\<close>

theorem eleven_sessions_live:
  "replies (run sample_env NewSessionManager (late_close @ eleven_spawns)) =
     replicate 13 None \<and>
   live_sessions (run sample_env NewSessionManager (late_close @ eleven_spawns)) =
     [''s1'', ''s2'', ''s3'', ''s4'', ''s5'', ''s6'', ''s7'', ''s8'', ''s9'', ''s10'', ''s11''] \<and>
   sint (sessionCount (run sample_env NewSessionManager (late_close @ eleven_spawns))) = 10"
  by (simp add: late_close_def eleven_spawns_def live_sessions_def session_defs
      eval_nat_numeral)

subsection \<open>A shell that exits while the watchdog fires\<close>

text \<open>
  Claim C6, on the schedule \<open>exit_at_tick\<close>: the tick at 600s changes nothing; after the
  tick at 660s the watchdog and the reader have both passed their test of \<open>closed\<close>
  before either closes the session, and each calls \<open>sendExit\<close>: two exit notifications
  for the one session.
\<close>

theorem exit_at_tick_notifies_twice:
  "run sample_env NewSessionManager (take 3 exit_at_tick) =
     run sample_env NewSessionManager (take 2 exit_at_tick) \<and>
   exits (run sample_env NewSessionManager exit_at_tick) = [(''a'', 0), (''a'', 0)] \<and>
   sessions (run sample_env NewSessionManager exit_at_tick) = [] \<and>
   sint (sessionCount (run sample_env NewSessionManager exit_at_tick)) = - 1"
  by (simp add: exit_at_tick_def session_defs)
section \<open>Message codec: encoding then decoding\<close>

subsection \<open>Strings\<close>

lemma ValidString_ToValidUTF8:
  assumes "ValidString s"
  shows "ToValidUTF8 s = s"
  using assms
proof (induction s rule: ValidString.induct)
  case (1 s)
  show ?case
  proof (cases "s = []")
    case True
    then show ?thesis
      by (simp add: ToValidUTF8.simps)
  next
    case False
    with "1.prems" have n: "rune_size s \<noteq> 0" and v: "ValidString (drop (rune_size s) s)"
      by (simp_all add: ValidString.simps [of s] split: if_splits)
    from "1.IH" [OF False n v]
    have "ToValidUTF8 (drop (rune_size s) s) = drop (rune_size s) s" .
    with False n show ?thesis
      by (simp add: ToValidUTF8.simps [of s])
  qed
qed

lemma ValidString_Nil: "ValidString []"
  by (simp add: ValidString.simps)

lemma ValidString_ascii:
  assumes "of_char a \<le> (0x7F::nat)"
  shows "ValidString (a # s) = ValidString s"
  using assms by (simp add: ValidString.simps [of "a # s"] rune_size_def byte_in_def)

lemma ToValidUTF8_examples:
  "ToValidUTF8 ''abc'' = ''abc''"
  "ToValidUTF8 [CHR 0xC3, CHR 0xA9] = [CHR 0xC3, CHR 0xA9]"
  "ToValidUTF8 [CHR 0xFF] = [CHR 0xEF, CHR 0xBF, CHR 0xBD]"
  "ToValidUTF8 [CHR 0xC3, CHR 0x28] = [CHR 0xEF, CHR 0xBF, CHR 0xBD, CHR 0x28]"
  "ToValidUTF8 [CHR 0xED, CHR 0xA0, CHR 0x80] =
     [CHR 0xEF, CHR 0xBF, CHR 0xBD, CHR 0xEF, CHR 0xBF, CHR 0xBD, CHR 0xEF, CHR 0xBF, CHR 0xBD]"
  by (simp_all add: ToValidUTF8.simps rune_size_def byte_in_def)

lemma ValidString_examples:
  "ValidString ''abc''" "ValidString [CHR 0xC3, CHR 0xA9]" "\<not> ValidString [CHR 0xFF]"
  "ValidString [CHR 0xEF, CHR 0xBF, CHR 0xBD]" "\<not> ValidString [CHR 0xC0, CHR 0x80]"
  by (simp_all add: ValidString.simps rune_size_def byte_in_def)

text \<open>An encoding that \<open>s\<close> starts with is found again when it is followed by something
  else: \<open>rune_size\<close> looks at no more bytes than it counts.\<close>

lemma rune_size_le: "rune_size s \<le> length s"
  by (auto simp: rune_size_def split: list.splits)

lemma rune_size_values: "rune_size s \<in> {0, 1, 2, 3, 4}"
  by (simp add: rune_size_def split: list.splits)

lemma rune_size_1:
  assumes "rune_size s = 1"
  shows "rune_size (take 1 s @ t) = 1"
proof (cases s)
  case Nil
  with assms show ?thesis
    by (simp add: rune_size_def)
next
  case (Cons a r)
  with assms have "byte_in 0x00 a 0x7F"
    by (simp add: rune_size_def split: if_splits list.splits)
  with Cons show ?thesis
    by (simp add: rune_size_def)
qed

lemma rune_size_2:
  assumes "rune_size s = 2"
  shows "rune_size (take 2 s @ t) = 2"
proof -
  from rune_size_le [of s] assms have "2 \<le> length s"
    by simp
  then obtain a b r where s: "s = a # b # r"
    by (cases s; cases "tl s") auto
  from assms have "\<not> byte_in 0x00 a 0x7F \<and> byte_in 0xC2 a 0xDF \<and> byte_in 0x80 b 0xBF"
    unfolding s by (simp add: rune_size_def split: if_splits list.splits)
  then show ?thesis
    unfolding s by (simp add: rune_size_def)
qed

lemma rune_size_3:
  assumes "rune_size s = 3"
  shows "rune_size (take 3 s @ t) = 3"
proof -
  from rune_size_le [of s] assms have "3 \<le> length s"
    by simp
  then obtain a b c r where s: "s = a # b # c # r"
    by (cases s; cases "tl s"; cases "tl (tl s)") auto
  from assms
  have "\<not> byte_in 0x00 a 0x7F \<and> \<not> byte_in 0xC2 a 0xDF \<and> byte_in 0xE0 a 0xEF \<and>
        byte_in (if a = CHR 0xE0 then 0xA0 else 0x80) b (if a = CHR 0xED then 0x9F else 0xBF) \<and>
        byte_in 0x80 c 0xBF"
    unfolding s by (simp add: rune_size_def split: if_splits list.splits)
  then show ?thesis
    unfolding s by (simp add: rune_size_def)
qed

lemma rune_size_4:
  assumes "rune_size s = 4"
  shows "rune_size (take 4 s @ t) = 4"
proof -
  from rune_size_le [of s] assms have "4 \<le> length s"
    by simp
  then obtain a b c d r where s: "s = a # b # c # d # r"
    by (cases s; cases "tl s"; cases "tl (tl s)"; cases "tl (tl (tl s))") auto
  from assms
  have "\<not> byte_in 0x00 a 0x7F \<and> \<not> byte_in 0xC2 a 0xDF \<and> \<not> byte_in 0xE0 a 0xEF \<and>
        byte_in 0xF0 a 0xF4 \<and>
        byte_in (if a = CHR 0xF0 then 0x90 else 0x80) b (if a = CHR 0xF4 then 0x8F else 0xBF) \<and>
        byte_in 0x80 c 0xBF \<and> byte_in 0x80 d 0xBF"
    unfolding s by (simp add: rune_size_def split: if_splits list.splits)
  then show ?thesis
    unfolding s by (simp add: rune_size_def)
qed

lemma rune_size_take:
  assumes "rune_size s \<noteq> 0"
  shows "rune_size (take (rune_size s) s @ t) = rune_size s"
proof -
  from assms rune_size_values [of s]
  consider "rune_size s = 1" | "rune_size s = 2" | "rune_size s = 3" | "rune_size s = 4"
    by auto
  then show ?thesis
  proof cases
    case 1
    with rune_size_1 [OF 1, of t] show ?thesis
      by simp
  next
    case 2
    with rune_size_2 [OF 2, of t] show ?thesis
      by simp
  next
    case 3
    with rune_size_3 [OF 3, of t] show ?thesis
      by simp
  next
    case 4
    with rune_size_4 [OF 4, of t] show ?thesis
      by simp
  qed
qed

lemma rune_size_RuneError: "rune_size (CHR 0xEF # CHR 0xBF # CHR 0xBD # t) = 3"
  by (simp add: rune_size_def byte_in_def)

text \<open>What the coercion gives is valid, so the coercion changes a string exactly when
  the string is not valid, and coercing twice is coercing once.\<close>

lemma ValidString_coerced: "ValidString (ToValidUTF8 s)"
proof (induction s rule: ToValidUTF8.induct)
  case (1 s)
  show ?case
  proof (cases "s = []")
    case True
    then show ?thesis
      by (simp add: ToValidUTF8.simps ValidString.simps)
  next
    case False
    show ?thesis
    proof (cases "rune_size s = 0")
      case True
      with False "1.IH"(1) have "ValidString (ToValidUTF8 (tl s))"
        by simp
      with False True show ?thesis
        by (simp add: ToValidUTF8.simps [of s]
            ValidString.simps [of "CHR 0xEF # CHR 0xBF # CHR 0xBD # ToValidUTF8 (tl s)"]
            rune_size_RuneError)
    next
      case n: False
      with False "1.IH"(2) have v: "ValidString (ToValidUTF8 (drop (rune_size s) s))"
        by simp
      have l: "length (take (rune_size s) s) = rune_size s"
        using rune_size_le [of s] by simp
      from n
      have r: "rune_size (take (rune_size s) s @ ToValidUTF8 (drop (rune_size s) s)) =
          rune_size s"
        by (rule rune_size_take)
      from False n v r l show ?thesis
        by (simp add: ToValidUTF8.simps [of s]
            ValidString.simps [of "take (rune_size s) s @ ToValidUTF8 (drop (rune_size s) s)"])
    qed
  qed
qed

lemma ToValidUTF8_fixed: "ToValidUTF8 s = s \<longleftrightarrow> ValidString s"
  using ValidString_ToValidUTF8 [of s] ValidString_coerced [of s] by auto

lemma ToValidUTF8_idem: "ToValidUTF8 (ToValidUTF8 s) = ToValidUTF8 s"
  by (simp add: ValidString_ToValidUTF8 ValidString_coerced)

lemma map_ToValidUTF8_fixed: "map ToValidUTF8 xs = xs \<longleftrightarrow> list_all ValidString xs"
  by (induction xs) (simp_all add: ToValidUTF8_fixed)

subsection \<open>Fields\<close>

lemma get_int_sint: "get_int (Some (JInt (sint (x :: go_int)))) = Inr x"
proof -
  have "- (2 ^ 63) \<le> sint x" and "sint x < 2 ^ 63"
    using sint_ge [of x] sint_lt [of x] by simp_all
  then show ?thesis
    by (simp add: get_int_def)
qed

lemma get_uint16_uint: "get_uint16 (Some (JInt (uint (x :: 16 word)))) = Inr x"
proof -
  have "uint x < 2 ^ 16"
    using uint_bounded [of x] by simp
  then show ?thesis
    by (simp add: get_uint16_def)
qed

text \<open>A string that was written is read back coerced.\<close>

lemma get_string_coerced: "get_string (Some (JString (ToValidUTF8 s))) = Inr (ToValidUTF8 s)"
  by (simp add: get_string_def ToValidUTF8_idem)

lemma get_strings_coerced:
  "get_strings (Some (JArray (map (\<lambda>s. JString (ToValidUTF8 s)) xs))) =
     Inr (map ToValidUTF8 xs)"
proof -
  have "get_elems (\<lambda>j. get_string (Some j)) (map (\<lambda>s. JString (ToValidUTF8 s)) xs) =
      Inr (map ToValidUTF8 xs)"
    by (induction xs) (simp_all add: get_string_coerced)
  then show ?thesis
    by (simp add: get_strings_def)
qed

text \<open>An array of structs that was written is read back element by element.\<close>

lemma get_elems_decoded:
  assumes "\<And>x. \<exists>y. dec (enc x) = Inr y \<and> (y = x \<longleftrightarrow> P x)"
  shows "\<exists>ys. get_elems dec (map enc xs) = Inr ys \<and> (ys = xs \<longleftrightarrow> list_all P xs)"
proof (induction xs)
  case Nil
  show ?case
    by simp
next
  case (Cons x xs)
  from assms obtain y where y: "dec (enc x) = Inr y" "y = x \<longleftrightarrow> P x"
    by blast
  from Cons obtain ys where
    ys: "get_elems dec (map enc xs) = Inr ys" "ys = xs \<longleftrightarrow> list_all P xs"
    by blast
  from y ys show ?case
    by simp
qed

lemma get_absent:
  "get_string None = Inr []" "get_int None = Inr 0" "get_bool None = Inr False"
  "get_strings None = Inr []" "get_items dec None = Inr None"
  "get_items dec (Some JNull) = Inr None"
  by (simp_all add: get_string_def get_int_def get_bool_def get_strings_def get_items_def)

lemma get_bool_present: "get_bool (Some (JBool b)) = Inr b"
  by (simp add: get_bool_def)

lemmas field_defs =
  str_field_def str_field_omitempty_def bool_field_def bool_field_omitempty_def int_field_def
  int_field_omitempty_def uint16_field_def strs_field_omitempty_def items_field_def
  struct_field_def member_def into_struct_def and_then_def

lemmas field_simps =
  get_int_sint get_uint16_uint get_absent get_string_coerced get_bool_present
  get_strings_coerced ToValidUTF8_fixed map_ToValidUTF8_fixed ValidString_Nil

subsection \<open>Payload structs\<close>

text \<open>Decoding what was encoded gives the struct back exactly when its strings are
  valid UTF-8.\<close>


lemma RegisterData_round_trip:
  "dec_RegisterData (enc_RegisterData x) = Inr x \<longleftrightarrow> valid_RegisterData x"
  by (cases x) (auto simp: enc_RegisterData_def dec_RegisterData_def valid_RegisterData_def field_defs field_simps)

lemma HeartbeatData_round_trip:
  "dec_HeartbeatData (enc_HeartbeatData x) = Inr x \<longleftrightarrow> valid_HeartbeatData x"
  by (cases x) (auto simp: enc_HeartbeatData_def dec_HeartbeatData_def valid_HeartbeatData_def field_defs field_simps)

lemma PtyDataMsg_round_trip:
  "dec_PtyDataMsg (enc_PtyDataMsg x) = Inr x \<longleftrightarrow> valid_PtyDataMsg x"
  by (cases x) (auto simp: enc_PtyDataMsg_def dec_PtyDataMsg_def valid_PtyDataMsg_def field_defs field_simps)

lemma PtyExitMsg_round_trip:
  "dec_PtyExitMsg (enc_PtyExitMsg x) = Inr x \<longleftrightarrow> valid_PtyExitMsg x"
  by (cases x) (auto simp: enc_PtyExitMsg_def dec_PtyExitMsg_def valid_PtyExitMsg_def field_defs field_simps)

lemma CmdResultData_round_trip:
  "dec_CmdResultData (enc_CmdResultData x) = Inr x \<longleftrightarrow> valid_CmdResultData x"
  by (cases x) (auto simp: enc_CmdResultData_def dec_CmdResultData_def valid_CmdResultData_def field_defs field_simps)

lemma CmdErrorData_round_trip:
  "dec_CmdErrorData (enc_CmdErrorData x) = Inr x \<longleftrightarrow> valid_CmdErrorData x"
  by (cases x) (auto simp: enc_CmdErrorData_def dec_CmdErrorData_def valid_CmdErrorData_def field_defs field_simps)

lemma RegisterAckData_round_trip:
  "dec_RegisterAckData (enc_RegisterAckData x) = Inr x \<longleftrightarrow> valid_RegisterAckData x"
  by (cases x) (auto simp: enc_RegisterAckData_def dec_RegisterAckData_def valid_RegisterAckData_def field_defs field_simps)

lemma SpawnPtyData_round_trip:
  "dec_SpawnPtyData (enc_SpawnPtyData x) = Inr x \<longleftrightarrow> valid_SpawnPtyData x"
  by (cases x) (auto simp: enc_SpawnPtyData_def dec_SpawnPtyData_def valid_SpawnPtyData_def field_defs field_simps)

lemma PtyInputData_round_trip:
  "dec_PtyInputData (enc_PtyInputData x) = Inr x \<longleftrightarrow> valid_PtyInputData x"
  by (cases x) (auto simp: enc_PtyInputData_def dec_PtyInputData_def valid_PtyInputData_def field_defs field_simps)

lemma PtyResizeData_round_trip:
  "dec_PtyResizeData (enc_PtyResizeData x) = Inr x \<longleftrightarrow> valid_PtyResizeData x"
  by (cases x) (auto simp: enc_PtyResizeData_def dec_PtyResizeData_def valid_PtyResizeData_def field_defs field_simps)

lemma ClosePtyData_round_trip:
  "dec_ClosePtyData (enc_ClosePtyData x) = Inr x \<longleftrightarrow> valid_ClosePtyData x"
  by (cases x) (auto simp: enc_ClosePtyData_def dec_ClosePtyData_def valid_ClosePtyData_def field_defs field_simps)

lemma ExecCmdData_round_trip:
  "dec_ExecCmdData (enc_ExecCmdData x) = Inr x \<longleftrightarrow> valid_ExecCmdData x"
  by (cases x) (auto simp: enc_ExecCmdData_def dec_ExecCmdData_def valid_ExecCmdData_def field_defs field_simps)

lemma ListFilesData_round_trip:
  "dec_ListFilesData (enc_ListFilesData x) = Inr x \<longleftrightarrow> valid_ListFilesData x"
  by (cases x) (auto simp: enc_ListFilesData_def dec_ListFilesData_def valid_ListFilesData_def field_defs field_simps)

lemma DownloadFileData_round_trip:
  "dec_DownloadFileData (enc_DownloadFileData x) = Inr x \<longleftrightarrow> valid_DownloadFileData x"
  by (cases x) (auto simp: enc_DownloadFileData_def dec_DownloadFileData_def valid_DownloadFileData_def field_defs field_simps)

lemma UploadFileData_round_trip:
  "dec_UploadFileData (enc_UploadFileData x) = Inr x \<longleftrightarrow> valid_UploadFileData x"
  by (cases x) (auto simp: enc_UploadFileData_def dec_UploadFileData_def valid_UploadFileData_def field_defs field_simps)

lemma CreateFileData_round_trip:
  "dec_CreateFileData (enc_CreateFileData x) = Inr x \<longleftrightarrow> valid_CreateFileData x"
  by (cases x) (auto simp: enc_CreateFileData_def dec_CreateFileData_def valid_CreateFileData_def field_defs field_simps)

lemma CreateFolderData_round_trip:
  "dec_CreateFolderData (enc_CreateFolderData x) = Inr x \<longleftrightarrow> valid_CreateFolderData x"
  by (cases x) (auto simp: enc_CreateFolderData_def dec_CreateFolderData_def valid_CreateFolderData_def field_defs field_simps)

lemma DeleteItemData_round_trip:
  "dec_DeleteItemData (enc_DeleteItemData x) = Inr x \<longleftrightarrow> valid_DeleteItemData x"
  by (cases x) (auto simp: enc_DeleteItemData_def dec_DeleteItemData_def valid_DeleteItemData_def field_defs field_simps)

lemma CopyItemData_round_trip:
  "dec_CopyItemData (enc_CopyItemData x) = Inr x \<longleftrightarrow> valid_CopyItemData x"
  by (cases x) (auto simp: enc_CopyItemData_def dec_CopyItemData_def valid_CopyItemData_def field_defs field_simps)

lemma MoveItemData_round_trip:
  "dec_MoveItemData (enc_MoveItemData x) = Inr x \<longleftrightarrow> valid_MoveItemData x"
  by (cases x) (auto simp: enc_MoveItemData_def dec_MoveItemData_def valid_MoveItemData_def field_defs field_simps)

lemma RenameItemData_round_trip:
  "dec_RenameItemData (enc_RenameItemData x) = Inr x \<longleftrightarrow> valid_RenameItemData x"
  by (cases x) (auto simp: enc_RenameItemData_def dec_RenameItemData_def valid_RenameItemData_def field_defs field_simps)

lemma FileItem_decoded:
  "\<exists>y. dec_FileItem (enc_FileItem x) = Inr y \<and> (y = x \<longleftrightarrow> valid_FileItem x)"
  by (cases x) (auto simp: enc_FileItem_def dec_FileItem_def valid_FileItem_def field_defs field_simps)

lemma FileItem_round_trip:
  "dec_FileItem (enc_FileItem x) = Inr x \<longleftrightarrow> valid_FileItem x"
  using FileItem_decoded [of x] by auto

lemma FileListData_round_trip:
  "dec_FileListData (enc_FileListData x) = Inr x \<longleftrightarrow> valid_FileListData x"
proof (cases "FileListData.Files x")
  case None
  then show ?thesis
    by (cases x) (auto simp: enc_FileListData_def dec_FileListData_def valid_FileListData_def field_defs field_simps)
next
  case (Some xs)
  from get_elems_decoded [of dec_FileItem enc_FileItem valid_FileItem xs, OF FileItem_decoded]
  obtain ys where ys: "get_elems dec_FileItem (map enc_FileItem xs) = Inr ys"
    "ys = xs \<longleftrightarrow> list_all valid_FileItem xs"
    by blast
  with Some show ?thesis
    by (cases x) (auto simp: enc_FileListData_def dec_FileListData_def valid_FileListData_def get_items_def field_defs field_simps)
qed

lemma FileContentData_round_trip:
  "dec_FileContentData (enc_FileContentData x) = Inr x \<longleftrightarrow> valid_FileContentData x"
  by (cases x) (auto simp: enc_FileContentData_def dec_FileContentData_def valid_FileContentData_def field_defs field_simps)

lemma FileOpResultData_round_trip:
  "dec_FileOpResultData (enc_FileOpResultData x) = Inr x \<longleftrightarrow> valid_FileOpResultData x"
  by (cases x) (auto simp: enc_FileOpResultData_def dec_FileOpResultData_def valid_FileOpResultData_def field_defs field_simps)

lemma FileErrorData_round_trip:
  "dec_FileErrorData (enc_FileErrorData x) = Inr x \<longleftrightarrow> valid_FileErrorData x"
  by (cases x) (auto simp: enc_FileErrorData_def dec_FileErrorData_def valid_FileErrorData_def field_defs field_simps)

lemma StreamFileInfoData_round_trip:
  "dec_StreamFileInfoData (enc_StreamFileInfoData x) = Inr x \<longleftrightarrow> valid_StreamFileInfoData x"
  by (cases x) (auto simp: enc_StreamFileInfoData_def dec_StreamFileInfoData_def valid_StreamFileInfoData_def field_defs field_simps)

lemma StreamFileInfoResponseData_round_trip:
  "dec_StreamFileInfoResponseData (enc_StreamFileInfoResponseData x) = Inr x \<longleftrightarrow> valid_StreamFileInfoResponseData x"
  by (cases x) (auto simp: enc_StreamFileInfoResponseData_def dec_StreamFileInfoResponseData_def valid_StreamFileInfoResponseData_def field_defs field_simps)

lemma StreamChunkData_round_trip:
  "dec_StreamChunkData (enc_StreamChunkData x) = Inr x \<longleftrightarrow> valid_StreamChunkData x"
  by (cases x) (auto simp: enc_StreamChunkData_def dec_StreamChunkData_def valid_StreamChunkData_def field_defs field_simps)

lemma StreamChunkResponseData_round_trip:
  "dec_StreamChunkResponseData (enc_StreamChunkResponseData x) = Inr x \<longleftrightarrow> valid_StreamChunkResponseData x"
  by (cases x) (auto simp: enc_StreamChunkResponseData_def dec_StreamChunkResponseData_def valid_StreamChunkResponseData_def field_defs field_simps)

lemma EnrollAckData_Config_decoded: "dec_EnrollAckData_Config (enc_EnrollAckData_Config x) = Inr x"
  by (cases x) (simp add: enc_EnrollAckData_Config_def dec_EnrollAckData_Config_def field_defs field_simps)

lemma EnrollAckData_Config_round_trip:
  "dec_EnrollAckData_Config (enc_EnrollAckData_Config x) = Inr x \<longleftrightarrow> valid_EnrollAckData_Config x"
  by (cases x) (auto simp: enc_EnrollAckData_Config_def dec_EnrollAckData_Config_def valid_EnrollAckData_Config_def field_defs field_simps)

lemma EnrollAckData_round_trip:
  "dec_EnrollAckData (enc_EnrollAckData x) = Inr x \<longleftrightarrow> valid_EnrollAckData x"
  by (cases x) (auto simp: enc_EnrollAckData_def dec_EnrollAckData_def valid_EnrollAckData_def field_defs field_simps get_struct_def EnrollAckData_Config_decoded)

subsection \<open>Payloads\<close>

lemmas struct_round_trips =
  RegisterData_round_trip HeartbeatData_round_trip PtyDataMsg_round_trip
  PtyExitMsg_round_trip CmdResultData_round_trip CmdErrorData_round_trip
  RegisterAckData_round_trip SpawnPtyData_round_trip PtyInputData_round_trip
  PtyResizeData_round_trip ClosePtyData_round_trip ExecCmdData_round_trip
  ListFilesData_round_trip DownloadFileData_round_trip UploadFileData_round_trip
  CreateFileData_round_trip CreateFolderData_round_trip DeleteItemData_round_trip
  CopyItemData_round_trip MoveItemData_round_trip RenameItemData_round_trip
  FileListData_round_trip FileContentData_round_trip FileOpResultData_round_trip
  FileErrorData_round_trip StreamFileInfoData_round_trip
  StreamFileInfoResponseData_round_trip StreamChunkData_round_trip
  StreamChunkResponseData_round_trip EnrollAckData_round_trip

lemma payload_round_trip:
  "json_Unmarshal (type_of_payload p) (json_Marshal p) = Inr p \<longleftrightarrow> valid_payload p"
  by (cases p)
    (auto simp: as_payload_def struct_round_trips [symmetric] split: sum.splits)

subsection \<open>The envelope\<close>

lemma ParseMessage_MarshalMessage:
  assumes "ValidString msgType"
  shows "ParseMessage (MarshalMessage msgType data) = Inr (NewMessage msgType data)"
  using assms
  by (cases data)
    (simp_all add: ParseMessage_def MarshalMessage_def NewMessage_def field_defs
      get_string_def ValidString_ToValidUTF8)

lemma UnmarshalData_no_payload:
  "UnmarshalData T (NewMessage msgType None) = Inl SyntaxError"
  by (simp add: UnmarshalData_def NewMessage_def)

text \<open>Whatever the type string, the payload of a frame is read from the member \<open>data\<close>
  as it was written.\<close>

lemma decode_frame_MarshalMessage:
  "decode_frame T (MarshalMessage msgType (Some p)) = json_Unmarshal T (json_Marshal p)"
  by (simp add: decode_frame_def ParseMessage_def MarshalMessage_def NewMessage_def
      UnmarshalData_def field_defs get_string_def)

text \<open>Fields that are left out are read back as the zero value they had.\<close>

lemma omitted_fields:
  "enc_RegisterAckData \<lparr>RegisterAckData.Success = True, RegisterAckData.Message = []\<rparr> =
     JObject [(''success'', JBool True)]"
  "dec_RegisterAckData (JObject [(''success'', JBool True)]) =
     Inr \<lparr>RegisterAckData.Success = True, RegisterAckData.Message = []\<rparr>"
  by (simp_all add: enc_RegisterAckData_def dec_RegisterAckData_def field_defs field_simps)

text \<open>The frame of the \<open>file_list\<close> reply that lists \<open>/srv/notes.txt\<close>.\<close>

lemma listing_frame:
  "MarshalMessage ''file_list'' (Some (listing ''notes.txt'')) =
     JObject
       [(''type'', JString ''file_list''),
        (''data'',
         JObject
           [(''requestId'', JString ''r1''), (''path'', JString ''/srv''),
            (''files'',
             JArray
               [JObject
                  [(''name'', JString ''notes.txt''), (''path'', JString ''/srv/notes.txt''),
                   (''type'', JString ''file''), (''size'', JInt 12),
                   (''modTime'', JString ''2024-05-01T10:00:00Z''),
                   (''permissions'', JString ''-rw-r--r--''), (''owner'', JString ''root''),
                   (''group'', JString ''root'')]])])]"
proof -
  have "ToValidUTF8 ''file_list'' = ''file_list''" "ToValidUTF8 ''file'' = ''file''"
    "ToValidUTF8 ''r1'' = ''r1''" "ToValidUTF8 ''/srv'' = ''/srv''"
    "ToValidUTF8 ''root'' = ''root''" "ToValidUTF8 ''-rw-r--r--'' = ''-rw-r--r--''"
    "ToValidUTF8 ''2024-05-01T10:00:00Z'' = ''2024-05-01T10:00:00Z''"
    "ToValidUTF8 ''notes.txt'' = ''notes.txt''"
    "ToValidUTF8 ''/srv/notes.txt'' = ''/srv/notes.txt''"
    by (simp_all add: ValidString_ToValidUTF8 ValidString_ascii ValidString_Nil)
  then show ?thesis
    by (simp add: MarshalMessage_def NewMessage_def listing_def enc_FileListData_def
        enc_FileItem_def field_defs)
qed

subsection \<open>Round trip\<close>

text \<open>
  Claim C9 as stated fails at the \<open>file_list\<close> reply for a directory that holds a file
  whose name is the single byte \<open>0xFF\<close>, which is no UTF-8: the frame carries U+FFFD in
  its place, and decoding gives the listing of a file named by the three bytes
  \<open>EF BF BD\<close>, another name.
\<close>

theorem listing_not_reproduced:
  "decode_frame T_FileListData (MarshalMessage ''file_list'' (Some (listing [CHR 0xFF]))) =
     Inr (listing [CHR 0xEF, CHR 0xBF, CHR 0xBD]) \<and>
   listing [CHR 0xEF, CHR 0xBF, CHR 0xBD] \<noteq> listing [CHR 0xFF] \<and>
   type_of_payload (listing [CHR 0xFF]) = T_FileListData \<and>
   MarshalMessage ''file_list'' (Some (listing [CHR 0xFF])) =
     MarshalMessage ''file_list'' (Some (listing [CHR 0xEF, CHR 0xBF, CHR 0xBD]))"
proof -
  have a: "ToValidUTF8 ''/srv/'' = ''/srv/''" "ToValidUTF8 ''file'' = ''file''"
    "ToValidUTF8 ''r1'' = ''r1''" "ToValidUTF8 ''/srv'' = ''/srv''"
    "ToValidUTF8 ''root'' = ''root''" "ToValidUTF8 ''-rw-r--r--'' = ''-rw-r--r--''"
    "ToValidUTF8 ''2024-05-01T10:00:00Z'' = ''2024-05-01T10:00:00Z''"
    by (simp_all add: ValidString_ToValidUTF8 ValidString_ascii ValidString_Nil)
  have b: "ToValidUTF8 [CHR 0xFF] = [CHR 0xEF, CHR 0xBF, CHR 0xBD]"
    "ToValidUTF8 [CHR 0xEF, CHR 0xBF, CHR 0xBD] = [CHR 0xEF, CHR 0xBF, CHR 0xBD]"
    by (simp_all add: ToValidUTF8.simps rune_size_def byte_in_def)
  have c: "ToValidUTF8 (''/srv/'' @ [CHR 0xFF]) = ''/srv/'' @ [CHR 0xEF, CHR 0xBF, CHR 0xBD]"
    "ToValidUTF8 (''/srv/'' @ [CHR 0xEF, CHR 0xBF, CHR 0xBD]) =
       ''/srv/'' @ [CHR 0xEF, CHR 0xBF, CHR 0xBD]"
    by (simp_all add: ToValidUTF8.simps rune_size_def byte_in_def)
  have d: "json_Unmarshal T_FileListData (json_Marshal (listing [CHR 0xFF])) =
     Inr (listing [CHR 0xEF, CHR 0xBF, CHR 0xBD])"
    using a b c
    by (simp add: listing_def enc_FileListData_def dec_FileListData_def enc_FileItem_def
        dec_FileItem_def as_payload_def get_items_def get_string_def get_bool_def
        get_int_def field_defs)
  have e: "json_Marshal (listing [CHR 0xFF]) =
     json_Marshal (listing [CHR 0xEF, CHR 0xBF, CHR 0xBD])"
    using a b c
    by (simp add: listing_def enc_FileListData_def enc_FileItem_def field_defs)
  have 1: "decode_frame T_FileListData
       (MarshalMessage ''file_list'' (Some (listing [CHR 0xFF]))) =
     Inr (listing [CHR 0xEF, CHR 0xBF, CHR 0xBD])"
    using d by (simp add: decode_frame_MarshalMessage)
  have 2: "listing [CHR 0xEF, CHR 0xBF, CHR 0xBD] \<noteq> listing [CHR 0xFF]"
    by (simp add: listing_def)
  have 3: "type_of_payload (listing [CHR 0xFF]) = T_FileListData"
    by (simp add: listing_def)
  have 4: "MarshalMessage ''file_list'' (Some (listing [CHR 0xFF])) =
     MarshalMessage ''file_list'' (Some (listing [CHR 0xEF, CHR 0xBF, CHR 0xBD]))"
    using e by (simp add: MarshalMessage_def NewMessage_def)
  from 1 2 3 4 show ?thesis
    by (intro conjI)
qed

text \<open>
  Claim C9, amended. For every payload of the structs declared for the catalogued
  messages and every type string that is valid UTF-8: the frame \<open>MarshalMessage\<close> makes
  parses with \<open>ParseMessage\<close> to the envelope of that type with the encoded payload as
  its data, and \<open>UnmarshalData\<close> for the payload's own type gives the payload back,
  fields that were left out being read as the zero value they had, exactly when all
  strings of the payload are valid UTF-8. A message without payload is encoded as the
  object with the single member \<open>type\<close>, and parses back to the envelope of that type
  with no data.
\<close>

theorem message_round_trip:
  assumes "ValidString msgType"
  shows "ParseMessage (MarshalMessage msgType (Some p)) =
       Inr \<lparr>Message.Type = msgType, Message.Data = Some (json_Marshal p)\<rparr> \<and>
     (UnmarshalData (type_of_payload p)
        \<lparr>Message.Type = msgType, Message.Data = Some (json_Marshal p)\<rparr> = Inr p
      \<longleftrightarrow> valid_payload p) \<and>
     (decode_frame (type_of_payload p) (MarshalMessage msgType (Some p)) = Inr p
      \<longleftrightarrow> valid_payload p) \<and>
     MarshalMessage msgType None = JObject [(''type'', JString msgType)] \<and>
     ParseMessage (MarshalMessage msgType None) =
       Inr \<lparr>Message.Type = msgType, Message.Data = None\<rparr>"
proof -
  have some: "ParseMessage (MarshalMessage msgType (Some p)) =
       Inr \<lparr>Message.Type = msgType, Message.Data = Some (json_Marshal p)\<rparr>"
    using ParseMessage_MarshalMessage [OF assms, of "Some p"] by (simp add: NewMessage_def)
  have none: "ParseMessage (MarshalMessage msgType None) =
       Inr \<lparr>Message.Type = msgType, Message.Data = None\<rparr>"
    using ParseMessage_MarshalMessage [OF assms, of None] by (simp add: NewMessage_def)
  have omitted: "MarshalMessage msgType None = JObject [(''type'', JString msgType)]"
    using assms
    by (simp add: MarshalMessage_def NewMessage_def str_field_def ValidString_ToValidUTF8)
  have payload: "json_Unmarshal (type_of_payload p) (json_Marshal p) = Inr p
      \<longleftrightarrow> valid_payload p"
    by (rule payload_round_trip)
  then have data: "UnmarshalData (type_of_payload p)
        \<lparr>Message.Type = msgType, Message.Data = Some (json_Marshal p)\<rparr> = Inr p
      \<longleftrightarrow> valid_payload p"
    by (simp add: UnmarshalData_def)
  have frame: "decode_frame (type_of_payload p) (MarshalMessage msgType (Some p)) = Inr p
      \<longleftrightarrow> valid_payload p"
    using payload by (simp add: decode_frame_MarshalMessage)
  from some data frame omitted none show ?thesis
    by (intro conjI)
qed

theorem message_round_trip_witness:
  "ValidString ''file_list'' \<and> valid_payload (listing ''notes.txt'') \<and>
   decode_frame T_FileListData (MarshalMessage ''file_list'' (Some (listing ''notes.txt''))) =
     Inr (listing ''notes.txt'') \<and>
   \<not> valid_payload (listing [CHR 0xFF]) \<and>
   decode_frame T_FileListData (MarshalMessage ''file_list'' (Some (listing [CHR 0xFF]))) \<noteq>
     Inr (listing [CHR 0xFF]) \<and>
   MarshalMessage ''file_list'' None = JObject [(''type'', JString ''file_list'')]"
proof -
  have t: "ValidString ''file_list''"
    by (simp add: ValidString_ascii ValidString_Nil)
  have v: "valid_payload (listing ''notes.txt'')"
    by (simp add: listing_def valid_FileListData_def valid_FileItem_def ValidString_ascii
        ValidString_Nil)
  have n: "\<not> valid_payload (listing [CHR 0xFF])"
    by (simp add: listing_def valid_FileListData_def valid_FileItem_def ValidString_ascii
        ValidString_Nil ValidString.simps [of "[CHR 0xFF]"] rune_size_def byte_in_def)
  have ty: "type_of_payload (listing s) = T_FileListData" for s
    by (simp add: listing_def)
  from message_round_trip [OF t, of "listing ''notes.txt''"]
    message_round_trip [OF t, of "listing [CHR 0xFF]"] t v n ty
  show ?thesis
    by simp
qed

end
